theory Spec2Isabelle
  imports Main "HOL-Library.Sublist"
begin

section \<open>JavaScript values\<close>

text \<open>
  The agent runtime hands the plugin JSON: SDK messages and tool inputs. The transformer
  and the hooks read them with property access, \<open>||\<close>, \<open>??\<close>, \<open>===\<close> and
  \<open>typeof\<close>, so a message is modelled as an untyped JSON value. An object is an
  association list of its own properties. Numbers are only tested for truthiness
  (zero is falsy), so an integer stands for them.
\<close>

datatype jsval =
    JUndefined
  | JNull
  | JBool bool
  | JNum int
  | JStr string
  | JArr "jsval list"
  | JObj "(string \<times> jsval) list"

datatype js_error = TypeError | RangeError

text \<open>JavaScript truthiness: \<open>undefined\<close>, \<open>null\<close>, \<open>false\<close>, \<open>0\<close> and
  \<open>''\<close> are falsy, every array and object is truthy.\<close>

fun truthy :: "jsval \<Rightarrow> bool" where
  "truthy JUndefined = False"
| "truthy JNull = False"
| "truthy (JBool b) = b"
| "truthy (JNum n) = (n \<noteq> 0)"
| "truthy (JStr s) = (s \<noteq> [])"
| "truthy (JArr xs) = True"
| "truthy (JObj kvs) = True"

fun nullish :: "jsval \<Rightarrow> bool" where
  "nullish JUndefined = True"
| "nullish JNull = True"
| "nullish v = False"

text \<open>
  \<open>get v k\<close> is the value of \<open>v?.k\<close>: \<open>undefined\<close> on \<open>null\<close> and
  \<open>undefined\<close>, the own property of an object, and \<open>undefined\<close> on a primitive or
  an array (none of the property names the code reads is defined on a prototype).
  The plain access \<open>v.k\<close> throws a TypeError when \<open>v\<close> is nullish; the models below
  test \<open>nullish v\<close> at each place where the source reads a property of a value that
  nothing has tested before.
\<close>

fun get :: "jsval \<Rightarrow> string \<Rightarrow> jsval" where
  "get (JObj kvs) k = (case map_of kvs k of Some v \<Rightarrow> v | None \<Rightarrow> JUndefined)"
| "get v k = JUndefined"

text \<open>\<open>a || b\<close> and \<open>a ?? b\<close>.\<close>

definition js_or :: "jsval \<Rightarrow> jsval \<Rightarrow> jsval" where
  "js_or a b = (if truthy a then a else b)"

definition nullish_coalesce :: "jsval \<Rightarrow> jsval \<Rightarrow> jsval" where
  "nullish_coalesce a b = (if nullish a then b else a)"

fun isArray :: "jsval \<Rightarrow> bool" where
  "isArray (JArr xs) = True"
| "isArray v = False"

fun elems :: "jsval \<Rightarrow> jsval list" where
  "elems (JArr xs) = xs"
| "elems v = []"

fun isString :: "jsval \<Rightarrow> bool" where
  "isString (JStr s) = True"
| "isString v = False"

text \<open>The decimal numeral of a natural number, as a template literal prints an
  integral number.\<close>

fun digits10 :: "nat \<Rightarrow> string" where
  "digits10 n =
     (if n < 10 then [char_of (48 + n)]
      else digits10 (n div 10) @ [char_of (48 + n mod 10)])"

declare digits10.simps [simp del]

section \<open>The SDK message transformer (src/sdk/MessageTransformer.ts)\<close>

text \<open>
  \<open>transformSDKMessage\<close> is a generator. Its run is modelled by the list of the events
  it yields, in the order of the yields, paired with the error that ended the run, if
  one was thrown. An event is the object literal of the \<open>yield\<close>.

  Two things the generator reads are not part of the message. \<open>JSON.stringify(v, null, 2)\<close>
  is the platform's; it is the parameter \<open>stringify\<close>, which returns a value (a
  string, or \<open>undefined\<close>) or throws: a RangeError where the value is nested deeper
  than the platform's stack allows. \<open>Date.now()\<close> and
  \<open>Math.random().toString(36)\<close> are read once for each synthetic tool id:
  \<open>date_now e k\<close> and \<open>math_random36 e k\<close> are the readings for the \<open>k\<close>-th synthetic
  id of a run.
\<close>

record entropy =
  date_now :: "nat \<Rightarrow> nat"
  math_random36 :: "nat \<Rightarrow> string"

text \<open>\<open>`tool-${Date.now()}-${Math.random().toString(36).substring(2, 11)}`\<close>\<close>

definition synthetic_tool_id :: "entropy \<Rightarrow> nat \<Rightarrow> string" where
  "synthetic_tool_id e k =
     ''tool-'' @ digits10 (date_now e k) @ ''-'' @ take 9 (drop 2 (math_random36 e k))"

text \<open>\<open>`tool-${Date.now()}`\<close>\<close>

definition synthetic_stream_tool_id :: "entropy \<Rightarrow> nat \<Rightarrow> string" where
  "synthetic_stream_tool_id e k = ''tool-'' @ digits10 (date_now e k)"

text \<open>One turn of the loop over the content blocks of an assistant message, for a
  block that is not nullish: the events it yields and the number of synthetic ids made
  so far.\<close>

definition assistantBlock :: "entropy \<Rightarrow> jsval \<Rightarrow> nat \<Rightarrow> jsval \<Rightarrow> jsval list \<times> nat" where
  "assistantBlock e parentToolUseId k block =
     (if get block ''type'' = JStr ''thinking'' \<and> truthy (get block ''thinking'') then
        ([JObj [(''type'', JStr ''thinking''),
                (''content'', get block ''thinking''),
                (''parentToolUseId'', parentToolUseId)]], k)
      else if get block ''type'' = JStr ''text'' \<and> truthy (get block ''text'') then
        ([JObj [(''type'', JStr ''text''),
                (''content'', get block ''text''),
                (''parentToolUseId'', parentToolUseId)]], k)
      else if get block ''type'' = JStr ''tool_use'' then
        ([JObj [(''type'', JStr ''tool_use''),
                (''id'', if truthy (get block ''id'') then get block ''id''
                         else JStr (synthetic_tool_id e k)),
                (''name'', js_or (get block ''name'') (JStr ''unknown'')),
                (''input'', js_or (get block ''input'') (JObj [])),
                (''parentToolUseId'', parentToolUseId)]],
         if truthy (get block ''id'') then k else Suc k)
      else ([], k))"

text \<open>The loop itself. \<open>block.type\<close> is a plain property access: on a \<open>null\<close> or
  \<open>undefined\<close> element it throws, after the events of the earlier blocks.\<close>

fun assistantBlocks ::
  "entropy \<Rightarrow> jsval \<Rightarrow> nat \<Rightarrow> jsval list \<Rightarrow> jsval list \<times> js_error option" where
  "assistantBlocks e parentToolUseId k [] = ([], None)"
| "assistantBlocks e parentToolUseId k (block # blocks) =
     (if nullish block then ([], Some TypeError)
      else (case assistantBlock e parentToolUseId k block of
              (out, k') \<Rightarrow>
                (case assistantBlocks e parentToolUseId k' blocks of
                   (rest, err) \<Rightarrow> (out @ rest, err))))"

text \<open>
  The content of a tool result: the payload itself when it is a string, its
  serialization otherwise. \<open>JSON.stringify\<close> stands outside any \<open>try\<close>, so where it
  throws the generator throws.
\<close>

definition serialize :: "(jsval \<Rightarrow> js_error + jsval) \<Rightarrow> jsval \<Rightarrow> js_error + jsval" where
  "serialize stringify v = (if isString v then Inr v else stringify v)"

text \<open>The loop over the content blocks of a user message. A block that is not nullish
  yields its events or throws while its content is serialized.\<close>

definition userBlock ::
  "(jsval \<Rightarrow> js_error + jsval) \<Rightarrow> jsval \<Rightarrow> jsval \<Rightarrow> jsval \<Rightarrow> js_error + jsval list" where
  "userBlock stringify message parentToolUseId block =
     (if get block ''type'' = JStr ''tool_result'' then
        (case serialize stringify (get block ''content'') of
           Inl err \<Rightarrow> Inl err
         | Inr content \<Rightarrow>
             Inr [JObj [(''type'', JStr ''tool_result''),
                        (''id'', js_or (js_or (get block ''tool_use_id'')
                                              (get message ''parent_tool_use_id'')) (JStr [])),
                        (''content'', content),
                        (''isError'', js_or (get block ''is_error'') (JBool False)),
                        (''parentToolUseId'', parentToolUseId)]])
      else Inr [])"

fun userBlocks ::
  "(jsval \<Rightarrow> js_error + jsval) \<Rightarrow> jsval \<Rightarrow> jsval \<Rightarrow> jsval list
     \<Rightarrow> jsval list \<times> js_error option" where
  "userBlocks stringify message parentToolUseId [] = ([], None)"
| "userBlocks stringify message parentToolUseId (block # blocks) =
     (if nullish block then ([], Some TypeError)
      else (case userBlock stringify message parentToolUseId block of
              Inl err \<Rightarrow> ([], Some err)
            | Inr out \<Rightarrow>
                (case userBlocks stringify message parentToolUseId blocks of
                   (rest, err) \<Rightarrow> (out @ rest, err))))"

text \<open>The second part of the \<open>user\<close> case: the tool results among the content
  blocks, after the events \<open>yielded\<close> before them.\<close>

definition userContent ::
  "(jsval \<Rightarrow> js_error + jsval) \<Rightarrow> jsval \<Rightarrow> jsval \<Rightarrow> jsval list
     \<Rightarrow> jsval list \<times> js_error option" where
  "userContent stringify message parentToolUseId yielded =
     (let content = get (get message ''message'') ''content''
      in if truthy content \<and> isArray content then
           (case userBlocks stringify message parentToolUseId (elems content) of
              (out, err) \<Rightarrow> (yielded @ out, err))
         else (yielded, None))"

definition userMessage ::
  "(jsval \<Rightarrow> js_error + jsval) \<Rightarrow> jsval \<Rightarrow> jsval \<Rightarrow> jsval list \<times> js_error option" where
  "userMessage stringify message parentToolUseId =
     (if truthy (get message ''_blocked'') \<and> truthy (get message ''_blockReason'') then
        ([JObj [(''type'', JStr ''blocked''),
                (''content'', get message ''_blockReason'')]], None)
      else if get message ''tool_use_result'' \<noteq> JUndefined
                \<and> truthy (get message ''parent_tool_use_id'') then
        (case serialize stringify (get message ''tool_use_result'') of
           Inl err \<Rightarrow> ([], Some err)
         | Inr content \<Rightarrow>
             userContent stringify message parentToolUseId
               [JObj [(''type'', JStr ''tool_result''),
                      (''id'', get message ''parent_tool_use_id''),
                      (''content'', content),
                      (''isError'', JBool False),
                      (''parentToolUseId'', parentToolUseId)]])
      else userContent stringify message parentToolUseId [])"

definition streamEvent :: "entropy \<Rightarrow> jsval \<Rightarrow> jsval \<Rightarrow> jsval list" where
  "streamEvent e message parentToolUseId =
     (let event = get message ''event'';
          content_block = get event ''content_block'';
          delta = get event ''delta''
      in if get event ''type'' = JStr ''content_block_start''
            \<and> get content_block ''type'' = JStr ''tool_use'' then
           [JObj [(''type'', JStr ''tool_use''),
                  (''id'', if truthy (get content_block ''id'') then get content_block ''id''
                           else JStr (synthetic_stream_tool_id e 0)),
                  (''name'', js_or (get content_block ''name'') (JStr ''unknown'')),
                  (''input'', js_or (get content_block ''input'') (JObj [])),
                  (''parentToolUseId'', parentToolUseId)]]
         else if get event ''type'' = JStr ''content_block_start''
            \<and> get content_block ''type'' = JStr ''thinking'' then
           (if truthy (get content_block ''thinking'') then
              [JObj [(''type'', JStr ''thinking''),
                     (''content'', get content_block ''thinking''),
                     (''parentToolUseId'', parentToolUseId)]]
            else [])
         else if get event ''type'' = JStr ''content_block_start''
            \<and> get content_block ''type'' = JStr ''text'' then
           (if truthy (get content_block ''text'') then
              [JObj [(''type'', JStr ''text''),
                     (''content'', get content_block ''text''),
                     (''parentToolUseId'', parentToolUseId)]]
            else [])
         else if get event ''type'' = JStr ''content_block_delta'' then
           (if get delta ''type'' = JStr ''thinking_delta'' \<and> truthy (get delta ''thinking'') then
              [JObj [(''type'', JStr ''thinking''),
                     (''content'', get delta ''thinking''),
                     (''parentToolUseId'', parentToolUseId)]]
            else if get delta ''type'' = JStr ''text_delta'' \<and> truthy (get delta ''text'') then
              [JObj [(''type'', JStr ''text''),
                     (''content'', get delta ''text''),
                     (''parentToolUseId'', parentToolUseId)]]
            else [])
         else [])"

text \<open>The generator. \<open>message.parent_tool_use_id\<close> is its first read, a plain access.\<close>

definition transformSDKMessage ::
  "(jsval \<Rightarrow> js_error + jsval) \<Rightarrow> entropy \<Rightarrow> jsval
     \<Rightarrow> jsval list \<times> js_error option" where
  "transformSDKMessage stringify e message =
     (if nullish message then ([], Some TypeError)
      else
        (let parentToolUseId = nullish_coalesce (get message ''parent_tool_use_id'') JNull;
             content = get (get message ''message'') ''content''
         in if get message ''type'' = JStr ''system'' then
              (if get message ''subtype'' = JStr ''init'' \<and> truthy (get message ''session_id'')
               then ([JObj [(''type'', JStr ''session_init''),
                            (''sessionId'', get message ''session_id'')]], None)
               else ([], None))
            else if get message ''type'' = JStr ''assistant'' then
              (if truthy content \<and> isArray content
               then assistantBlocks e parentToolUseId 0 (elems content)
               else ([], None))
            else if get message ''type'' = JStr ''user'' then
              userMessage stringify message parentToolUseId
            else if get message ''type'' = JStr ''stream_event'' then
              (streamEvent e message parentToolUseId, None)
            else if get message ''type'' = JStr ''result'' then ([], None)
            else if get message ''type'' = JStr ''error'' then
              (if truthy (get message ''error'')
               then ([JObj [(''type'', JStr ''error''), (''content'', get message ''error'')]], None)
               else ([], None))
            else ([], None)))"

definition isSessionInitEvent :: "jsval \<Rightarrow> bool" where
  "isSessionInitEvent event = (get event ''type'' = JStr ''session_init'')"

definition isStreamChunk :: "jsval \<Rightarrow> bool" where
  "isStreamChunk event = (get event ''type'' \<noteq> JStr ''session_init'')"

text \<open>An event without the \<open>id\<close> of a tool call, and the number of tool calls
  among some blocks that carry no id of their own, for the statements about synthetic
  ids.\<close>

definition erase_tool_use_id :: "jsval \<Rightarrow> jsval" where
  "erase_tool_use_id event =
     (case event of
        JObj props \<Rightarrow>
          if get event ''type'' = JStr ''tool_use''
          then JObj (filter (\<lambda>prop. fst prop \<noteq> ''id'') props)
          else event
      | _ \<Rightarrow> event)"

definition synthetic_count :: "jsval list \<Rightarrow> nat" where
  "synthetic_count blocks =
     length (filter (\<lambda>block. get block ''type'' = JStr ''tool_use''
                          \<and> \<not> truthy (get block ''id'')) blocks)"

text \<open>The two kinds of event a chunk of the transformer's output can be, for the
  statements about \<open>parentToolUseId\<close>: a chunk routed to a sub-task carries the
  property, the other events do not have it.\<close>

definition routed :: "jsval \<Rightarrow> jsval \<Rightarrow> bool" where
  "routed parentToolUseId event =
     (get event ''type'' \<in> {JStr ''thinking'', JStr ''text'', JStr ''tool_use'', JStr ''tool_result''}
      \<and> get event ''parentToolUseId'' = parentToolUseId)"

definition unrouted :: "jsval \<Rightarrow> bool" where
  "unrouted event =
     (get event ''type'' \<in> {JStr ''blocked'', JStr ''error'', JStr ''session_init''}
      \<and> get event ''parentToolUseId'' = JUndefined)"

section \<open>Paths and containment (src/utils.ts)\<close>

text \<open>
  \<open>isPathWithinVault\<close> calls Node's \<open>path\<close> module, \<open>os.homedir()\<close> and
  \<open>fs.realpathSync\<close>. The \<open>path\<close> functions are modelled as Node defines them on
  POSIX (\<open>path.sep\<close> is \<open>/\<close>); the home directory, the working directory of the
  process and the file system are the record \<open>host\<close>. \<open>fs_realpathSync h p = None\<close>
  stands for the call throwing (the target does not exist).
\<close>

record host =
  fs_realpathSync :: "string \<Rightarrow> string option"
  fs_existsSync :: "string \<Rightarrow> bool"
  os_homedir :: string
  process_cwd :: string

definition isAbsolute :: "string \<Rightarrow> bool" where
  "isAbsolute p = (case p of [] \<Rightarrow> False | c # cs \<Rightarrow> c = CHR ''/'')"

text \<open>The segments of a path between its separators, and their concatenation with
  the separator.\<close>

fun split_sep :: "string \<Rightarrow> string list" where
  "split_sep [] = [[]]"
| "split_sep (c # cs) =
     (if c = CHR ''/'' then [] # split_sep cs
      else (case split_sep cs of [] \<Rightarrow> [[c]] | seg # segs \<Rightarrow> (c # seg) # segs))"

fun join_sep :: "string list \<Rightarrow> string" where
  "join_sep [] = []"
| "join_sep [seg] = seg"
| "join_sep (seg # segs) = seg @ ''/'' @ join_sep segs"

text \<open>Node's \<open>normalizeString\<close>: empty segments and \<open>.\<close> are dropped, \<open>..\<close> removes
  the segment before it, or is kept when there is none to remove and the path may
  climb above its start.\<close>

definition normalize_step :: "bool \<Rightarrow> string list \<Rightarrow> string \<Rightarrow> string list" where
  "normalize_step allowAboveRoot res seg =
     (if seg = [] \<or> seg = ''.'' then res
      else if seg = ''..'' then
        (if res \<noteq> [] \<and> last res \<noteq> ''..'' then butlast res
         else if allowAboveRoot then res @ [''..'']
         else res)
      else res @ [seg])"

definition normalize_segments :: "bool \<Rightarrow> string \<Rightarrow> string list" where
  "normalize_segments allowAboveRoot path =
     foldl (normalize_step allowAboveRoot) [] (split_sep path)"

definition normalizeString :: "bool \<Rightarrow> string \<Rightarrow> string" where
  "normalizeString allowAboveRoot path = join_sep (normalize_segments allowAboveRoot path)"

text \<open>Segments as normalisation leaves them: none is empty and none holds a
  separator.\<close>

definition clean :: "string list \<Rightarrow> bool" where
  "clean xs = (\<forall>seg \<in> set xs. seg \<noteq> [] \<and> CHR ''/'' \<notin> set seg)"

text \<open>\<open>path.resolve(...args)\<close>: the arguments are taken from the right until one is
  absolute, then the working directory; the result is normalised.\<close>

fun resolve_args :: "string \<Rightarrow> string list \<Rightarrow> string \<Rightarrow> string \<times> bool" where
  "resolve_args wd [] resolvedPath =
     (if wd = [] then (resolvedPath, False)
      else (wd @ ''/'' @ resolvedPath, isAbsolute wd))"
| "resolve_args wd (p # ps) resolvedPath =
     (if p = [] then resolve_args wd ps resolvedPath
      else if isAbsolute p then (p @ ''/'' @ resolvedPath, True)
      else resolve_args wd ps (p @ ''/'' @ resolvedPath))"

definition path_resolve :: "string \<Rightarrow> string list \<Rightarrow> string" where
  "path_resolve wd args =
     (case resolve_args wd (rev args) [] of
        (resolvedPath, resolvedAbsolute) \<Rightarrow>
          (let normalized = normalizeString (\<not> resolvedAbsolute) resolvedPath
           in if resolvedAbsolute then ''/'' @ normalized
              else if normalized \<noteq> [] then normalized
              else ''.''))"

definition path_normalize :: "string \<Rightarrow> string" where
  "path_normalize path =
     (if path = [] then ''.''
      else
        (let absolute = isAbsolute path;
             trailingSeparator = (last path = CHR ''/'');
             normalized = normalizeString (\<not> absolute) path
         in if normalized = [] then
              (if absolute then ''/'' else if trailingSeparator then ''./'' else ''.'')
            else (if absolute then ''/'' else []) @ normalized
                   @ (if trailingSeparator then ''/'' else [])))"

definition path_join :: "string list \<Rightarrow> string" where
  "path_join args =
     (let joined = join_sep (filter (\<lambda>arg. arg \<noteq> []) args)
      in if joined = [] then ''.'' else path_normalize joined)"

text \<open>\<open>resolveRealPath\<close> and \<open>isPathWithinVault\<close>, as in the source.\<close>

definition resolveRealPath :: "host \<Rightarrow> string \<Rightarrow> string" where
  "resolveRealPath h p =
     (case fs_realpathSync h p of
        Some real \<Rightarrow> real
      | None \<Rightarrow> path_resolve (process_cwd h) [p])"

definition isPathWithinVault :: "host \<Rightarrow> string \<Rightarrow> string \<Rightarrow> bool" where
  "isPathWithinVault h candidatePath vaultPath =
     (let vaultReal = resolveRealPath h vaultPath;
          expandedPath =
            (if prefix ''~/'' candidatePath
             then path_join [os_homedir h, drop 2 candidatePath]
             else candidatePath);
          absCandidate =
            (if isAbsolute expandedPath then expandedPath
             else path_resolve (process_cwd h) [vaultPath, expandedPath]);
          resolvedCandidate = resolveRealPath h absCandidate
      in resolvedCandidate = vaultReal \<or> prefix (vaultReal @ ''/'') resolvedCandidate)"

text \<open>
  For the statements about canonical forms: the absolute path that \<open>isPathWithinVault\<close>
  hands to \<open>resolveRealPath\<close> for a candidate (its \<open>absCandidate\<close>); the segments
  of the canonical form of a path, which is its \<open>realpath\<close> where that exists and the
  path itself otherwise; and what \<open>realpath\<close> promises of its result, that it is an
  absolute path in normal form.
\<close>

definition absCandidate :: "host \<Rightarrow> string \<Rightarrow> string \<Rightarrow> string" where
  "absCandidate h candidatePath vaultPath =
     (let expandedPath =
            (if prefix ''~/'' candidatePath
             then path_join [os_homedir h, drop 2 candidatePath]
             else candidatePath)
      in if isAbsolute expandedPath then expandedPath
         else path_resolve (process_cwd h) [vaultPath, expandedPath])"

definition canonical_segments :: "host \<Rightarrow> string \<Rightarrow> string list" where
  "canonical_segments h p =
     normalize_segments False (case fs_realpathSync h p of Some real \<Rightarrow> real | None \<Rightarrow> p)"

definition realpath_normal :: "host \<Rightarrow> string \<Rightarrow> bool" where
  "realpath_normal h p =
     (case fs_realpathSync h p of
        Some real \<Rightarrow> real = ''/'' @ join_sep (normalize_segments False real)
      | None \<Rightarrow> True)"

definition findClaudeCLIPath :: "host \<Rightarrow> string option" where
  "findClaudeCLIPath h =
     List.find (fs_existsSync h)
       [path_join [os_homedir h, ''.claude'', ''local'', ''claude''],
        path_join [os_homedir h, ''.local'', ''bin'', ''claude''],
        ''/usr/local/bin/claude'',
        ''/opt/homebrew/bin/claude'',
        path_join [os_homedir h, ''bin'', ''claude'']]"

section \<open>The vault restriction hook (src/hooks/SecurityHooks.ts)\<close>

text \<open>
  The hook's context holds two predicates and an optional callback. The callback is an
  effect: the hook's model returns, beside its result, the list of the calls it made to
  \<open>onEditBlocked\<close> (none when no callback is registered).
\<close>

record VaultRestrictionContext =
  ctx_isPathWithinVault :: "string \<Rightarrow> bool"
  ctx_isAllowedExportPath :: "string \<Rightarrow> bool"
  ctx_onEditBlocked :: bool

datatype violation_kind = ExportPathReadAttempt | OutsideRoot

record PathViolation =
  violation_type :: violation_kind
  violation_path :: string

record HookSpecificOutput =
  hookEventName :: string
  permissionDecision :: string
  permissionDecisionReason :: string

record HookResult =
  continue :: bool
  hookSpecificOutput :: "HookSpecificOutput option"

definition allow :: HookResult where
  "allow = \<lparr>continue = True, hookSpecificOutput = None\<rparr>"

definition deny :: "string \<Rightarrow> HookResult" where
  "deny reason =
     \<lparr>continue = False,
      hookSpecificOutput =
        Some \<lparr>hookEventName = ''PreToolUse'', permissionDecision = ''deny'',
              permissionDecisionReason = reason\<rparr>\<rparr>"

text \<open>
  The hook imports \<open>TOOL_BASH\<close>, \<open>isFileTool\<close>, \<open>isEditTool\<close>,
  \<open>getPathFromToolInput\<close> and \<open>findBashCommandPathViolation\<close> from modules that are
  not among the sources. They are the fields of \<open>tools\<close>: the hook is modelled for
  any such functions. \<open>getPathFromToolInput\<close> returns a string or \<open>null\<close>.
\<close>

record tools =
  TOOL_BASH :: string
  isFileTool :: "string \<Rightarrow> bool"
  isEditTool :: "string \<Rightarrow> bool"
  getPathFromToolInput :: "string \<Rightarrow> jsval \<Rightarrow> string option"
  findBashCommandPathViolation :: "jsval \<Rightarrow> VaultRestrictionContext \<Rightarrow> PathViolation option"

definition createVaultRestrictionHook ::
  "tools \<Rightarrow> VaultRestrictionContext \<Rightarrow> string \<Rightarrow> jsval \<Rightarrow> HookResult \<times> (string \<times> jsval) list" where
  "createVaultRestrictionHook T context toolName tool_input =
     (if toolName = TOOL_BASH T then
        (let command = js_or (get tool_input ''command'') (JStr [])
         in case findBashCommandPathViolation T command context of
              Some violation \<Rightarrow>
                (deny
                   (if violation_type violation = ExportPathReadAttempt
                    then ''Access denied: Command path '' @ [CHR 0x22] @ violation_path violation
                           @ [CHR 0x22]
                           @ '' is in an allowed export directory, but export paths are write-only.''
                    else ''Access denied: Command path '' @ [CHR 0x22] @ violation_path violation
                           @ [CHR 0x22]
                           @ '' is outside the vault. Agent is restricted to vault directory only.''),
                 [])
            | None \<Rightarrow> (allow, []))
      else if \<not> isFileTool T toolName then (allow, [])
      else
        (case getPathFromToolInput T toolName tool_input of
           None \<Rightarrow> (allow, [])
         | Some filePath \<Rightarrow>
             if filePath \<noteq> [] \<and> \<not> ctx_isPathWithinVault context filePath then
               (if isEditTool T toolName \<and> ctx_isAllowedExportPath context filePath
                then (allow, [])
                else
                  (deny (''Access denied: Path '' @ [CHR 0x22] @ filePath @ [CHR 0x22]
                           @ '' is outside the vault. Agent is restricted to vault directory only.''),
                   if isEditTool T toolName \<and> ctx_onEditBlocked context
                   then [(toolName, tool_input)] else []))
             else (allow, [])))"

subsection \<open>The command path scanner\<close>

datatype access = ReadAccess | WriteAccess

text \<open>
  Modelled from the spec: \<open>findBashCommandPathViolation\<close> (the spec's
  \<open>CommandPathScanner.scan\<close>, src/security/BashPathValidator.ts) is missing from the
  sources. The spec fixes what happens to each candidate path once the command is split
  into paths with their read or write intent; it does not fix the tokenizer, which is
  the parameter \<open>tokenize\<close>. For each candidate: under an export path with write
  intent it is allowed; under an export path with read intent it is denied as
  \<open>ExportPathReadAttempt\<close>; outside the root and not covered by the export exception
  it is denied as \<open>OutsideRoot\<close>. The first violation ends the scan.
\<close>

definition checkCandidate :: "VaultRestrictionContext \<Rightarrow> string \<times> access \<Rightarrow> PathViolation option" where
  "checkCandidate context candidate =
     (case candidate of
        (p, intent) \<Rightarrow>
          if ctx_isAllowedExportPath context p \<and> intent = WriteAccess then None
          else if ctx_isAllowedExportPath context p \<and> intent = ReadAccess then
            Some \<lparr>violation_type = ExportPathReadAttempt, violation_path = p\<rparr>
          else if \<not> ctx_isPathWithinVault context p then
            Some \<lparr>violation_type = OutsideRoot, violation_path = p\<rparr>
          else None)"

fun scanCandidates :: "VaultRestrictionContext \<Rightarrow> (string \<times> access) list \<Rightarrow> PathViolation option" where
  "scanCandidates context [] = None"
| "scanCandidates context (candidate # candidates) =
     (case checkCandidate context candidate of
        Some violation \<Rightarrow> Some violation
      | None \<Rightarrow> scanCandidates context candidates)"

definition CommandPathScanner_scan ::
  "(jsval \<Rightarrow> (string \<times> access) list) \<Rightarrow> jsval \<Rightarrow> VaultRestrictionContext \<Rightarrow> PathViolation option" where
  "CommandPathScanner_scan tokenize command context = scanCandidates context (tokenize command)"

section \<open>The instruction refine service (src/InstructionRefineService.ts)\<close>

subsection \<open>Its vault restriction hook\<close>

text \<open>
  The service has a hook of its own, for its three read-only tools. The path is read
  from the tool input in line. \<open>toolInput.file_path\<close> is a plain access, and
  \<open>isPathWithinVault\<close> calls \<open>candidatePath.startsWith\<close>: a tool input that is
  nullish, and a truthy path that is not a string, end the hook with a TypeError.
\<close>

definition refine_filePath :: "string \<Rightarrow> jsval \<Rightarrow> jsval" where
  "refine_filePath toolName toolInput =
     (if toolName = ''Read'' then js_or (get toolInput ''file_path'') (JStr [])
      else js_or (js_or (get toolInput ''path'') (get toolInput ''pattern'')) (JStr []))"

definition refine_createVaultRestrictionHook ::
  "host \<Rightarrow> string \<Rightarrow> string \<Rightarrow> jsval \<Rightarrow> js_error + HookResult" where
  "refine_createVaultRestrictionHook h vaultPath toolName toolInput =
     (if toolName = ''Read'' \<or> toolName = ''Glob'' \<or> toolName = ''Grep'' then
        (if nullish toolInput then Inl TypeError
         else
           (let filePath = refine_filePath toolName toolInput
            in if truthy filePath then
                 (case filePath of
                    JStr p \<Rightarrow>
                      if \<not> isPathWithinVault h p vaultPath then
                        Inr (deny (''Access denied: '' @ [CHR 0x22] @ p @ [CHR 0x22]
                                     @ '' is outside the vault''))
                      else Inr allow
                  | _ \<Rightarrow> Inl TypeError)
               else Inr allow))
      else Inr allow)"

subsection \<open>Parsing the response\<close>

text \<open>
  The response text is a JavaScript string: a list of UTF-16 code units, here natural
  numbers. \<open>utf16\<close> turns an ASCII literal into code units. \<open>trim\<close> removes the
  white space and line terminators of ECMAScript from both ends.
\<close>

type_synonym jstext = "nat list"

definition utf16 :: "string \<Rightarrow> jstext" where
  "utf16 s = map of_char s"

definition isWhiteSpace :: "nat \<Rightarrow> bool" where
  "isWhiteSpace c =
     (c \<in> {0x09, 0x0A, 0x0B, 0x0C, 0x0D, 0x20, 0xA0, 0x1680, 0x2028, 0x2029, 0x202F, 0x205F,
            0x3000, 0xFEFF}
      \<or> (0x2000 \<le> c \<and> c \<le> 0x200A))"

definition trim :: "jstext \<Rightarrow> jstext" where
  "trim s = rev (dropWhile isWhiteSpace (rev (dropWhile isWhiteSpace s)))"

text \<open>\<open>find_sub pat s\<close> splits \<open>s\<close> around the first occurrence of \<open>pat\<close>.\<close>

fun find_sub :: "'a list \<Rightarrow> 'a list \<Rightarrow> ('a list \<times> 'a list) option" where
  "find_sub pat [] = (if pat = [] then Some ([], []) else None)"
| "find_sub pat (x # xs) =
     (if prefix pat (x # xs) then Some ([], drop (length pat) (x # xs))
      else (case find_sub pat xs of
              None \<Rightarrow> None
            | Some (before, after) \<Rightarrow> Some (x # before, after)))"

text \<open>
  \<open>responseText.match(/<instruction>([\s\S]*?)<\/instruction>/)\<close>: the match starts
  at the leftmost opening tag that a closing tag follows, which is the first opening
  tag when any is followed by one, and the lazy group stops at the first closing tag
  after it. The value is the captured group.
\<close>

definition instructionMatch :: "jstext \<Rightarrow> jstext option" where
  "instructionMatch responseText =
     (case find_sub (utf16 ''<instruction>'') responseText of
        None \<Rightarrow> None
      | Some (before, after) \<Rightarrow>
          (case find_sub (utf16 ''</instruction>'') after of
             None \<Rightarrow> None
           | Some (captured, rest) \<Rightarrow> Some captured))"

record InstructionRefineResult =
  success :: bool
  refinedInstruction :: "jstext option"
  clarification :: "jstext option"
  error :: "string option"

definition failure :: "string \<Rightarrow> InstructionRefineResult" where
  "failure msg =
     \<lparr>success = False, refinedInstruction = None, clarification = None, error = Some msg\<rparr>"

definition parseResponse :: "jstext \<Rightarrow> InstructionRefineResult" where
  "parseResponse responseText =
     (case instructionMatch responseText of
        Some captured \<Rightarrow>
          \<lparr>success = True, refinedInstruction = Some (trim captured), clarification = None,
           error = None\<rparr>
      | None \<Rightarrow>
          (let trimmed = trim responseText
           in if trimmed \<noteq> [] then
                \<lparr>success = True, refinedInstruction = None, clarification = Some trimmed,
                 error = None\<rparr>
              else failure ''Empty response''))"

subsection \<open>The service and its turns\<close>

text \<open>
  The fields of the service, and the abort controllers it has made: \<open>controllers s ! c\<close>
  is the \<open>aborted\<close> flag of the \<open>c\<close>-th controller. A controller is shared between
  the service (\<open>abortController\<close>) and the options handed to the runtime, so it lives in
  this store and the two hold its index.
\<close>

record service =
  abortController :: "nat option"
  resolvedClaudePath :: "string option"
  sessionId :: "string option"
  existingInstructions :: string
  controllers :: "bool list"

text \<open>A message of the stream, with the fields the service reads, typed as the
  source declares them for \<open>extractTextFromMessage\<close>.\<close>

record content_block =
  block_type :: string
  block_text :: "jstext option"

record sdk_message =
  msg_type :: string
  msg_subtype :: "string option"
  msg_session_id :: "string option"
  msg_content :: "content_block list option"

datatype pre_tool_hook = ReadOnlyHook | VaultRestrictionHook string

record Options =
  opt_cwd :: string
  opt_systemPrompt :: string
  opt_model :: string
  opt_abortController :: nat
  opt_pathToClaudeCodeExecutable :: string
  opt_env :: "(string \<times> string) list"
  opt_allowedTools :: "string list"
  opt_permissionMode :: string
  opt_allowDangerouslySkipPermissions :: bool
  opt_hooks_PreToolUse :: "pre_tool_hook list"
  opt_resume :: "string option"
  opt_maxThinkingTokens :: "nat option"

text \<open>
  What the service reads from the plugin and from modules that are not among the
  sources: the vault adapter's \<open>basePath\<close>, the settings, the environment handed to the
  runtime (\<open>process.env\<close> overlaid with the parsed custom variables), the table
  \<open>THINKING_BUDGETS\<close> (value and tokens), the tool names of \<open>READ_ONLY_TOOLS\<close> and
  the text of the system prompt, which no statement below depends on.
\<close>

record plugin =
  adapter_basePath :: "string option"
  settings_model :: string
  settings_thinkingBudget :: string
  environment :: "(string \<times> string) list"
  THINKING_BUDGETS :: "(string \<times> nat) list"
  READ_ONLY_TOOLS :: "string list"
  buildRefineSystemPrompt :: "string \<Rightarrow> string"

text \<open>
  The runtime. \<open>agentQuery\<close> throws or returns a stream. While the service awaits the
  next message its owner may call \<open>cancel()\<close>: the stream is the list of the messages
  in their order, with the calls of \<open>cancel\<close> that arrive between them. The iteration
  may end by throwing (\<open>stream_failure\<close>), and so may \<open>interrupt()\<close>.
\<close>

datatype thrown = ErrorWithMessage string | NotAnError

datatype stream_step = Message sdk_message | CancelCalled

record query_response =
  steps :: "stream_step list"
  stream_failure :: "thrown option"
  interrupt_failure :: "thrown option"

text \<open>What a call of the service did: its result, the service afterwards, the queries
  it opened on the runtime, the interrupts it sent and the progress updates it made.
  \<open>noTurn msg s\<close> below is a call that returns the failure \<open>msg\<close> before it
  reaches the runtime.\<close>

record turn =
  turn_result :: InstructionRefineResult
  turn_service :: service
  turn_queries :: "(string \<times> Options) list"
  turn_interrupts :: nat
  turn_progress :: "InstructionRefineResult list"

definition getVaultPath :: "plugin \<Rightarrow> string option" where
  "getVaultPath pl = adapter_basePath pl"

text \<open>\<open>!s\<close> for a value that is a string or \<open>null\<close>.\<close>

definition falsy :: "string option \<Rightarrow> bool" where
  "falsy s = (s = None \<or> s = Some [])"

definition resetConversation :: "service \<Rightarrow> service" where
  "resetConversation s = s\<lparr>sessionId := None\<rparr>"

definition cancel :: "service \<Rightarrow> service" where
  "cancel s =
     (case abortController s of
        Some c \<Rightarrow> s\<lparr>controllers := (controllers s)[c := True], abortController := None\<rparr>
      | None \<Rightarrow> s)"

text \<open>\<open>this.abortController?.signal.aborted\<close>\<close>

definition signal_aborted :: "service \<Rightarrow> bool" where
  "signal_aborted s =
     (case abortController s of
        Some c \<Rightarrow> c < length (controllers s) \<and> controllers s ! c
      | None \<Rightarrow> False)"

definition extractTextFromMessage :: "sdk_message \<Rightarrow> jstext" where
  "extractTextFromMessage message =
     (case msg_content message of
        None \<Rightarrow> []
      | Some content \<Rightarrow>
          if msg_type message \<noteq> ''assistant'' then []
          else concat
                 (map (\<lambda>block. case block_text block of Some t \<Rightarrow> t | None \<Rightarrow> [])
                    (filter (\<lambda>block. block_type block = ''text''
                                \<and> block_text block \<noteq> None \<and> block_text block \<noteq> Some [])
                       content)))"

definition error_message :: "thrown \<Rightarrow> string" where
  "error_message t = (case t of ErrorWithMessage msg \<Rightarrow> msg | NotAnError \<Rightarrow> ''Unknown error'')"

text \<open>The \<open>for await\<close> loop: the service, the response text and the progress updates
  after the stream, and whether the loop was left by the cancellation branch.\<close>

fun forAwait ::
  "bool \<Rightarrow> stream_step list \<Rightarrow> service \<Rightarrow> jstext \<Rightarrow> InstructionRefineResult list
     \<Rightarrow> bool \<times> service \<times> jstext \<times> InstructionRefineResult list" where
  "forAwait onProgress [] s responseText progress = (False, s, responseText, progress)"
| "forAwait onProgress (CancelCalled # rest) s responseText progress =
     forAwait onProgress rest (cancel s) responseText progress"
| "forAwait onProgress (Message message # rest) s responseText progress =
     (if signal_aborted s then (True, s, responseText, progress)
      else
        (let s' = (if msg_type message = ''system'' \<and> msg_subtype message = Some ''init''
                      \<and> \<not> falsy (msg_session_id message)
                   then s\<lparr>sessionId := msg_session_id message\<rparr> else s);
             text = extractTextFromMessage message
         in if text \<noteq> [] then
              forAwait onProgress rest s' (responseText @ text)
                (if onProgress then progress @ [parseResponse (responseText @ text)]
                 else progress)
            else forAwait onProgress rest s' responseText progress))"

text \<open>The options of a turn: the object literal of \<open>sendMessage\<close> with the two
  fields it sets afterwards, \<open>resume\<close> when the service has a session id and
  \<open>maxThinkingTokens\<close> when the budget found in the table has tokens.\<close>

definition turnOptions :: "plugin \<Rightarrow> string \<Rightarrow> string \<Rightarrow> nat \<Rightarrow> service \<Rightarrow> Options" where
  "turnOptions pl vaultPath claudePath c s =
     \<lparr>opt_cwd = vaultPath,
      opt_systemPrompt = buildRefineSystemPrompt pl (existingInstructions s),
      opt_model = settings_model pl,
      opt_abortController = c,
      opt_pathToClaudeCodeExecutable = claudePath,
      opt_env = environment pl,
      opt_allowedTools = READ_ONLY_TOOLS pl,
      opt_permissionMode = ''bypassPermissions'',
      opt_allowDangerouslySkipPermissions = True,
      opt_hooks_PreToolUse = [ReadOnlyHook, VaultRestrictionHook vaultPath],
      opt_resume = (if falsy (sessionId s) then None else sessionId s),
      opt_maxThinkingTokens =
        (case List.find (\<lambda>b. fst b = settings_thinkingBudget pl) (THINKING_BUDGETS pl) of
           None \<Rightarrow> None
         | Some b \<Rightarrow> if snd b > 0 then Some (snd b) else None)\<rparr>"

text \<open>The \<open>try\<close> block of \<open>sendMessage\<close> with its \<open>catch\<close> and \<open>finally\<close>: the
  query is opened, the stream is consumed, and the controller is forgotten on every
  way out.\<close>

definition tryQuery ::
  "(string \<Rightarrow> Options \<Rightarrow> thrown + query_response) \<Rightarrow> string \<Rightarrow> Options \<Rightarrow> bool
     \<Rightarrow> service \<Rightarrow> turn" where
  "tryQuery agentQuery prompt options onProgress s =
     (case agentQuery prompt options of
        Inl t \<Rightarrow>
          \<lparr>turn_result = failure (error_message t),
           turn_service = s\<lparr>abortController := None\<rparr>,
           turn_queries = [(prompt, options)], turn_interrupts = 0, turn_progress = []\<rparr>
      | Inr response \<Rightarrow>
          (case forAwait onProgress (steps response) s [] [] of
             (cancelled, s', responseText, progress) \<Rightarrow>
               \<lparr>turn_result =
                  (if cancelled then
                     (case interrupt_failure response of
                        None \<Rightarrow> failure ''Cancelled''
                      | Some t \<Rightarrow> failure (error_message t))
                   else
                     (case stream_failure response of
                        None \<Rightarrow> parseResponse responseText
                      | Some t \<Rightarrow> failure (error_message t))),
                turn_service = s'\<lparr>abortController := None\<rparr>,
                turn_queries = [(prompt, options)],
                turn_interrupts = (if cancelled then 1 else 0),
                turn_progress = progress\<rparr>))"

definition noTurn :: "string \<Rightarrow> service \<Rightarrow> turn" where
  "noTurn msg s =
     \<lparr>turn_result = failure msg, turn_service = s, turn_queries = [], turn_interrupts = 0,
      turn_progress = []\<rparr>"

definition sendMessage ::
  "host \<Rightarrow> plugin \<Rightarrow> (string \<Rightarrow> Options \<Rightarrow> thrown + query_response) \<Rightarrow> string \<Rightarrow> bool
     \<Rightarrow> service \<Rightarrow> turn" where
  "sendMessage h pl agentQuery prompt onProgress s =
     (case getVaultPath pl of
        None \<Rightarrow> noTurn ''Could not determine vault path'' s
      | Some vaultPath \<Rightarrow>
          if vaultPath = [] then noTurn ''Could not determine vault path'' s
          else
            (let s1 = (if falsy (resolvedClaudePath s)
                       then s\<lparr>resolvedClaudePath := findClaudeCLIPath h\<rparr> else s)
             in case resolvedClaudePath s1 of
                  None \<Rightarrow> noTurn ''Claude CLI not found. Please install Claude Code CLI.'' s1
                | Some claudePath \<Rightarrow>
                    if claudePath = [] then
                      noTurn ''Claude CLI not found. Please install Claude Code CLI.'' s1
                    else
                      (let c = length (controllers s1);
                           s2 = s1\<lparr>controllers := controllers s1 @ [False],
                                   abortController := Some c\<rparr>
                       in tryQuery agentQuery prompt (turnOptions pl vaultPath claudePath c s2)
                            onProgress s2)))"

definition refineInstruction ::
  "host \<Rightarrow> plugin \<Rightarrow> (string \<Rightarrow> Options \<Rightarrow> thrown + query_response) \<Rightarrow> string \<Rightarrow> string
     \<Rightarrow> bool \<Rightarrow> service \<Rightarrow> turn" where
  "refineInstruction h pl agentQuery rawInstruction existing onProgress s =
     sendMessage h pl agentQuery
       (''Please refine this instruction: '' @ [CHR 0x22] @ rawInstruction @ [CHR 0x22])
       onProgress (s\<lparr>sessionId := None, existingInstructions := existing\<rparr>)"

definition continueConversation ::
  "host \<Rightarrow> plugin \<Rightarrow> (string \<Rightarrow> Options \<Rightarrow> thrown + query_response) \<Rightarrow> string \<Rightarrow> bool
     \<Rightarrow> service \<Rightarrow> turn" where
  "continueConversation h pl agentQuery message onProgress s =
     (if falsy (sessionId s) then noTurn ''No active conversation to continue'' s
      else sendMessage h pl agentQuery message onProgress s)"

section \<open>Instances for the examples\<close>

text \<open>
  The concrete hosts, services and hooks at which the theorems below are instantiated.
  On \<open>lexical_host\<close> no path exists, so \<open>realpath\<close> always throws and canonical
  forms are lexical; \<open>installed_host\<close> has the Claude executable in
  \<open>/usr/local/bin\<close>. \<open>example_runtime\<close> answers every query with a system-init
  message of session \<open>s1\<close> and one assistant message. \<open>example_tools\<close> reads the
  path of a file tool from the string \<open>file_path\<close>, and its scanner is the scanner of
  the spec with a tokenizer that knows three commands. \<open>entropy_a\<close> and \<open>entropy_b\<close>
  are two readings of the clock and the random source. On \<open>symlink_host\<close> the vault
  \<open>/vault\<close> is a link to \<open>/data/vault\<close>, and \<open>/vault/out\<close> a link to a file
  outside it. \<open>stringify_stub\<close> serializes everything to \<open>{}\<close>;
  \<open>stringify_overflow\<close> stands for a platform whose serializer runs out of stack on
  an array nested three deep (a real one does so far deeper).
\<close>

definition lexical_host :: host where
  "lexical_host =
     \<lparr>fs_realpathSync = (\<lambda>p. None), fs_existsSync = (\<lambda>p. False),
      os_homedir = ''/home/u'', process_cwd = ''/srv''\<rparr>"

definition installed_host :: host where
  "installed_host =
     \<lparr>fs_realpathSync = (\<lambda>p. None), fs_existsSync = (\<lambda>p. p = ''/usr/local/bin/claude''),
      os_homedir = ''/home/u'', process_cwd = ''/srv''\<rparr>"

definition example_plugin :: plugin where
  "example_plugin =
     \<lparr>adapter_basePath = Some ''/vault'', settings_model = ''sonnet'',
      settings_thinkingBudget = ''off'', environment = [], THINKING_BUDGETS = [(''off'', 0)],
      READ_ONLY_TOOLS = [''Read'', ''Grep'', ''Glob''], buildRefineSystemPrompt = (\<lambda>x. x)\<rparr>"

definition example_runtime :: "string \<Rightarrow> Options \<Rightarrow> thrown + query_response" where
  "example_runtime =
     (\<lambda>prompt options. Inr
        \<lparr>steps = [Message \<lparr>msg_type = ''system'', msg_subtype = Some ''init'',
                            msg_session_id = Some ''s1'', msg_content = None\<rparr>,
                  Message \<lparr>msg_type = ''assistant'', msg_subtype = None,
                            msg_session_id = None,
                            msg_content = Some [\<lparr>block_type = ''text'',
                                                 block_text = Some (utf16 ''Which one?'')\<rparr>]\<rparr>],
         stream_failure = None, interrupt_failure = None\<rparr>)"

definition fresh_service :: service where
  "fresh_service =
     \<lparr>abortController = None, resolvedClaudePath = None, sessionId = None,
      existingInstructions = [], controllers = []\<rparr>"

definition example_tokenize :: "jsval \<Rightarrow> (string \<times> access) list" where
  "example_tokenize =
     (\<lambda>command. if command = JStr ''cat /export/a.txt''
                 then [(''/export/a.txt'', ReadAccess)]
                 else if command = JStr ''echo hi > /export/a.txt''
                 then [(''/export/a.txt'', WriteAccess)]
                 else if command = JStr ''cat /vault/a.md /etc/passwd''
                 then [(''/vault/a.md'', ReadAccess), (''/etc/passwd'', ReadAccess)]
                 else [])"

definition example_tools :: tools where
  "example_tools =
     \<lparr>TOOL_BASH = ''Bash'',
      isFileTool = (\<lambda>t. t \<in> set [''Read'', ''Write'', ''Edit'']),
      isEditTool = (\<lambda>t. t \<in> set [''Write'', ''Edit'']),
      getPathFromToolInput =
        (\<lambda>t i. case get i ''file_path'' of JStr path \<Rightarrow> Some path | _ \<Rightarrow> None),
      findBashCommandPathViolation = CommandPathScanner_scan example_tokenize\<rparr>"

definition example_context :: VaultRestrictionContext where
  "example_context =
     \<lparr>ctx_isPathWithinVault = prefix ''/vault/'',
      ctx_isAllowedExportPath = prefix ''/export/'', ctx_onEditBlocked = True\<rparr>"

definition stringify_stub :: "jsval \<Rightarrow> js_error + jsval" where
  "stringify_stub = (\<lambda>v. Inr (JStr ''{}''))"

definition stringify_overflow :: "jsval \<Rightarrow> js_error + jsval" where
  "stringify_overflow =
     (\<lambda>v. if v = JArr [JArr [JArr []]] then Inl RangeError else Inr (JStr ''{}''))"

definition symlink_host :: host where
  "symlink_host =
     \<lparr>fs_realpathSync =
        (\<lambda>p. if p = ''/vault'' then Some ''/data/vault''
             else if p = ''/vault/a.md'' then Some ''/data/vault/a.md''
             else if p = ''/vault/out'' then Some ''/etc/passwd''
             else None),
      fs_existsSync = (\<lambda>p. False), os_homedir = ''/home/u'', process_cwd = ''/srv''\<rparr>"

definition entropy_a :: entropy where
  "entropy_a = \<lparr>date_now = (\<lambda>k. 1), math_random36 = (\<lambda>k. ''0.abcdefghijk'')\<rparr>"

definition entropy_b :: entropy where
  "entropy_b = \<lparr>date_now = (\<lambda>k. 2), math_random36 = (\<lambda>k. ''0.zyxwvutsrqp'')\<rparr>"

section \<open>Properties of the transformer\<close>

subsection \<open>What the generator throws and what it yields\<close>

lemma get_JStr_not_nullish: "get v k = JStr s \<Longrightarrow> \<not> nullish v"
  by (cases v) simp_all

lemma assistantBlocks_throws_iff:
  "snd (assistantBlocks e p k bs) \<noteq> None \<longleftrightarrow> list_ex nullish bs"
  by (induction bs arbitrary: k) (simp_all add: case_prod_beta)

lemma userBlock_throws_iff:
  "isl (userBlock S m p b) \<longleftrightarrow>
     get b ''type'' = JStr ''tool_result'' \<and> isl (serialize S (get b ''content''))"
  by (simp add: userBlock_def split: sum.splits)

lemma userBlocks_throws_iff:
  "snd (userBlocks S m p bs) \<noteq> None \<longleftrightarrow>
     list_ex (\<lambda>b. nullish b \<or> get b ''type'' = JStr ''tool_result''
                       \<and> isl (serialize S (get b ''content''))) bs"
proof (induction bs)
  case Nil
  then show ?case by simp
next
  case (Cons b bs)
  show ?case
  proof (cases "nullish b")
    case True
    then show ?thesis by simp
  next
    case False
    show ?thesis
    proof (cases "userBlock S m p b")
      case (Inl err)
      then show ?thesis using False userBlock_throws_iff[of S m p b] by simp
    next
      case (Inr out)
      then show ?thesis using False Cons userBlock_throws_iff[of S m p b]
        by (auto simp add: case_prod_beta)
    qed
  qed
qed

lemma userContent_throws_iff:
  "snd (userContent S m p ys) \<noteq> None \<longleftrightarrow>
     list_ex (\<lambda>b. nullish b \<or> get b ''type'' = JStr ''tool_result''
                       \<and> isl (serialize S (get b ''content'')))
       (elems (get (get m ''message'') ''content''))"
proof (cases "get (get m ''message'') ''content''")
  case (JArr xs)
  then show ?thesis
    using userBlocks_throws_iff[of S m p xs] by (simp add: userContent_def case_prod_beta)
qed (simp_all add: userContent_def)

lemma userMessage_throws_iff:
  "snd (userMessage S m p) \<noteq> None \<longleftrightarrow>
     \<not> (truthy (get m ''_blocked'') \<and> truthy (get m ''_blockReason''))
     \<and> (get m ''tool_use_result'' \<noteq> JUndefined \<and> truthy (get m ''parent_tool_use_id'')
          \<and> isl (serialize S (get m ''tool_use_result''))
        \<or> list_ex (\<lambda>b. nullish b \<or> get b ''type'' = JStr ''tool_result''
                       \<and> isl (serialize S (get b ''content'')))
             (elems (get (get m ''message'') ''content'')))"
proof (cases "serialize S (get m ''tool_use_result'')")
  case (Inl err)
  then show ?thesis
    using userContent_throws_iff[of S m p "[]"] by (simp add: userMessage_def)
next
  case (Inr c)
  then show ?thesis
    using userContent_throws_iff[of S m p "[]"] userContent_throws_iff[of S m p]
    by (simp add: userMessage_def)
qed

lemma transform_throws_iff:
  "snd (transformSDKMessage S e m) \<noteq> None \<longleftrightarrow>
     nullish m
     \<or> get m ''type'' = JStr ''assistant''
        \<and> list_ex nullish (elems (get (get m ''message'') ''content''))
     \<or> get m ''type'' = JStr ''user''
        \<and> \<not> (truthy (get m ''_blocked'') \<and> truthy (get m ''_blockReason''))
        \<and> (get m ''tool_use_result'' \<noteq> JUndefined \<and> truthy (get m ''parent_tool_use_id'')
             \<and> isl (serialize S (get m ''tool_use_result''))
           \<or> list_ex (\<lambda>b. nullish b \<or> get b ''type'' = JStr ''tool_result''
                          \<and> isl (serialize S (get b ''content'')))
                (elems (get (get m ''message'') ''content'')))"
proof (cases "nullish m")
  case True
  then show ?thesis by (simp add: transformSDKMessage_def)
next
  case False
  have a: "snd (assistantBlocks e p 0 (elems c)) \<noteq> None \<longleftrightarrow> list_ex nullish (elems c)" for p c
    by (rule assistantBlocks_throws_iff)
  have i: "truthy c \<and> isArray c \<longleftrightarrow> isArray c" for c
    by (cases c) simp_all
  have n: "\<not> isArray c \<Longrightarrow> elems c = []" for c
    by (cases c) simp_all
  show ?thesis
    using False a userMessage_throws_iff[of S m] n
    by (auto simp add: transformSDKMessage_def Let_def i)
qed

lemma snd_assistantBlock: "snd (assistantBlock e p k b) = k + synthetic_count [b]"
  by (simp add: assistantBlock_def synthetic_count_def)

lemma assistantBlocks_indexed:
  "fst (assistantBlocks e p k bs) =
     concat (map (\<lambda>i. fst (assistantBlock e p (k + synthetic_count (take i bs)) (bs ! i)))
               [0..<length (takeWhile (\<lambda>b. \<not> nullish b) bs)])"
proof (induction bs arbitrary: k)
  case Nil
  then show ?case by simp
next
  case (Cons b bs)
  show ?case
  proof (cases "nullish b")
    case True
    then show ?thesis by simp
  next
    case False
    let ?n = "length (takeWhile (\<lambda>b. \<not> nullish b) bs)"
    define d where "d = synthetic_count [b]"
    have z: "synthetic_count (take 0 (b # bs)) = 0" "synthetic_count [] = 0"
      by (simp_all add: synthetic_count_def)
    have c: "synthetic_count (take (Suc i) (b # bs)) = d + synthetic_count (take i bs)" for i
      by (simp add: synthetic_count_def d_def)
    have u: "[0..<Suc ?n] = 0 # map Suc [0..<?n]"
      by (simp only: map_Suc_upt upt_conv_Cons[OF zero_less_Suc])
    have s: "snd (assistantBlock e p k b) = k + d"
      by (simp add: snd_assistantBlock d_def)
    have "fst (assistantBlocks e p k (b # bs)) =
        fst (assistantBlock e p k b) @ fst (assistantBlocks e p (k + d) bs)"
      using False s by (simp add: case_prod_beta)
    also have "fst (assistantBlocks e p (k + d) bs) =
        concat (map (\<lambda>i. fst (assistantBlock e p (k + d + synthetic_count (take i bs)) (bs ! i)))
                  [0..<?n])"
      by (rule Cons.IH)
    also have "fst (assistantBlock e p k b) @ \<dots> =
        concat (map (\<lambda>i. fst (assistantBlock e p (k + synthetic_count (take i (b # bs)))
                                ((b # bs) ! i)))
                  [0..<Suc ?n])"
      unfolding u by (simp add: z c comp_def add.assoc del: take_Suc_Cons take_0)
    finally show ?thesis
      using False by (simp del: upt_Suc)
  qed
qed

lemma userBlocks_concat:
  "snd (userBlocks S m p bs) = None \<Longrightarrow>
   fst (userBlocks S m p bs) =
     concat (map (\<lambda>b. case userBlock S m p b of Inr out \<Rightarrow> out | Inl err \<Rightarrow> []) bs)"
proof (induction bs)
  case Nil
  then show ?case by simp
next
  case (Cons b bs)
  then show ?case
    by (cases "nullish b"; cases "userBlock S m p b") (simp_all add: case_prod_beta)
qed

lemma isArray_truthy: "truthy c \<and> isArray c \<longleftrightarrow> isArray c"
  by (cases c) simp_all

lemma elems_not_array: "\<not> isArray c \<Longrightarrow> elems c = []"
  by (cases c) simp_all

lemma transform_assistant:
  "get m ''type'' = JStr ''assistant'' \<Longrightarrow>
   transformSDKMessage S e m =
     assistantBlocks e (nullish_coalesce (get m ''parent_tool_use_id'') JNull) 0
       (elems (get (get m ''message'') ''content''))"
  using get_JStr_not_nullish[of m "''type''" "''assistant''"]
    elems_not_array[of "get (get m ''message'') ''content''"]
  by (simp add: transformSDKMessage_def Let_def isArray_truthy)

lemma userContent_concat:
  "snd (userContent S m p ys) = None \<Longrightarrow>
   fst (userContent S m p ys) =
     ys @ concat (map (\<lambda>b. case userBlock S m p b of Inr out \<Rightarrow> out | Inl err \<Rightarrow> [])
                    (elems (get (get m ''message'') ''content'')))"
proof (cases "get (get m ''message'') ''content''")
  case (JArr xs)
  assume "snd (userContent S m p ys) = None"
  then have "snd (userBlocks S m p xs) = None"
    using JArr by (simp add: userContent_def case_prod_beta)
  then show ?thesis
    using JArr userBlocks_concat[of S m p xs] by (simp add: userContent_def case_prod_beta)
qed (simp_all add: userContent_def)

lemma transform_user:
  assumes "get m ''type'' = JStr ''user''"
    and "\<not> (truthy (get m ''_blocked'') \<and> truthy (get m ''_blockReason''))"
    and "snd (transformSDKMessage S e m) = None"
  shows "fst (transformSDKMessage S e m) =
     (if get m ''tool_use_result'' \<noteq> JUndefined \<and> truthy (get m ''parent_tool_use_id'')
      then (case serialize S (get m ''tool_use_result'') of
              Inr content \<Rightarrow>
                [JObj [(''type'', JStr ''tool_result''),
                       (''id'', get m ''parent_tool_use_id''),
                       (''content'', content),
                       (''isError'', JBool False),
                       (''parentToolUseId'',
                          nullish_coalesce (get m ''parent_tool_use_id'') JNull)]]
            | Inl err \<Rightarrow> [])
      else [])
     @ concat (map (\<lambda>b. case userBlock S m
                               (nullish_coalesce (get m ''parent_tool_use_id'') JNull) b of
                            Inr out \<Rightarrow> out | Inl err \<Rightarrow> [])
                 (elems (get (get m ''message'') ''content'')))"
proof -
  let ?p = "nullish_coalesce (get m ''parent_tool_use_id'') JNull"
  have t: "transformSDKMessage S e m = userMessage S m ?p"
    using assms(1) get_JStr_not_nullish[of m "''type''" "''user''"]
    by (simp add: transformSDKMessage_def Let_def)
  show ?thesis
  proof (cases "get m ''tool_use_result'' \<noteq> JUndefined \<and> truthy (get m ''parent_tool_use_id'')")
    case False
    then have u: "userMessage S m ?p = userContent S m ?p []"
      using assms(2) by (auto simp add: userMessage_def)
    show ?thesis
      using False assms(3) userContent_concat[of S m ?p "[]"] unfolding t u by auto
  next
    case True
    show ?thesis
    proof (cases "serialize S (get m ''tool_use_result'')")
      case (Inl err)
      then have "snd (userMessage S m ?p) = Some err"
        using True assms(2) by (auto simp add: userMessage_def)
      then show ?thesis using assms(3) unfolding t by simp
    next
      case (Inr c)
      let ?top = "[JObj [(''type'', JStr ''tool_result''),
                       (''id'', get m ''parent_tool_use_id''),
                       (''content'', c),
                       (''isError'', JBool False),
                       (''parentToolUseId'', ?p)]]"
      have u: "userMessage S m ?p = userContent S m ?p ?top"
        using True Inr assms(2) by (auto simp add: userMessage_def)
      show ?thesis
        using True Inr assms(3) userContent_concat[of S m ?p ?top] unfolding t u by auto
    qed
  qed
qed

lemma transform_unknown_type:
  assumes "\<not> nullish message"
    and "get message ''type'' \<notin> {JStr ''system'', JStr ''assistant'', JStr ''user'',
           JStr ''stream_event'', JStr ''result'', JStr ''error''}"
  shows "transformSDKMessage S e message = ([], None)"
  using assms by (simp add: transformSDKMessage_def Let_def)

lemma transform_assistant_indexed:
  assumes "get m ''type'' = JStr ''assistant''"
  shows "fst (transformSDKMessage S e m) =
     concat (map (\<lambda>i. fst (assistantBlock e (nullish_coalesce (get m ''parent_tool_use_id'') JNull)
                             (synthetic_count (take i (elems (get (get m ''message'') ''content''))))
                             (elems (get (get m ''message'') ''content'') ! i)))
               [0..<length (takeWhile (\<lambda>b. \<not> nullish b)
                              (elems (get (get m ''message'') ''content'')))])"
  using assistantBlocks_indexed
    [of e "nullish_coalesce (get m ''parent_tool_use_id'') JNull" 0
        "elems (get (get m ''message'') ''content'')"]
  by (simp add: transform_assistant[OF assms])

text \<open>
  C5 (as amended). The transformer throws in three cases and no other: the message is
  \<open>null\<close> or \<open>undefined\<close>; the content array of an assistant or user message holds a
  \<open>null\<close> or \<open>undefined\<close> element; \<open>JSON.stringify\<close> throws on a tool result of
  a user message that is not a string. Whatever else is missing, of the wrong type or
  of an unknown kind is skipped in silence: a message of unknown type yields nothing,
  and so does a content block of unknown kind. The recognized parts are yielded: an
  assistant message yields the increments of its blocks in their order, up to a
  \<open>null\<close> element, a thinking, text or tool-use block one increment each; a user
  message that does not throw yields its top-level tool result and then the tool
  results among its blocks, in their order, or the \<open>blocked\<close> increment when it is
  flagged; a system-init message yields the session identity; a stream event yields the
  tool call, the thinking or the text of the block it starts or of its delta; an error
  message yields its error; a result message yields nothing.
\<close>

theorem transformSDKMessage_throws_exactly:
  "(snd (transformSDKMessage S e m) \<noteq> None \<longleftrightarrow>
      nullish m
      \<or> get m ''type'' = JStr ''assistant''
         \<and> list_ex nullish (elems (get (get m ''message'') ''content''))
      \<or> get m ''type'' = JStr ''user''
         \<and> \<not> (truthy (get m ''_blocked'') \<and> truthy (get m ''_blockReason''))
         \<and> (get m ''tool_use_result'' \<noteq> JUndefined \<and> truthy (get m ''parent_tool_use_id'')
              \<and> isl (serialize S (get m ''tool_use_result''))
            \<or> list_ex (\<lambda>b. nullish b \<or> get b ''type'' = JStr ''tool_result''
                           \<and> isl (serialize S (get b ''content'')))
                 (elems (get (get m ''message'') ''content''))))
   \<and> (\<not> nullish m
        \<and> get m ''type'' \<notin> {JStr ''system'', JStr ''assistant'', JStr ''user'',
             JStr ''stream_event'', JStr ''result'', JStr ''error''}
      \<longrightarrow> transformSDKMessage S e m = ([], None))
   \<and> (get m ''type'' = JStr ''assistant''
      \<longrightarrow> fst (transformSDKMessage S e m) =
            concat (map (\<lambda>i. fst (assistantBlock e
                                    (nullish_coalesce (get m ''parent_tool_use_id'') JNull)
                                    (synthetic_count
                                       (take i (elems (get (get m ''message'') ''content''))))
                                    (elems (get (get m ''message'') ''content'') ! i)))
                      [0..<length (takeWhile (\<lambda>b. \<not> nullish b)
                                     (elems (get (get m ''message'') ''content'')))]))
   \<and> (get b ''type'' = JStr ''thinking'' \<and> truthy (get b ''thinking'')
      \<longrightarrow> fst (assistantBlock e p k b) =
            [JObj [(''type'', JStr ''thinking''), (''content'', get b ''thinking''),
                   (''parentToolUseId'', p)]])
   \<and> (get b ''type'' = JStr ''text'' \<and> truthy (get b ''text'')
      \<longrightarrow> fst (assistantBlock e p k b) =
            [JObj [(''type'', JStr ''text''), (''content'', get b ''text''),
                   (''parentToolUseId'', p)]])
   \<and> (get b ''type'' = JStr ''tool_use''
      \<longrightarrow> fst (assistantBlock e p k b) =
            [JObj [(''type'', JStr ''tool_use''),
                   (''id'', if truthy (get b ''id'') then get b ''id''
                            else JStr (synthetic_tool_id e k)),
                   (''name'', js_or (get b ''name'') (JStr ''unknown'')),
                   (''input'', js_or (get b ''input'') (JObj [])),
                   (''parentToolUseId'', p)]])
   \<and> (get b ''type'' \<notin> {JStr ''thinking'', JStr ''text'', JStr ''tool_use''}
      \<longrightarrow> assistantBlock e p k b = ([], k))
   \<and> (get m ''type'' = JStr ''user''
        \<and> \<not> (truthy (get m ''_blocked'') \<and> truthy (get m ''_blockReason''))
        \<and> snd (transformSDKMessage S e m) = None
      \<longrightarrow> fst (transformSDKMessage S e m) =
            (if get m ''tool_use_result'' \<noteq> JUndefined \<and> truthy (get m ''parent_tool_use_id'')
             then (case serialize S (get m ''tool_use_result'') of
                     Inr content \<Rightarrow>
                       [JObj [(''type'', JStr ''tool_result''),
                              (''id'', get m ''parent_tool_use_id''),
                              (''content'', content),
                              (''isError'', JBool False),
                              (''parentToolUseId'',
                                 nullish_coalesce (get m ''parent_tool_use_id'') JNull)]]
                   | Inl err \<Rightarrow> [])
             else [])
            @ concat (map (\<lambda>b. case userBlock S m
                                      (nullish_coalesce (get m ''parent_tool_use_id'') JNull) b of
                                   Inr out \<Rightarrow> out | Inl err \<Rightarrow> [])
                        (elems (get (get m ''message'') ''content''))))
   \<and> (get b ''type'' = JStr ''tool_result'' \<and> serialize S (get b ''content'') = Inr c
      \<longrightarrow> userBlock S m p b =
            Inr [JObj [(''type'', JStr ''tool_result''),
                       (''id'', js_or (js_or (get b ''tool_use_id'')
                                             (get m ''parent_tool_use_id'')) (JStr [])),
                       (''content'', c),
                       (''isError'', js_or (get b ''is_error'') (JBool False)),
                       (''parentToolUseId'', p)]])
   \<and> (get b ''type'' \<noteq> JStr ''tool_result'' \<longrightarrow> userBlock S m p b = Inr [])
   \<and> (get m ''type'' = JStr ''user''
        \<and> truthy (get m ''_blocked'') \<and> truthy (get m ''_blockReason'')
      \<longrightarrow> transformSDKMessage S e m =
            ([JObj [(''type'', JStr ''blocked''), (''content'', get m ''_blockReason'')]], None))
   \<and> (get m ''type'' = JStr ''error''
      \<longrightarrow> transformSDKMessage S e m =
            (if truthy (get m ''error'')
             then [JObj [(''type'', JStr ''error''), (''content'', get m ''error'')]]
             else [], None))
   \<and> (get m ''type'' = JStr ''system''
      \<longrightarrow> transformSDKMessage S e m =
            (if get m ''subtype'' = JStr ''init'' \<and> truthy (get m ''session_id'')
             then [JObj [(''type'', JStr ''session_init''),
                         (''sessionId'', get m ''session_id'')]]
             else [], None))
   \<and> (get m ''type'' = JStr ''result'' \<longrightarrow> transformSDKMessage S e m = ([], None))
   \<and> (get m ''type'' = JStr ''stream_event''
      \<longrightarrow> transformSDKMessage S e m =
            (streamEvent e m (nullish_coalesce (get m ''parent_tool_use_id'') JNull), None))
   \<and> (get (get m ''event'') ''type'' = JStr ''content_block_start''
        \<and> get (get (get m ''event'') ''content_block'') ''type'' = JStr ''tool_use''
      \<longrightarrow> streamEvent e m p =
            [JObj [(''type'', JStr ''tool_use''),
                   (''id'', if truthy (get (get (get m ''event'') ''content_block'') ''id'')
                            then get (get (get m ''event'') ''content_block'') ''id''
                            else JStr (synthetic_stream_tool_id e 0)),
                   (''name'', js_or (get (get (get m ''event'') ''content_block'') ''name'')
                                (JStr ''unknown'')),
                   (''input'', js_or (get (get (get m ''event'') ''content_block'') ''input'')
                                 (JObj [])),
                   (''parentToolUseId'', p)]])
   \<and> (get (get m ''event'') ''type'' = JStr ''content_block_start''
        \<and> get (get (get m ''event'') ''content_block'') ''type'' = JStr ''thinking''
      \<longrightarrow> streamEvent e m p =
            (if truthy (get (get (get m ''event'') ''content_block'') ''thinking'')
             then [JObj [(''type'', JStr ''thinking''),
                         (''content'', get (get (get m ''event'') ''content_block'') ''thinking''),
                         (''parentToolUseId'', p)]]
             else []))
   \<and> (get (get m ''event'') ''type'' = JStr ''content_block_start''
        \<and> get (get (get m ''event'') ''content_block'') ''type'' = JStr ''text''
      \<longrightarrow> streamEvent e m p =
            (if truthy (get (get (get m ''event'') ''content_block'') ''text'')
             then [JObj [(''type'', JStr ''text''),
                         (''content'', get (get (get m ''event'') ''content_block'') ''text''),
                         (''parentToolUseId'', p)]]
             else []))
   \<and> (get (get m ''event'') ''type'' = JStr ''content_block_delta''
        \<and> get (get (get m ''event'') ''delta'') ''type'' = JStr ''thinking_delta''
        \<and> truthy (get (get (get m ''event'') ''delta'') ''thinking'')
      \<longrightarrow> streamEvent e m p =
            [JObj [(''type'', JStr ''thinking''),
                   (''content'', get (get (get m ''event'') ''delta'') ''thinking''),
                   (''parentToolUseId'', p)]])
   \<and> (get (get m ''event'') ''type'' = JStr ''content_block_delta''
        \<and> get (get (get m ''event'') ''delta'') ''type'' = JStr ''text_delta''
        \<and> truthy (get (get (get m ''event'') ''delta'') ''text'')
      \<longrightarrow> streamEvent e m p =
            [JObj [(''type'', JStr ''text''),
                   (''content'', get (get (get m ''event'') ''delta'') ''text''),
                   (''parentToolUseId'', p)]])
   \<and> (get (get m ''event'') ''type'' \<notin> {JStr ''content_block_start'', JStr ''content_block_delta''}
      \<longrightarrow> streamEvent e m p = [])
   \<and> (get b ''type'' = JStr ''thinking'' \<and> \<not> truthy (get b ''thinking'')
        \<or> get b ''type'' = JStr ''text'' \<and> \<not> truthy (get b ''text'')
      \<longrightarrow> assistantBlock e p k b = ([], k))"
proof -
  have n: "get m ''type'' = JStr t \<Longrightarrow> \<not> nullish m" for t
    by (rule get_JStr_not_nullish)
  have throws: "(snd (transformSDKMessage S e m) \<noteq> None \<longleftrightarrow>
        nullish m
        \<or> get m ''type'' = JStr ''assistant''
           \<and> list_ex nullish (elems (get (get m ''message'') ''content''))
        \<or> get m ''type'' = JStr ''user''
           \<and> \<not> (truthy (get m ''_blocked'') \<and> truthy (get m ''_blockReason''))
           \<and> (get m ''tool_use_result'' \<noteq> JUndefined \<and> truthy (get m ''parent_tool_use_id'')
                \<and> isl (serialize S (get m ''tool_use_result''))
              \<or> list_ex (\<lambda>b. nullish b \<or> get b ''type'' = JStr ''tool_result''
                             \<and> isl (serialize S (get b ''content'')))
                   (elems (get (get m ''message'') ''content''))))"
    by (rule transform_throws_iff)
  have unknown: "(\<not> nullish m
          \<and> get m ''type'' \<notin> {JStr ''system'', JStr ''assistant'', JStr ''user'',
               JStr ''stream_event'', JStr ''result'', JStr ''error''}
        \<longrightarrow> transformSDKMessage S e m = ([], None))"
    using transform_unknown_type[of m S e] by blast
  have assistant: "(get m ''type'' = JStr ''assistant''
        \<longrightarrow> fst (transformSDKMessage S e m) =
              concat (map (\<lambda>i. fst (assistantBlock e
                                      (nullish_coalesce (get m ''parent_tool_use_id'') JNull)
                                      (synthetic_count
                                         (take i (elems (get (get m ''message'') ''content''))))
                                      (elems (get (get m ''message'') ''content'') ! i)))
                        [0..<length (takeWhile (\<lambda>b. \<not> nullish b)
                                       (elems (get (get m ''message'') ''content'')))]))"
    using transform_assistant_indexed[of m S e] by (rule impI)
  have thinking: "(get b ''type'' = JStr ''thinking'' \<and> truthy (get b ''thinking'')
        \<longrightarrow> fst (assistantBlock e p k b) =
              [JObj [(''type'', JStr ''thinking''), (''content'', get b ''thinking''),
                     (''parentToolUseId'', p)]])"
    by (simp add: assistantBlock_def)
  have text_block: "(get b ''type'' = JStr ''text'' \<and> truthy (get b ''text'')
        \<longrightarrow> fst (assistantBlock e p k b) =
              [JObj [(''type'', JStr ''text''), (''content'', get b ''text''),
                     (''parentToolUseId'', p)]])"
    by (simp add: assistantBlock_def)
  have tool_use: "(get b ''type'' = JStr ''tool_use''
        \<longrightarrow> fst (assistantBlock e p k b) =
              [JObj [(''type'', JStr ''tool_use''),
                     (''id'', if truthy (get b ''id'') then get b ''id''
                              else JStr (synthetic_tool_id e k)),
                     (''name'', js_or (get b ''name'') (JStr ''unknown'')),
                     (''input'', js_or (get b ''input'') (JObj [])),
                     (''parentToolUseId'', p)]])"
    by (simp add: assistantBlock_def)
  have other_block: "(get b ''type'' \<notin> {JStr ''thinking'', JStr ''text'', JStr ''tool_use''}
        \<longrightarrow> assistantBlock e p k b = ([], k))"
    by (simp add: assistantBlock_def)
  have user: "(get m ''type'' = JStr ''user''
          \<and> \<not> (truthy (get m ''_blocked'') \<and> truthy (get m ''_blockReason''))
          \<and> snd (transformSDKMessage S e m) = None
        \<longrightarrow> fst (transformSDKMessage S e m) =
              (if get m ''tool_use_result'' \<noteq> JUndefined \<and> truthy (get m ''parent_tool_use_id'')
               then (case serialize S (get m ''tool_use_result'') of
                       Inr content \<Rightarrow>
                         [JObj [(''type'', JStr ''tool_result''),
                                (''id'', get m ''parent_tool_use_id''),
                                (''content'', content),
                                (''isError'', JBool False),
                                (''parentToolUseId'',
                                   nullish_coalesce (get m ''parent_tool_use_id'') JNull)]]
                     | Inl err \<Rightarrow> [])
               else [])
              @ concat (map (\<lambda>b. case userBlock S m
                                        (nullish_coalesce (get m ''parent_tool_use_id'') JNull) b of
                                     Inr out \<Rightarrow> out | Inl err \<Rightarrow> [])
                          (elems (get (get m ''message'') ''content''))))"
    using transform_user[of m S e] by (intro impI) (elim conjE)
  have tool_result: "(get b ''type'' = JStr ''tool_result'' \<and> serialize S (get b ''content'') = Inr c
        \<longrightarrow> userBlock S m p b =
              Inr [JObj [(''type'', JStr ''tool_result''),
                         (''id'', js_or (js_or (get b ''tool_use_id'')
                                               (get m ''parent_tool_use_id'')) (JStr [])),
                         (''content'', c),
                         (''isError'', js_or (get b ''is_error'') (JBool False)),
                         (''parentToolUseId'', p)]])"
    by (simp add: userBlock_def)
  have other_user_block: "(get b ''type'' \<noteq> JStr ''tool_result'' \<longrightarrow> userBlock S m p b = Inr [])"
    by (simp add: userBlock_def)
  have blocked: "(get m ''type'' = JStr ''user''
          \<and> truthy (get m ''_blocked'') \<and> truthy (get m ''_blockReason'')
        \<longrightarrow> transformSDKMessage S e m =
              ([JObj [(''type'', JStr ''blocked''), (''content'', get m ''_blockReason'')]], None))"
    using n[of "''user''"] by (simp add: transformSDKMessage_def userMessage_def Let_def)
  have errors: "(get m ''type'' = JStr ''error''
        \<longrightarrow> transformSDKMessage S e m =
              (if truthy (get m ''error'')
               then [JObj [(''type'', JStr ''error''), (''content'', get m ''error'')]]
               else [], None))"
    using n[of "''error''"] by (simp add: transformSDKMessage_def Let_def)
  have system: "(get m ''type'' = JStr ''system''
        \<longrightarrow> transformSDKMessage S e m =
              (if get m ''subtype'' = JStr ''init'' \<and> truthy (get m ''session_id'')
               then [JObj [(''type'', JStr ''session_init''),
                           (''sessionId'', get m ''session_id'')]]
               else [], None))"
    using n[of "''system''"] by (simp add: transformSDKMessage_def Let_def)
  have result: "(get m ''type'' = JStr ''result'' \<longrightarrow> transformSDKMessage S e m = ([], None))"
    using n[of "''result''"] by (simp add: transformSDKMessage_def Let_def)
  have stream: "(get m ''type'' = JStr ''stream_event''
        \<longrightarrow> transformSDKMessage S e m =
              (streamEvent e m (nullish_coalesce (get m ''parent_tool_use_id'') JNull), None))"
    using n[of "''stream_event''"] by (simp add: transformSDKMessage_def Let_def)
  have stream_tool: "(get (get m ''event'') ''type'' = JStr ''content_block_start''
          \<and> get (get (get m ''event'') ''content_block'') ''type'' = JStr ''tool_use''
        \<longrightarrow> streamEvent e m p =
              [JObj [(''type'', JStr ''tool_use''),
                     (''id'', if truthy (get (get (get m ''event'') ''content_block'') ''id'')
                              then get (get (get m ''event'') ''content_block'') ''id''
                              else JStr (synthetic_stream_tool_id e 0)),
                     (''name'', js_or (get (get (get m ''event'') ''content_block'') ''name'')
                                  (JStr ''unknown'')),
                     (''input'', js_or (get (get (get m ''event'') ''content_block'') ''input'')
                                   (JObj [])),
                     (''parentToolUseId'', p)]])"
    by (simp add: streamEvent_def Let_def)
  have stream_thinking: "(get (get m ''event'') ''type'' = JStr ''content_block_start''
          \<and> get (get (get m ''event'') ''content_block'') ''type'' = JStr ''thinking''
        \<longrightarrow> streamEvent e m p =
              (if truthy (get (get (get m ''event'') ''content_block'') ''thinking'')
               then [JObj [(''type'', JStr ''thinking''),
                           (''content'', get (get (get m ''event'') ''content_block'') ''thinking''),
                           (''parentToolUseId'', p)]]
               else []))"
    by (simp add: streamEvent_def Let_def)
  have stream_text: "(get (get m ''event'') ''type'' = JStr ''content_block_start''
          \<and> get (get (get m ''event'') ''content_block'') ''type'' = JStr ''text''
        \<longrightarrow> streamEvent e m p =
              (if truthy (get (get (get m ''event'') ''content_block'') ''text'')
               then [JObj [(''type'', JStr ''text''),
                           (''content'', get (get (get m ''event'') ''content_block'') ''text''),
                           (''parentToolUseId'', p)]]
               else []))"
    by (simp add: streamEvent_def Let_def)
  have delta_thinking: "(get (get m ''event'') ''type'' = JStr ''content_block_delta''
          \<and> get (get (get m ''event'') ''delta'') ''type'' = JStr ''thinking_delta''
          \<and> truthy (get (get (get m ''event'') ''delta'') ''thinking'')
        \<longrightarrow> streamEvent e m p =
              [JObj [(''type'', JStr ''thinking''),
                     (''content'', get (get (get m ''event'') ''delta'') ''thinking''),
                     (''parentToolUseId'', p)]])"
    by (simp add: streamEvent_def Let_def)
  have delta_text: "(get (get m ''event'') ''type'' = JStr ''content_block_delta''
          \<and> get (get (get m ''event'') ''delta'') ''type'' = JStr ''text_delta''
          \<and> truthy (get (get (get m ''event'') ''delta'') ''text'')
        \<longrightarrow> streamEvent e m p =
              [JObj [(''type'', JStr ''text''),
                     (''content'', get (get (get m ''event'') ''delta'') ''text''),
                     (''parentToolUseId'', p)]])"
    by (simp add: streamEvent_def Let_def)
  have stream_other: "(get (get m ''event'') ''type'' \<notin> {JStr ''content_block_start'', JStr ''content_block_delta''}
        \<longrightarrow> streamEvent e m p = [])"
    by (simp add: streamEvent_def Let_def)
  have empty_block: "(get b ''type'' = JStr ''thinking'' \<and> \<not> truthy (get b ''thinking'')
          \<or> get b ''type'' = JStr ''text'' \<and> \<not> truthy (get b ''text'')
        \<longrightarrow> assistantBlock e p k b = ([], k))"
    by (auto simp add: assistantBlock_def)
  show ?thesis
    by (rule conjI[OF throws conjI[OF unknown conjI[OF assistant conjI[OF thinking conjI[OF
         text_block conjI[OF tool_use conjI[OF other_block conjI[OF user conjI[OF tool_result
         conjI[OF other_user_block conjI[OF blocked conjI[OF errors conjI[OF system conjI[OF
         result conjI[OF stream conjI[OF stream_tool conjI[OF stream_thinking conjI[OF
         stream_text conjI[OF delta_thinking conjI[OF delta_text conjI[OF stream_other
         empty_block]]]]]]]]]]]]]]]]]]]]])
qed

text \<open>The theorem at an assistant message with a block of unknown kind, a text block
  without text and a well-formed text block; at a message of unknown type; at a user
  message carrying a top-level tool result and a tool-result block; and at the text
  delta of a stream event.\<close>

theorem transformSDKMessage_throws_exactly_witness:
  "transformSDKMessage stringify_stub entropy_a
      (JObj [(''type'', JStr ''assistant''),
             (''message'', JObj [(''content'',
                JArr [JObj [(''type'', JStr ''image'')], JObj [(''type'', JStr ''text'')],
                      JNum 7, JObj [(''type'', JStr ''text''), (''text'', JStr ''hi'')]])])])
     = ([JObj [(''type'', JStr ''text''), (''content'', JStr ''hi''),
               (''parentToolUseId'', JNull)]], None)
   \<and> transformSDKMessage stringify_stub entropy_a
      (JObj [(''type'', JStr ''tool_progress'')]) = ([], None)
   \<and> transformSDKMessage stringify_stub entropy_a
      (JObj [(''type'', JStr ''user''), (''parent_tool_use_id'', JStr ''t1''),
             (''tool_use_result'', JStr ''done''),
             (''message'', JObj [(''content'',
                JArr [JObj [(''type'', JStr ''text''), (''text'', JStr ''hi'')],
                      JObj [(''type'', JStr ''tool_result''), (''tool_use_id'', JStr ''t2''),
                            (''content'', JObj [])]])])])
     = ([JObj [(''type'', JStr ''tool_result''), (''id'', JStr ''t1''),
               (''content'', JStr ''done''), (''isError'', JBool False),
               (''parentToolUseId'', JStr ''t1'')],
         JObj [(''type'', JStr ''tool_result''), (''id'', JStr ''t2''),
               (''content'', JStr ''{}''), (''isError'', JBool False),
               (''parentToolUseId'', JStr ''t1'')]], None)
   \<and> transformSDKMessage stringify_stub entropy_a
      (JObj [(''type'', JStr ''stream_event''),
             (''event'', JObj [(''type'', JStr ''content_block_delta''),
                (''delta'', JObj [(''type'', JStr ''text_delta''), (''text'', JStr ''h'')])])])
     = ([JObj [(''type'', JStr ''text''), (''content'', JStr ''h''),
               (''parentToolUseId'', JNull)]], None)"
  using transformSDKMessage_throws_exactly
    [where m = "JObj [(''type'', JStr ''assistant''),
             (''message'', JObj [(''content'',
                JArr [JObj [(''type'', JStr ''image'')], JObj [(''type'', JStr ''text'')],
                      JNum 7, JObj [(''type'', JStr ''text''), (''text'', JStr ''hi'')]])])]"
       and S = stringify_stub and e = entropy_a
       and b = "JObj [(''type'', JStr ''image'')]" and p = JNull and k = 0
       and c = "JStr ''{}''"]
     transformSDKMessage_throws_exactly
    [where m = "JObj [(''type'', JStr ''tool_progress'')]"
       and S = stringify_stub and e = entropy_a
       and b = "JObj [(''type'', JStr ''text''), (''text'', JStr ''hi'')]" and p = JNull and k = 0
       and c = "JStr ''{}''"]
     transformSDKMessage_throws_exactly
    [where m = "JObj [(''type'', JStr ''user''), (''parent_tool_use_id'', JStr ''t1''),
             (''tool_use_result'', JStr ''done''),
             (''message'', JObj [(''content'',
                JArr [JObj [(''type'', JStr ''text''), (''text'', JStr ''hi'')],
                      JObj [(''type'', JStr ''tool_result''), (''tool_use_id'', JStr ''t2''),
                            (''content'', JObj [])]])])]"
       and S = stringify_stub and e = entropy_a
       and b = "JObj [(''type'', JStr ''tool_result''), (''tool_use_id'', JStr ''t2''),
                            (''content'', JObj [])]" and p = "JStr ''t1''" and k = 0
       and c = "JStr ''{}''"]
     transformSDKMessage_throws_exactly
    [where m = "JObj [(''type'', JStr ''stream_event''),
             (''event'', JObj [(''type'', JStr ''content_block_delta''),
                (''delta'', JObj [(''type'', JStr ''text_delta''), (''text'', JStr ''h'')])])]"
       and S = stringify_stub and e = entropy_a
       and b = "JObj [(''type'', JStr ''text'')]" and p = JNull and k = 0
       and c = "JStr ''{}''"]
  by (simp add: transformSDKMessage_def userMessage_def userContent_def userBlock_def
        assistantBlock_def serialize_def stringify_stub_def nullish_coalesce_def
        synthetic_count_def js_or_def Let_def)

text \<open>The claim as stated, for every message, fails in two ways. At a content array
  with a \<open>null\<close> element the generator yields the text before it and then throws a
  \<open>TypeError\<close>. At a tool result that is not a string, on a platform where
  \<open>JSON.stringify\<close> throws on it, the generator throws what \<open>JSON.stringify\<close>
  throws.\<close>

theorem transformSDKMessage_throws_counterexample:
  "transformSDKMessage stringify_stub entropy_a
      (JObj [(''type'', JStr ''assistant''),
             (''message'', JObj [(''content'',
                JArr [JObj [(''type'', JStr ''text''), (''text'', JStr ''hi'')], JNull])])])
   = ([JObj [(''type'', JStr ''text''), (''content'', JStr ''hi''), (''parentToolUseId'', JNull)]],
      Some TypeError)
   \<and> transformSDKMessage stringify_overflow entropy_a
      (JObj [(''type'', JStr ''user''),
             (''message'', JObj [(''content'',
                JArr [JObj [(''type'', JStr ''tool_result''), (''tool_use_id'', JStr ''t2''),
                            (''content'', JArr [JArr [JArr []]])]])])])
   = ([], Some RangeError)"
  by (simp add: transformSDKMessage_def userMessage_def userContent_def userBlock_def
        assistantBlock_def serialize_def stringify_overflow_def nullish_coalesce_def Let_def)

subsection \<open>Determinism and order\<close>

lemma synthetic_count_Cons:
  "synthetic_count (b # bs) =
     (if get b ''type'' = JStr ''tool_use'' \<and> \<not> truthy (get b ''id'') then Suc (synthetic_count bs)
      else synthetic_count bs)"
  by (simp add: synthetic_count_def)

lemma assistantBlock_count:
  "snd (assistantBlock e p k b) =
     (if get b ''type'' = JStr ''tool_use'' \<and> \<not> truthy (get b ''id'') then Suc k else k)"
  by (simp add: assistantBlock_def)

lemma assistantBlock_with_id:
  "(get b ''type'' = JStr ''tool_use'' \<longrightarrow> truthy (get b ''id'')) \<Longrightarrow>
   assistantBlock e p k b = (fst (assistantBlock e' p k' b), k)"
  by (simp add: assistantBlock_def)

lemma assistantBlock_erase:
  "map erase_tool_use_id (fst (assistantBlock e p k b))
     = map erase_tool_use_id (fst (assistantBlock e' p k' b))"
  by (simp add: assistantBlock_def erase_tool_use_id_def)

lemma assistantBlocks_erase:
  "snd (assistantBlocks e p k bs) = snd (assistantBlocks e' p k' bs)
   \<and> map erase_tool_use_id (fst (assistantBlocks e p k bs))
       = map erase_tool_use_id (fst (assistantBlocks e' p k' bs))"
proof (induction bs arbitrary: k k')
  case Nil
  then show ?case by simp
next
  case (Cons b bs)
  show ?case
    using Cons[of "snd (assistantBlock e p k b)" "snd (assistantBlock e' p k' b)"]
      assistantBlock_erase[of e p k b e' k']
    by (simp add: case_prod_beta)
qed

lemma streamEvent_erase:
  "map erase_tool_use_id (streamEvent e m p) = map erase_tool_use_id (streamEvent e' m p)"
  by (simp add: streamEvent_def erase_tool_use_id_def Let_def)

lemma transform_erase:
  "snd (transformSDKMessage S e m) = snd (transformSDKMessage S e' m)
   \<and> map erase_tool_use_id (fst (transformSDKMessage S e m))
       = map erase_tool_use_id (fst (transformSDKMessage S e' m))"
  using assistantBlocks_erase[of e _ 0 "elems (get (get m ''message'') ''content'')" e' 0]
    streamEvent_erase[of e m _ e']
  by (simp add: transformSDKMessage_def Let_def)

lemma assistantBlocks_det:
  "list_all (\<lambda>b. get b ''type'' = JStr ''tool_use'' \<longrightarrow> truthy (get b ''id'')) bs \<Longrightarrow>
   assistantBlocks e p k bs = assistantBlocks e' p k' bs"
proof (induction bs arbitrary: k k')
  case Nil
  then show ?case by simp
next
  case (Cons b bs)
  define out where "out = fst (assistantBlock e p 0 b)"
  have out: "assistantBlock e1 p k1 b = (out, k1)" for e1 k1
    unfolding out_def using Cons.prems assistantBlock_with_id[of b e1 p k1 e 0] by simp
  from Cons have "assistantBlocks e p k bs = assistantBlocks e' p k' bs" by simp
  then show ?case by (simp add: out)
qed

lemma transform_det:
  assumes "list_all (\<lambda>b. get b ''type'' = JStr ''tool_use'' \<longrightarrow> truthy (get b ''id''))
             (elems (get (get message ''message'') ''content''))"
    and "get (get (get message ''event'') ''content_block'') ''type'' = JStr ''tool_use'' \<longrightarrow>
           truthy (get (get (get message ''event'') ''content_block'') ''id'')"
  shows "transformSDKMessage S e message = transformSDKMessage S e' message"
  using assms assistantBlocks_det[of "elems (get (get message ''message'') ''content'')" e _ 0 e' 0]
  by (simp add: transformSDKMessage_def streamEvent_def Let_def)

lemma assistantBlocks_same_ids:
  assumes "\<forall>k. synthetic_tool_id e k = synthetic_tool_id e' k"
  shows "assistantBlocks e p k bs = assistantBlocks e' p k bs"
proof (induction bs arbitrary: k)
  case Nil
  then show ?case by simp
next
  case (Cons b bs)
  have "assistantBlock e p k b = assistantBlock e' p k b"
    using assms by (simp add: assistantBlock_def)
  then show ?case using Cons by simp
qed

lemma transform_same_ids:
  assumes "\<forall>k. synthetic_tool_id e k = synthetic_tool_id e' k"
    and "synthetic_stream_tool_id e 0 = synthetic_stream_tool_id e' 0"
  shows "transformSDKMessage S e message = transformSDKMessage S e' message"
  using assms(2) assistantBlocks_same_ids[OF assms(1)]
  by (simp add: transformSDKMessage_def streamEvent_def Let_def)

lemma system_no_chunk:
  "get message ''type'' = JStr ''system'' \<Longrightarrow>
     list_all isSessionInitEvent (fst (transformSDKMessage S e message))
     \<and> \<not> list_ex isStreamChunk (fst (transformSDKMessage S e message))
     \<and> snd (transformSDKMessage S e message) = None"
  using get_JStr_not_nullish[of message "''type''" "''system''"]
  by (simp add: transformSDKMessage_def isSessionInitEvent_def isStreamChunk_def Let_def)

lemma assistantBlocks_append:
  "assistantBlocks e p k (bs @ cs) =
     (case snd (assistantBlocks e p k bs) of
        None \<Rightarrow> (fst (assistantBlocks e p k bs)
                    @ fst (assistantBlocks e p (k + synthetic_count bs) cs),
                  snd (assistantBlocks e p (k + synthetic_count bs) cs))
      | Some err \<Rightarrow> (fst (assistantBlocks e p k bs), Some err))"
proof (induction bs arbitrary: k)
  case Nil
  then show ?case by (simp add: synthetic_count_def)
next
  case (Cons b bs)
  show ?case
  proof (cases "nullish b")
    case True
    then show ?thesis by simp
  next
    case False
    define k1 where "k1 = snd (assistantBlock e p k b)"
    have k1: "k1 + synthetic_count bs = k + synthetic_count (b # bs)"
      unfolding k1_def by (simp add: assistantBlock_count synthetic_count_Cons)
    show ?thesis
      using False Cons[of k1] k1
      by (simp add: case_prod_beta k1_def[symmetric] split: option.splits)
  qed
qed

lemma userBlocks_append:
  "userBlocks S m p (bs @ cs) =
     (case snd (userBlocks S m p bs) of
        None \<Rightarrow> (fst (userBlocks S m p bs) @ fst (userBlocks S m p cs),
                  snd (userBlocks S m p cs))
      | Some err \<Rightarrow> (fst (userBlocks S m p bs), Some err))"
proof (induction bs)
  case Nil
  then show ?case by simp
next
  case (Cons b bs)
  then show ?case
    by (simp add: case_prod_beta split: option.splits sum.splits)
qed

lemma userContent_yielded:
  "fst (userContent S m p yielded) = yielded @ fst (userContent S m p [])"
  by (simp add: userContent_def Let_def case_prod_beta)

text \<open>
  C4 (as amended). The transformer reads the clock and the random source only to make a
  synthetic tool id. For every message, two runs end alike, both returning or both
  throwing the same error, and yield the same events in the same order but for the
  \<open>id\<close> of the tool calls; two runs in which the synthetic ids come out the same
  yield the very same events. For every message whose \<open>tool_use\<close> blocks (in the content
  of an assistant message, or as the content block of a stream event) carry a non-empty
  id, the two runs yield the very same events; so does a single block that is no tool
  call without an id. The events come in the order of the content blocks: the events of
  a list of blocks followed by another are those of the first list followed by those of
  the second, the synthetic ids of the second counted on from the first, and nothing of
  the second when the first throws; this for the blocks of an assistant message and for
  those of a user message, whose top-level tool result comes before the events of its
  blocks. A system message yields session-init events only, never a stream chunk.
\<close>

theorem transformSDKMessage_deterministic_up_to_ids:
  "snd (transformSDKMessage S e message) = snd (transformSDKMessage S e' message)
   \<and> map erase_tool_use_id (fst (transformSDKMessage S e message))
       = map erase_tool_use_id (fst (transformSDKMessage S e' message))
   \<and> (list_all (\<lambda>b. get b ''type'' = JStr ''tool_use'' \<longrightarrow> truthy (get b ''id''))
        (elems (get (get message ''message'') ''content''))
      \<and> (get (get (get message ''event'') ''content_block'') ''type'' = JStr ''tool_use'' \<longrightarrow>
           truthy (get (get (get message ''event'') ''content_block'') ''id''))
      \<longrightarrow> transformSDKMessage S e message = transformSDKMessage S e' message)
   \<and> ((\<forall>i. synthetic_tool_id e i = synthetic_tool_id e' i)
        \<and> synthetic_stream_tool_id e 0 = synthetic_stream_tool_id e' 0
      \<longrightarrow> transformSDKMessage S e message = transformSDKMessage S e' message)
   \<and> ((get b ''type'' = JStr ''tool_use'' \<longrightarrow> truthy (get b ''id''))
      \<longrightarrow> assistantBlock e p k b = (fst (assistantBlock e' p k' b), k))
   \<and> assistantBlocks e p k (bs @ cs) =
       (case snd (assistantBlocks e p k bs) of
          None \<Rightarrow> (fst (assistantBlocks e p k bs)
                      @ fst (assistantBlocks e p (k + synthetic_count bs) cs),
                    snd (assistantBlocks e p (k + synthetic_count bs) cs))
        | Some err \<Rightarrow> (fst (assistantBlocks e p k bs), Some err))
   \<and> userBlocks S message p (bs @ cs) =
       (case snd (userBlocks S message p bs) of
          None \<Rightarrow> (fst (userBlocks S message p bs) @ fst (userBlocks S message p cs),
                    snd (userBlocks S message p cs))
        | Some err \<Rightarrow> (fst (userBlocks S message p bs), Some err))
   \<and> fst (userContent S message p yielded) = yielded @ fst (userContent S message p [])
   \<and> (get message ''type'' = JStr ''system''
      \<longrightarrow> list_all isSessionInitEvent (fst (transformSDKMessage S e message))
          \<and> \<not> list_ex isStreamChunk (fst (transformSDKMessage S e message)))"
proof -
  have det: "list_all (\<lambda>b. get b ''type'' = JStr ''tool_use'' \<longrightarrow> truthy (get b ''id''))
        (elems (get (get message ''message'') ''content''))
      \<and> (get (get (get message ''event'') ''content_block'') ''type'' = JStr ''tool_use'' \<longrightarrow>
           truthy (get (get (get message ''event'') ''content_block'') ''id''))
      \<longrightarrow> transformSDKMessage S e message = transformSDKMessage S e' message"
    using transform_det[of message S e e'] by blast
  have ids: "(\<forall>i. synthetic_tool_id e i = synthetic_tool_id e' i)
        \<and> synthetic_stream_tool_id e 0 = synthetic_stream_tool_id e' 0
      \<longrightarrow> transformSDKMessage S e message = transformSDKMessage S e' message"
    using transform_same_ids[of e e' S message] by blast
  have block: "(get b ''type'' = JStr ''tool_use'' \<longrightarrow> truthy (get b ''id''))
      \<longrightarrow> assistantBlock e p k b = (fst (assistantBlock e' p k' b), k)"
    using assistantBlock_with_id[of b e p k e' k'] by blast
  have sys: "get message ''type'' = JStr ''system''
      \<longrightarrow> list_all isSessionInitEvent (fst (transformSDKMessage S e message))
          \<and> \<not> list_ex isStreamChunk (fst (transformSDKMessage S e message))"
    using system_no_chunk[of message S e] by blast
  show ?thesis
    by (rule conjI[OF transform_erase[THEN conjunct1] conjI[OF transform_erase[THEN conjunct2]
         conjI[OF det conjI[OF ids conjI[OF block conjI[OF assistantBlocks_append
         conjI[OF userBlocks_append conjI[OF userContent_yielded sys]]]]]]]])
qed

text \<open>The theorem at an assistant message with a text block and a tool call that
  carries its id, and at one whose tool call carries none, each read with two different
  clocks and random sources, the latter also with two random sources that agree on the
  nine characters the id takes; at two blocks in sequence; and at a system-init
  message.\<close>

theorem transformSDKMessage_deterministic_up_to_ids_witness:
  "transformSDKMessage stringify_stub entropy_a
      (JObj [(''type'', JStr ''assistant''),
             (''message'', JObj [(''content'',
                JArr [JObj [(''type'', JStr ''text''), (''text'', JStr ''hi'')],
                      JObj [(''type'', JStr ''tool_use''), (''id'', JStr ''t1''),
                            (''name'', JStr ''Read'')]])])])
   = transformSDKMessage stringify_stub entropy_b
      (JObj [(''type'', JStr ''assistant''),
             (''message'', JObj [(''content'',
                JArr [JObj [(''type'', JStr ''text''), (''text'', JStr ''hi'')],
                      JObj [(''type'', JStr ''tool_use''), (''id'', JStr ''t1''),
                            (''name'', JStr ''Read'')]])])])
   \<and> map erase_tool_use_id (fst (transformSDKMessage stringify_stub entropy_a
        (JObj [(''type'', JStr ''assistant''),
               (''message'', JObj [(''content'',
                  JArr [JObj [(''type'', JStr ''tool_use''), (''name'', JStr ''Read'')]])])])))
     = map erase_tool_use_id (fst (transformSDKMessage stringify_stub entropy_b
        (JObj [(''type'', JStr ''assistant''),
               (''message'', JObj [(''content'',
                  JArr [JObj [(''type'', JStr ''tool_use''), (''name'', JStr ''Read'')]])])])))
   \<and> transformSDKMessage stringify_stub entropy_a
        (JObj [(''type'', JStr ''assistant''),
               (''message'', JObj [(''content'',
                  JArr [JObj [(''type'', JStr ''tool_use''), (''name'', JStr ''Read'')]])])])
     = transformSDKMessage stringify_stub
        (entropy_a\<lparr>math_random36 := (\<lambda>k. ''0.abcdefghiXYZ'')\<rparr>)
        (JObj [(''type'', JStr ''assistant''),
               (''message'', JObj [(''content'',
                  JArr [JObj [(''type'', JStr ''tool_use''), (''name'', JStr ''Read'')]])])])
   \<and> fst (assistantBlocks entropy_a JNull 0
        ([JObj [(''type'', JStr ''text''), (''text'', JStr ''a'')]]
          @ [JObj [(''type'', JStr ''thinking''), (''thinking'', JStr ''b'')]]))
     = [JObj [(''type'', JStr ''text''), (''content'', JStr ''a''), (''parentToolUseId'', JNull)],
        JObj [(''type'', JStr ''thinking''), (''content'', JStr ''b''), (''parentToolUseId'', JNull)]]
   \<and> fst (transformSDKMessage stringify_stub entropy_a
        (JObj [(''type'', JStr ''system''), (''subtype'', JStr ''init''), (''session_id'', JStr ''s1'')]))
     = [JObj [(''type'', JStr ''session_init''), (''sessionId'', JStr ''s1'')]]"
  using transformSDKMessage_deterministic_up_to_ids
    [where message = "JObj [(''type'', JStr ''assistant''),
             (''message'', JObj [(''content'',
                JArr [JObj [(''type'', JStr ''text''), (''text'', JStr ''hi'')],
                      JObj [(''type'', JStr ''tool_use''), (''id'', JStr ''t1''),
                            (''name'', JStr ''Read'')]])])]"
       and S = stringify_stub and e = entropy_a and e' = entropy_b
       and bs = "[JObj [(''type'', JStr ''text''), (''text'', JStr ''a'')]]"
       and p = JNull and k = 0 and k' = 0
       and cs = "[JObj [(''type'', JStr ''thinking''), (''thinking'', JStr ''b'')]]"
       and b = "JObj [(''type'', JStr ''tool_use''), (''id'', JStr ''t1''),
                            (''name'', JStr ''Read'')]"
       and yielded = "[]"]
    transformSDKMessage_deterministic_up_to_ids
    [where message = "JObj [(''type'', JStr ''assistant''),
               (''message'', JObj [(''content'',
                  JArr [JObj [(''type'', JStr ''tool_use''), (''name'', JStr ''Read'')]])])]"
       and S = stringify_stub and e = entropy_a and e' = entropy_b
       and bs = "[]" and p = JNull and k = 0 and k' = 0 and cs = "[]"
       and b = JNull and yielded = "[]"]
    transformSDKMessage_deterministic_up_to_ids
    [where message = "JObj [(''type'', JStr ''system''), (''subtype'', JStr ''init''),
               (''session_id'', JStr ''s1'')]"
       and S = stringify_stub and e = entropy_a and e' = entropy_b
       and bs = "[]" and p = JNull and k = 0 and k' = 0 and cs = "[]"
       and b = JNull and yielded = "[]"]
    transformSDKMessage_deterministic_up_to_ids
    [where message = "JObj [(''type'', JStr ''assistant''),
               (''message'', JObj [(''content'',
                  JArr [JObj [(''type'', JStr ''tool_use''), (''name'', JStr ''Read'')]])])]"
       and S = stringify_stub and e = entropy_a
       and e' = "entropy_a\<lparr>math_random36 := (\<lambda>k. ''0.abcdefghiXYZ'')\<rparr>"
       and bs = "[]" and p = JNull and k = 0 and k' = 0 and cs = "[]"
       and b = JNull and yielded = "[]"]
  by (simp add: transformSDKMessage_def assistantBlock_def synthetic_tool_id_def
        synthetic_stream_tool_id_def entropy_a_def)

text \<open>The claim as stated, for every message, fails at a tool call without an id:
  the same message yields \<open>tool-1-abcdefghi\<close> under one reading of the clock and the
  random source and \<open>tool-2-zyxwvutsr\<close> under another.\<close>

theorem transformSDKMessage_synthetic_id_counterexample:
  "transformSDKMessage stringify_stub entropy_a
      (JObj [(''type'', JStr ''assistant''),
             (''message'', JObj [(''content'',
                JArr [JObj [(''type'', JStr ''tool_use''), (''name'', JStr ''Read'')]])])])
   = ([JObj [(''type'', JStr ''tool_use''), (''id'', JStr ''tool-1-abcdefghi''),
             (''name'', JStr ''Read''), (''input'', JObj []), (''parentToolUseId'', JNull)]], None)
   \<and> transformSDKMessage stringify_stub entropy_b
      (JObj [(''type'', JStr ''assistant''),
             (''message'', JObj [(''content'',
                JArr [JObj [(''type'', JStr ''tool_use''), (''name'', JStr ''Read'')]])])])
   = ([JObj [(''type'', JStr ''tool_use''), (''id'', JStr ''tool-2-zyxwvutsr''),
             (''name'', JStr ''Read''), (''input'', JObj []), (''parentToolUseId'', JNull)]], None)
   \<and> transformSDKMessage stringify_stub entropy_a
      (JObj [(''type'', JStr ''assistant''),
             (''message'', JObj [(''content'',
                JArr [JObj [(''type'', JStr ''tool_use''), (''name'', JStr ''Read'')]])])])
   \<noteq> transformSDKMessage stringify_stub entropy_b
      (JObj [(''type'', JStr ''assistant''),
             (''message'', JObj [(''content'',
                JArr [JObj [(''type'', JStr ''tool_use''), (''name'', JStr ''Read'')]])])])"
  by code_simp

subsection \<open>The nested-task identifier\<close>

lemma assistantBlock_routed: "list_all (routed p) (fst (assistantBlock e p k b))"
  by (simp add: assistantBlock_def routed_def)

lemma assistantBlocks_routed: "list_all (routed p) (fst (assistantBlocks e p k bs))"
  by (induction bs arbitrary: k) (simp_all add: case_prod_beta assistantBlock_routed)

lemma userBlock_routed: "userBlock S m p b = Inr out \<Longrightarrow> list_all (routed p) out"
  by (auto simp add: userBlock_def routed_def split: if_splits sum.splits)

lemma userBlocks_routed: "list_all (routed p) (fst (userBlocks S m p bs))"
  by (induction bs) (simp_all add: case_prod_beta userBlock_routed split: sum.splits)

lemma streamEvent_routed: "list_all (routed p) (streamEvent e m p)"
  by (simp add: streamEvent_def routed_def Let_def)

lemma userMessage_events:
  "list_all (\<lambda>ev. routed p ev \<or> unrouted ev) (fst (userMessage S m p))"
proof -
  have "list_all (routed p) (fst (userBlocks S m p bs))" for bs
    by (rule userBlocks_routed)
  then have r: "\<forall>ev \<in> set (fst (userBlocks S m p bs)). routed p ev" for bs
    by (simp add: list_all_iff)
  have t: "routed p (JObj [(''type'', JStr ''tool_result''), (''id'', i), (''content'', c),
        (''isError'', JBool False), (''parentToolUseId'', p)])" for i c
    by (simp add: routed_def)
  have b: "unrouted (JObj [(''type'', JStr ''blocked''), (''content'', c)])" for c
    by (simp add: unrouted_def)
  show ?thesis
    using r t b
    by (auto simp add: userMessage_def userContent_def Let_def case_prod_beta list_all_iff
          split: sum.splits)
qed

lemma transform_events:
  "list_all (\<lambda>ev. routed (nullish_coalesce (get m ''parent_tool_use_id'') JNull) ev \<or> unrouted ev)
     (fst (transformSDKMessage S e m))"
proof -
  let ?p = "nullish_coalesce (get m ''parent_tool_use_id'') JNull"
  have a: "\<forall>ev \<in> set (fst (assistantBlocks e ?p 0 bs)). routed ?p ev" for bs
    using assistantBlocks_routed[of ?p e 0 bs] by (simp add: list_all_iff)
  have s: "\<forall>ev \<in> set (streamEvent e m ?p). routed ?p ev"
    using streamEvent_routed[of ?p e m] by (simp add: list_all_iff)
  have u: "\<forall>ev \<in> set (fst (userMessage S m ?p)). routed ?p ev \<or> unrouted ev"
    using userMessage_events[of ?p S m] by (simp add: list_all_iff)
  have i: "unrouted (JObj [(''type'', JStr ''session_init''), (''sessionId'', c)])" for c
    by (simp add: unrouted_def)
  have x: "unrouted (JObj [(''type'', JStr ''error''), (''content'', c)])" for c
    by (simp add: unrouted_def)
  show ?thesis
    using a s u i x by (auto simp add: transformSDKMessage_def Let_def list_all_iff)
qed

text \<open>
  C9 (as amended). Every event the transformer yields is of one of two kinds. A
  \<open>thinking\<close>, \<open>text\<close>, \<open>tool_use\<close> or \<open>tool_result\<close> chunk carries
  \<open>parentToolUseId\<close>, equal to the message's \<open>parent_tool_use_id\<close>, or \<open>null\<close> when
  that is absent. A \<open>blocked\<close> chunk, an \<open>error\<close> chunk and the session-init event
  have no \<open>parentToolUseId\<close> property.
\<close>

theorem transformSDKMessage_parentToolUseId:
  "\<forall>ev \<in> set (fst (transformSDKMessage S e message)).
     (get ev ''type'' \<in> {JStr ''thinking'', JStr ''text'', JStr ''tool_use'', JStr ''tool_result''}
        \<and> get ev ''parentToolUseId'' = nullish_coalesce (get message ''parent_tool_use_id'') JNull)
     \<or> (get ev ''type'' \<in> {JStr ''blocked'', JStr ''error'', JStr ''session_init''}
        \<and> get ev ''parentToolUseId'' = JUndefined)"
  using transform_events[of message S e]
  by (simp add: list_all_iff routed_def unrouted_def)

text \<open>The theorem at a text block of a sub-task's assistant message.\<close>

theorem transformSDKMessage_parentToolUseId_witness:
  "fst (transformSDKMessage stringify_stub entropy_a
      (JObj [(''type'', JStr ''assistant''), (''parent_tool_use_id'', JStr ''task-1''),
             (''message'', JObj [(''content'',
                JArr [JObj [(''type'', JStr ''text''), (''text'', JStr ''hi'')]])])]))
     = [JObj [(''type'', JStr ''text''), (''content'', JStr ''hi''),
              (''parentToolUseId'', JStr ''task-1'')]]
   \<and> get (JObj [(''type'', JStr ''text''), (''content'', JStr ''hi''),
              (''parentToolUseId'', JStr ''task-1'')]) ''parentToolUseId'' = JStr ''task-1''"
  using transformSDKMessage_parentToolUseId
    [of stringify_stub entropy_a
        "JObj [(''type'', JStr ''assistant''), (''parent_tool_use_id'', JStr ''task-1''),
             (''message'', JObj [(''content'',
                JArr [JObj [(''type'', JStr ''text''), (''text'', JStr ''hi'')]])])]"]
  by (simp add: transformSDKMessage_def assistantBlock_def nullish_coalesce_def)

text \<open>The claim as stated fails at a denial-flagged user message of a sub-task: the
  \<open>blocked\<close> chunk is a stream chunk and has no \<open>parentToolUseId\<close>, while the
  message's identifier is \<open>task-1\<close>.\<close>

theorem transformSDKMessage_blocked_counterexample:
  "fst (transformSDKMessage stringify_stub entropy_a
      (JObj [(''type'', JStr ''user''), (''parent_tool_use_id'', JStr ''task-1''),
             (''_blocked'', JBool True), (''_blockReason'', JStr ''denied'')]))
     = [JObj [(''type'', JStr ''blocked''), (''content'', JStr ''denied'')]]
   \<and> isStreamChunk (JObj [(''type'', JStr ''blocked''), (''content'', JStr ''denied'')])
   \<and> get (JObj [(''type'', JStr ''blocked''), (''content'', JStr ''denied'')]) ''parentToolUseId''
       = JUndefined
   \<and> nullish_coalesce (get (JObj [(''type'', JStr ''user''), (''parent_tool_use_id'', JStr ''task-1''),
             (''_blocked'', JBool True), (''_blockReason'', JStr ''denied'')]) ''parent_tool_use_id'') JNull
       = JStr ''task-1''"
  by (simp add: transformSDKMessage_def userMessage_def isStreamChunk_def nullish_coalesce_def)

section \<open>Properties of path containment\<close>

subsection \<open>Segments and separators\<close>

lemma split_sep_not_Nil: "split_sep s \<noteq> []"
  by (induction s) (auto split: list.splits)

lemma split_sep_append_sep: "split_sep (a @ CHR ''/'' # b) = split_sep a @ split_sep b"
proof (induction a)
  case Nil
  show ?case using split_sep_not_Nil[of b] by (cases "split_sep b") simp_all
next
  case (Cons c a)
  show ?case
  proof (cases "c = CHR ''/''")
    case True
    then show ?thesis using Cons by simp
  next
    case False
    obtain seg segs where sa: "split_sep a = seg # segs"
      using split_sep_not_Nil[of a] by (cases "split_sep a") auto
    then show ?thesis using False Cons by simp
  qed
qed

lemma split_sep_no_sep: "CHR ''/'' \<notin> set s \<Longrightarrow> split_sep s = [s]"
  by (induction s) auto

lemma split_sep_segments: "seg \<in> set (split_sep s) \<Longrightarrow> CHR ''/'' \<notin> set seg"
proof (induction s arbitrary: seg)
  case Nil
  then show ?case by simp
next
  case (Cons c s)
  obtain x xs where sa: "split_sep s = x # xs"
    using split_sep_not_Nil[of s] by (cases "split_sep s") auto
  show ?case
  proof (cases "c = CHR ''/''")
    case True
    then show ?thesis using Cons by auto
  next
    case False
    then have "seg = c # x \<or> seg \<in> set xs" using Cons.prems sa by simp
    then show ?thesis using Cons.IH[of x] Cons.IH[of seg] sa False by auto
  qed
qed

lemma join_sep_Cons: "segs \<noteq> [] \<Longrightarrow> join_sep (seg # segs) = seg @ CHR ''/'' # join_sep segs"
  by (cases segs) simp_all

lemma join_sep_append:
  "xs \<noteq> [] \<Longrightarrow> ys \<noteq> [] \<Longrightarrow> join_sep (xs @ ys) = join_sep xs @ CHR ''/'' # join_sep ys"
proof (induction xs)
  case Nil
  then show ?case by simp
next
  case (Cons x xs)
  show ?case
  proof (cases "xs = []")
    case True
    then show ?thesis using Cons.prems by (simp add: join_sep_Cons)
  next
    case False
    then show ?thesis using Cons by (simp add: join_sep_Cons)
  qed
qed

lemma split_join:
  "xs \<noteq> [] \<Longrightarrow> \<forall>seg \<in> set xs. CHR ''/'' \<notin> set seg \<Longrightarrow> split_sep (join_sep xs) = xs"
proof (induction xs)
  case Nil
  then show ?case by simp
next
  case (Cons x xs)
  show ?case
  proof (cases "xs = []")
    case True
    then show ?thesis using Cons.prems by (simp add: split_sep_no_sep)
  next
    case False
    then show ?thesis
      using Cons by (simp add: join_sep_Cons split_sep_append_sep split_sep_no_sep)
  qed
qed

lemma join_sep_eq_Nil: "clean xs \<Longrightarrow> join_sep xs = [] \<Longrightarrow> xs = []"
  by (cases xs rule: join_sep.cases) (auto simp: clean_def)

lemma join_sep_inj:
  assumes "clean xs" "clean ys" "join_sep xs = join_sep ys"
  shows "xs = ys"
proof (cases "xs = [] \<or> ys = []")
  case True
  then show ?thesis using assms join_sep_eq_Nil[of xs] join_sep_eq_Nil[of ys] by auto
next
  case False
  then have "split_sep (join_sep xs) = xs" "split_sep (join_sep ys) = ys"
    using assms(1,2) split_join[of xs] split_join[of ys] by (simp_all add: clean_def)
  then show ?thesis using assms(3) by metis
qed

lemma join_sep_no_leading_sep:
  "clean xs \<Longrightarrow> \<not> prefix ''/'' (join_sep xs)"
proof (cases xs)
  case Nil
  then show ?thesis by simp
next
  case (Cons seg segs)
  assume "clean xs"
  then obtain c cs where "seg = c # cs" "c \<noteq> CHR ''/''"
    using Cons by (cases seg) (auto simp: clean_def)
  then show ?thesis using Cons by (cases segs) simp_all
qed

lemma join_sep_prefix:
  assumes "clean xs" "clean ys" "xs \<noteq> []"
  shows "prefix (join_sep xs @ ''/'') (join_sep ys) \<longleftrightarrow> strict_prefix xs ys"
proof
  assume "prefix (join_sep xs @ ''/'') (join_sep ys)"
  then obtain rest where r: "join_sep ys = join_sep xs @ CHR ''/'' # rest"
    by (auto simp: prefix_def)
  have "ys \<noteq> []" using r by (cases ys) auto
  then have "ys = split_sep (join_sep ys)"
    using assms split_join[of ys] by (simp add: clean_def)
  also have "\<dots> = split_sep (join_sep xs) @ split_sep rest"
    by (simp add: r split_sep_append_sep)
  also have "\<dots> = xs @ split_sep rest"
    using assms split_join[of xs] by (simp add: clean_def)
  finally show "strict_prefix xs ys"
    using split_sep_not_Nil[of rest] by (auto simp: strict_prefix_def prefix_def)
next
  assume "strict_prefix xs ys"
  then obtain zs where z: "ys = xs @ zs" "zs \<noteq> []"
    by (auto simp: strict_prefix_def prefix_def)
  then show "prefix (join_sep xs @ ''/'') (join_sep ys)"
    using assms(3) by (simp add: join_sep_append prefix_def)
qed

lemma normalize_step_clean: "clean res \<Longrightarrow> CHR ''/'' \<notin> set seg \<Longrightarrow> clean (normalize_step False res seg)"
  by (auto simp: normalize_step_def clean_def dest: in_set_butlastD)

lemma foldl_normalize_clean:
  "clean res \<Longrightarrow> \<forall>seg \<in> set segs. CHR ''/'' \<notin> set seg \<Longrightarrow>
   clean (foldl (normalize_step False) res segs)"
  by (induction segs arbitrary: res) (simp_all add: normalize_step_clean)

lemma normalize_segments_clean: "clean (normalize_segments False p)"
  unfolding normalize_segments_def
  using foldl_normalize_clean[of "[]" "split_sep p"] split_sep_segments[of _ p]
  by (auto simp: clean_def)

lemma normalize_segments_trailing:
  "normalize_segments b (p @ ''/'') = normalize_segments b p"
  by (simp add: normalize_segments_def split_sep_append_sep normalize_step_def)

lemma path_resolve_absolute:
  "isAbsolute p \<Longrightarrow> path_resolve wd [p] = ''/'' @ join_sep (normalize_segments False p)"
  using normalize_segments_trailing[of False p]
  by (auto simp: path_resolve_def isAbsolute_def normalizeString_def split: list.splits)

lemma path_resolve_relative:
  "isAbsolute R \<Longrightarrow> \<not> isAbsolute C \<Longrightarrow>
   path_resolve wd [R, C] = ''/'' @ join_sep (normalize_segments False (R @ ''/'' @ C))"
  using normalize_segments_trailing[of False "R @ ''/'' @ C"] normalize_segments_trailing[of False R]
  by (auto simp: path_resolve_def isAbsolute_def normalizeString_def normalize_segments_def
        split_sep_append_sep normalize_step_def split: list.splits)

subsection \<open>Containment compares canonical forms\<close>

lemma resolveRealPath_lexical:
  "fs_realpathSync h = (\<lambda>p. None) \<Longrightarrow> isAbsolute p \<Longrightarrow>
   resolveRealPath h p = ''/'' @ join_sep (normalize_segments False p)"
  by (simp add: resolveRealPath_def path_resolve_absolute)

lemma resolveRealPath_cwd:
  "isAbsolute p \<Longrightarrow> resolveRealPath (h\<lparr>process_cwd := wd\<rparr>) p = resolveRealPath h p"
  by (simp add: resolveRealPath_def path_resolve_absolute split: option.splits)

lemma isAbsolute_not_tilde: "isAbsolute p \<Longrightarrow> \<not> prefix ''~/'' p"
  by (auto simp: isAbsolute_def prefix_def split: list.splits)

lemma isPathWithinVault_absolute:
  "isAbsolute C \<Longrightarrow>
   isPathWithinVault h C R \<longleftrightarrow>
     (resolveRealPath h C = resolveRealPath h R \<or> prefix (resolveRealPath h R @ ''/'') (resolveRealPath h C))"
  using isAbsolute_not_tilde[of C] by (simp add: isPathWithinVault_def Let_def)

lemma isPathWithinVault_segments:
  assumes "fs_realpathSync h = (\<lambda>p. None)" "isAbsolute C" "isAbsolute R"
  shows "isPathWithinVault h C R \<longleftrightarrow>
           (normalize_segments False C = normalize_segments False R
            \<or> (normalize_segments False R \<noteq> []
                \<and> strict_prefix (normalize_segments False R) (normalize_segments False C)))"
proof -
  let ?rs = "normalize_segments False R" and ?cs = "normalize_segments False C"
  have c: "clean ?rs" "clean ?cs" by (rule normalize_segments_clean)+
  have w: "isPathWithinVault h C R \<longleftrightarrow>
             (join_sep ?cs = join_sep ?rs \<or> prefix (join_sep ?rs @ ''/'') (join_sep ?cs))"
    using assms by (simp add: isPathWithinVault_absolute resolveRealPath_lexical)
  have e: "join_sep ?cs = join_sep ?rs \<longleftrightarrow> ?cs = ?rs"
    using join_sep_inj[OF c(2) c(1)] by auto
  show ?thesis
  proof (cases "?rs = []")
    case True
    then show ?thesis
      using w e join_sep_no_leading_sep[OF c(2)] by simp
  next
    case False
    then show ?thesis
      using w e join_sep_prefix[OF c(1) c(2) False] by simp
  qed
qed

lemma resolveRealPath_canonical:
  assumes "isAbsolute p" "realpath_normal h p"
  shows "resolveRealPath h p = ''/'' @ join_sep (canonical_segments h p)"
  using assms
  by (simp add: resolveRealPath_def realpath_normal_def canonical_segments_def
        path_resolve_absolute split: option.splits)

lemma absCandidate_absolute: "isAbsolute R \<Longrightarrow> isAbsolute (absCandidate h C R)"
  by (simp add: absCandidate_def Let_def path_resolve_relative) (simp add: isAbsolute_def)

lemma isPathWithinVault_absCandidate:
  "isPathWithinVault h C R \<longleftrightarrow>
     (resolveRealPath h (absCandidate h C R) = resolveRealPath h R
      \<or> prefix (resolveRealPath h R @ ''/'') (resolveRealPath h (absCandidate h C R)))"
  by (simp add: isPathWithinVault_def absCandidate_def Let_def)

lemma isPathWithinVault_canonical_segments_iff:
  assumes "isAbsolute R" "realpath_normal h R" "realpath_normal h (absCandidate h C R)"
  shows "isPathWithinVault h C R \<longleftrightarrow>
           (canonical_segments h (absCandidate h C R) = canonical_segments h R
            \<or> (canonical_segments h R \<noteq> []
                \<and> strict_prefix (canonical_segments h R)
                     (canonical_segments h (absCandidate h C R))))"
proof -
  let ?rs = "canonical_segments h R" and ?cs = "canonical_segments h (absCandidate h C R)"
  have c: "clean ?rs" "clean ?cs"
    by (simp_all add: canonical_segments_def normalize_segments_clean)
  have w: "isPathWithinVault h C R \<longleftrightarrow>
             (join_sep ?cs = join_sep ?rs \<or> prefix (join_sep ?rs @ ''/'') (join_sep ?cs))"
    using assms absCandidate_absolute[OF assms(1), of h C]
    by (simp add: isPathWithinVault_absCandidate resolveRealPath_canonical)
  have e: "join_sep ?cs = join_sep ?rs \<longleftrightarrow> ?cs = ?rs"
    using join_sep_inj[OF c(2) c(1)] by auto
  show ?thesis
  proof (cases "?rs = []")
    case True
    then show ?thesis
      using w e join_sep_no_leading_sep[OF c(2)] by simp
  next
    case False
    then show ?thesis
      using w e join_sep_prefix[OF c(1) c(2) False] by simp
  qed
qed

text \<open>
  C1. \<open>isPathWithinVault\<close> compares canonical forms by whole segments. The canonical
  form of a path is its \<open>realpath\<close> where that exists and its lexical resolution
  otherwise, which for an absolute path is \<open>/\<close> followed by its canonical
  segments; the candidate is first expanded (\<open>~/\<close>) and made absolute against the
  root. On every host whose \<open>realpath\<close> returns absolute paths in normal form, and
  for every absolute root, the check is true exactly when the canonical segments of the
  candidate are those of the root, or the canonical root is not \<open>/\<close> and its segments
  are a proper initial part of the candidate's. So \<open>/vaultx\<close> is not within
  \<open>/vault\<close>, and \<open>/vault/x\<close> is. When the canonical root is \<open>/\<close> the check
  appends the separator to it and looks for \<open>//\<close>: only \<open>/\<close> itself is within,
  and the proper descendant \<open>/notes/a.md\<close> of the root \<open>/\<close> is rejected.
\<close>

theorem isPathWithinVault_canonical_segments:
  "(isAbsolute p \<and> realpath_normal h p \<longrightarrow>
      resolveRealPath h p = ''/'' @ join_sep (canonical_segments h p))
   \<and> (isAbsolute R \<longrightarrow> isAbsolute (absCandidate h C R))
   \<and> (isAbsolute R \<and> realpath_normal h R \<and> realpath_normal h (absCandidate h C R) \<longrightarrow>
      (isPathWithinVault h C R \<longleftrightarrow>
         (canonical_segments h (absCandidate h C R) = canonical_segments h R
          \<or> (canonical_segments h R \<noteq> []
              \<and> strict_prefix (canonical_segments h R)
                   (canonical_segments h (absCandidate h C R))))))
   \<and> (isAbsolute R \<and> realpath_normal h R \<and> realpath_normal h (absCandidate h C R)
        \<and> canonical_segments h R = [] \<longrightarrow>
      (isPathWithinVault h C R \<longleftrightarrow> canonical_segments h (absCandidate h C R) = []))
   \<and> (fs_realpathSync h ''/vault'' = None \<and> fs_realpathSync h ''/vaultx'' = None
        \<and> fs_realpathSync h ''/vault/x'' = None \<longrightarrow>
        \<not> isPathWithinVault h ''/vaultx'' ''/vault'' \<and> isPathWithinVault h ''/vault/x'' ''/vault'')
   \<and> \<not> isPathWithinVault lexical_host ''/notes/a.md'' ''/''"
proof -
  have general: "isAbsolute R \<and> realpath_normal h R \<and> realpath_normal h (absCandidate h C R) \<longrightarrow>
      (isPathWithinVault h C R \<longleftrightarrow>
         (canonical_segments h (absCandidate h C R) = canonical_segments h R
          \<or> (canonical_segments h R \<noteq> []
              \<and> strict_prefix (canonical_segments h R)
                   (canonical_segments h (absCandidate h C R)))))"
    using isPathWithinVault_canonical_segments_iff[of R h C] by blast
  have root: "isAbsolute R \<and> realpath_normal h R \<and> realpath_normal h (absCandidate h C R)
        \<and> canonical_segments h R = [] \<longrightarrow>
      (isPathWithinVault h C R \<longleftrightarrow> canonical_segments h (absCandidate h C R) = [])"
    using isPathWithinVault_canonical_segments_iff[of R h C] by auto
  have a: "isAbsolute ''/vault''" "isAbsolute ''/''"
    by (simp_all add: isAbsolute_def)
  have c: "absCandidate h ''/vaultx'' ''/vault'' = ''/vaultx''"
    "absCandidate h ''/vault/x'' ''/vault'' = ''/vault/x''"
    "absCandidate lexical_host ''/notes/a.md'' ''/'' = ''/notes/a.md''"
    by (simp_all add: absCandidate_def isAbsolute_def)
  have n: "normalize_segments False ''/vaultx'' = [''vaultx'']"
    "normalize_segments False ''/vault'' = [''vault'']"
    "normalize_segments False ''/vault/x'' = [''vault'', ''x'']"
    "normalize_segments False ''/'' = []"
    "normalize_segments False ''/notes/a.md'' = [''notes'', ''a.md'']"
    by (simp_all add: normalize_segments_def normalize_step_def)
  have examples: "fs_realpathSync h ''/vault'' = None \<and> fs_realpathSync h ''/vaultx'' = None
        \<and> fs_realpathSync h ''/vault/x'' = None \<longrightarrow>
        \<not> isPathWithinVault h ''/vaultx'' ''/vault'' \<and> isPathWithinVault h ''/vault/x'' ''/vault''"
    using isPathWithinVault_canonical_segments_iff[OF a(1), of h "''/vaultx''"]
      isPathWithinVault_canonical_segments_iff[OF a(1), of h "''/vault/x''"]
    by (simp add: c n realpath_normal_def canonical_segments_def)
  have l: "fs_realpathSync lexical_host p = None" for p
    by (simp add: lexical_host_def)
  have failing: "\<not> isPathWithinVault lexical_host ''/notes/a.md'' ''/''"
    using isPathWithinVault_canonical_segments_iff[OF a(2), of lexical_host "''/notes/a.md''"]
    by (simp add: c n l realpath_normal_def canonical_segments_def)
  have canonical: "isAbsolute p \<and> realpath_normal h p \<longrightarrow>
      resolveRealPath h p = ''/'' @ join_sep (canonical_segments h p)"
    using resolveRealPath_canonical[of p h] by blast
  have absolute: "isAbsolute R \<longrightarrow> isAbsolute (absCandidate h C R)"
    using absCandidate_absolute[of R h C] by blast
  show ?thesis
    by (rule conjI[OF canonical conjI[OF absolute
         conjI[OF general conjI[OF root conjI[OF examples failing]]]]])
qed

text \<open>The theorem on a host where the vault \<open>/vault\<close> is a link to \<open>/data/vault\<close>:
  a note of the vault is within it, and a link in the vault to a file outside it is
  not; and on a file system where nothing exists, at a path that comes back into the
  vault, one that leaves it through \<open>..\<close>, and the mere string prefix.\<close>

theorem isPathWithinVault_canonical_segments_witness:
  "isPathWithinVault symlink_host ''/vault/a.md'' ''/vault''
   \<and> \<not> isPathWithinVault symlink_host ''/vault/out'' ''/vault''
   \<and> isPathWithinVault lexical_host ''/vault/notes/../a.md'' ''/vault/''
   \<and> \<not> isPathWithinVault lexical_host ''/vault/../etc/passwd'' ''/vault/''
   \<and> \<not> isPathWithinVault lexical_host ''/vaultx'' ''/vault''
   \<and> isPathWithinVault lexical_host ''/'' ''/''
   \<and> resolveRealPath symlink_host ''/vault'' = ''/data/vault''"
  using isPathWithinVault_canonical_segments
     [where h = symlink_host and p = "''/vault''", THEN conjunct1]
    isPathWithinVault_canonical_segments
     [where h = symlink_host and C = "''/vault/a.md''" and R = "''/vault''",
      THEN conjunct2, THEN conjunct2, THEN conjunct1]
    isPathWithinVault_canonical_segments
     [where h = symlink_host and C = "''/vault/out''" and R = "''/vault''",
      THEN conjunct2, THEN conjunct2, THEN conjunct1]
    isPathWithinVault_canonical_segments
     [where h = lexical_host and C = "''/vault/notes/../a.md''" and R = "''/vault/''",
      THEN conjunct2, THEN conjunct2, THEN conjunct1]
    isPathWithinVault_canonical_segments
     [where h = lexical_host and C = "''/vault/../etc/passwd''" and R = "''/vault/''",
      THEN conjunct2, THEN conjunct2, THEN conjunct1]
    isPathWithinVault_canonical_segments
     [where h = lexical_host and C = "''/vaultx''" and R = "''/vault''", THEN conjunct2,
      THEN conjunct2, THEN conjunct2, THEN conjunct2, THEN conjunct1]
    isPathWithinVault_canonical_segments
     [where h = lexical_host and C = "''/''" and R = "''/''",
      THEN conjunct2, THEN conjunct2, THEN conjunct2, THEN conjunct1]
  by (simp add: symlink_host_def lexical_host_def isAbsolute_def absCandidate_def
        realpath_normal_def canonical_segments_def normalize_segments_def normalize_step_def)

subsection \<open>Relative candidates\<close>

lemma path_resolve_relative_absolute:
  "isAbsolute R \<Longrightarrow> \<not> isAbsolute C \<Longrightarrow> isAbsolute (path_resolve wd [R, C])"
  by (simp add: path_resolve_relative) (simp add: isAbsolute_def)

lemma path_resolve_relative_cwd:
  "isAbsolute R \<Longrightarrow> \<not> isAbsolute C \<Longrightarrow> path_resolve wd [R, C] = path_resolve wd' [R, C]"
  by (simp add: path_resolve_relative)

lemma isPathWithinVault_relative:
  assumes "isAbsolute R" "\<not> isAbsolute C" "\<not> prefix ''~/'' C"
  shows "isPathWithinVault h C R = isPathWithinVault h (path_resolve wd [R, C]) R"
proof -
  have a: "isAbsolute (path_resolve wd [R, C])"
    using assms by (simp add: path_resolve_relative_absolute)
  have "isPathWithinVault h C R \<longleftrightarrow>
     (resolveRealPath h (path_resolve wd [R, C]) = resolveRealPath h R
       \<or> prefix (resolveRealPath h R @ ''/'') (resolveRealPath h (path_resolve wd [R, C])))"
    using assms path_resolve_relative_cwd[of R C "process_cwd h" wd]
    by (simp add: isPathWithinVault_def Let_def)
  then show ?thesis using isPathWithinVault_absolute[OF a, of h R] by simp
qed

lemma isPathWithinVault_cwd:
  assumes "isAbsolute R" "\<not> isAbsolute C" "\<not> prefix ''~/'' C"
  shows "isPathWithinVault (h\<lparr>process_cwd := wd\<rparr>) C R = isPathWithinVault h C R"
proof -
  have a: "isAbsolute (path_resolve wd [R, C])"
    using assms by (simp add: path_resolve_relative_absolute)
  have "isPathWithinVault (h\<lparr>process_cwd := wd\<rparr>) C R
      = isPathWithinVault (h\<lparr>process_cwd := wd\<rparr>) (path_resolve wd [R, C]) R"
    using assms by (rule isPathWithinVault_relative)
  also have "\<dots> = isPathWithinVault h (path_resolve wd [R, C]) R"
    using a assms(1) by (simp add: isPathWithinVault_absolute resolveRealPath_cwd)
  also have "\<dots> = isPathWithinVault h C R"
    using assms by (rule isPathWithinVault_relative[symmetric])
  finally show ?thesis .
qed

text \<open>
  C3 (as amended). A relative candidate path that does not start with \<open>~/\<close> is
  resolved against the root: with an absolute root, the check decides it as it decides
  the absolute path \<open>path.resolve(root, candidate)\<close>, which does not depend on the
  working directory of the process, and neither does the answer. With the root
  \<open>/test/vault/path\<close> the candidate \<open>../**/*.md\<close> resolves to
  \<open>/test/vault/**/*.md\<close> and is not within the root.
\<close>

theorem isPathWithinVault_relative_to_root:
  "(isAbsolute R \<and> \<not> isAbsolute C \<and> \<not> prefix ''~/'' C \<longrightarrow>
      isAbsolute (path_resolve wd [R, C])
      \<and> isPathWithinVault h C R = isPathWithinVault h (path_resolve wd [R, C]) R
      \<and> isPathWithinVault (h\<lparr>process_cwd := wd\<rparr>) C R = isPathWithinVault h C R)
   \<and> path_resolve wd [''/test/vault/path'', ''../**/*.md''] = ''/test/vault/**/*.md''
   \<and> (fs_realpathSync h = (\<lambda>p. None) \<longrightarrow>
        \<not> isPathWithinVault h ''../**/*.md'' ''/test/vault/path'')"
proof -
  have r: "isAbsolute ''/test/vault/path''" "\<not> isAbsolute ''../**/*.md''"
    "\<not> prefix ''~/'' ''../**/*.md''" "isAbsolute ''/test/vault/**/*.md''"
    by (simp_all add: isAbsolute_def)
  have p: "path_resolve wd [''/test/vault/path'', ''../**/*.md''] = ''/test/vault/**/*.md''"
    by (simp add: path_resolve_def isAbsolute_def normalizeString_def normalize_segments_def
        normalize_step_def)
  have n: "normalize_segments False ''/test/vault/**/*.md'' = [''test'', ''vault'', ''**'', ''*.md'']"
    "normalize_segments False ''/test/vault/path'' = [''test'', ''vault'', ''path'']"
    by (simp_all add: normalize_segments_def normalize_step_def)
  have x: "fs_realpathSync h = (\<lambda>p. None) \<Longrightarrow>
        \<not> isPathWithinVault h ''../**/*.md'' ''/test/vault/path''"
    using isPathWithinVault_relative[OF r(1) r(2) r(3), where h=h and wd=wd]
      isPathWithinVault_segments[OF _ r(4) r(1), where h=h]
    by (simp add: p n)
  show ?thesis
    using isPathWithinVault_relative[where R=R and C=C and h=h and wd=wd]
      isPathWithinVault_cwd[where R=R and C=C and h=h and wd=wd]
      path_resolve_relative_absolute[where R=R and C=C and wd=wd] p x
    by blast
qed

text \<open>The theorem at a relative path under two working directories.\<close>

theorem isPathWithinVault_relative_to_root_witness:
  "isAbsolute (path_resolve ''/somewhere/else'' [''/test/vault/path'', ''notes/../a.md''])
   \<and> path_resolve ''/somewhere/else'' [''/test/vault/path'', ''notes/../a.md''] = ''/test/vault/path/a.md''
   \<and> isPathWithinVault lexical_host ''notes/../a.md'' ''/test/vault/path''
     = isPathWithinVault lexical_host ''/test/vault/path/a.md'' ''/test/vault/path''
   \<and> isPathWithinVault (lexical_host\<lparr>process_cwd := ''/somewhere/else''\<rparr>) ''notes/../a.md'' ''/test/vault/path''
     = isPathWithinVault lexical_host ''notes/../a.md'' ''/test/vault/path''
   \<and> \<not> isPathWithinVault lexical_host ''../**/*.md'' ''/test/vault/path''"
proof -
  have p: "path_resolve ''/somewhere/else'' [''/test/vault/path'', ''notes/../a.md'']
      = ''/test/vault/path/a.md''"
    by (simp add: path_resolve_def isAbsolute_def normalizeString_def normalize_segments_def
        normalize_step_def)
  show ?thesis
    using isPathWithinVault_relative_to_root
     [of "''/test/vault/path''" "''notes/../a.md''" "''/somewhere/else''"
         lexical_host]
    by (simp add: p lexical_host_def) (simp add: isAbsolute_def)
qed

text \<open>The claim as stated, for every path that is not absolute, fails at \<open>~/x\<close>:
  resolved against the root \<open>/vault\<close> it is \<open>/vault/~/x\<close>, which is within the
  root, but the check expands it to the home directory and answers no.\<close>

theorem isPathWithinVault_tilde_counterexample:
  "\<not> isAbsolute ''~/x''
   \<and> path_resolve ''/srv'' [''/vault'', ''~/x''] = ''/vault/~/x''
   \<and> isPathWithinVault lexical_host (path_resolve ''/srv'' [''/vault'', ''~/x'']) ''/vault''
   \<and> \<not> isPathWithinVault lexical_host ''~/x'' ''/vault''"
  by (simp add: lexical_host_def isPathWithinVault_def resolveRealPath_def path_resolve_def
      path_join_def path_normalize_def isAbsolute_def normalizeString_def
      normalize_segments_def normalize_step_def)

section \<open>Properties of the response parser\<close>

subsection \<open>The first occurrence of a tag\<close>

lemma find_sub_decomp: "find_sub pat s = Some (b, a) \<Longrightarrow> s = b @ pat @ a"
proof (induction s arbitrary: b)
  case Nil
  then show ?case by (simp split: if_splits)
next
  case (Cons c s)
  show ?case
  proof (cases "prefix pat (c # s)")
    case True
    then show ?thesis using Cons.prems by (auto simp: prefix_def)
  next
    case False
    then obtain b' where "find_sub pat s = Some (b', a)" "b = c # b'"
      using Cons.prems by (auto split: option.splits)
    then show ?thesis using Cons.IH[of b'] by simp
  qed
qed

lemma find_sub_first:
  "find_sub pat s = Some (b, a) \<Longrightarrow> s = x @ pat @ y \<Longrightarrow> length b \<le> length x"
proof (induction s arbitrary: b x)
  case Nil
  then show ?case by (simp split: if_splits)
next
  case (Cons c s)
  show ?case
  proof (cases "prefix pat (c # s)")
    case True
    then show ?thesis using Cons.prems(1) by simp
  next
    case False
    then obtain b' where b': "find_sub pat s = Some (b', a)" "b = c # b'"
      using Cons.prems(1) by (auto split: option.splits)
    have "x \<noteq> []" using False Cons.prems(2) by (auto simp: prefix_def)
    then obtain x' where "x = c # x'" "s = x' @ pat @ y"
      using Cons.prems(2) by (cases x) auto
    then show ?thesis using Cons.IH[OF b'(1), of x'] b'(2) by simp
  qed
qed

lemma find_sub_None: "find_sub pat s = None \<Longrightarrow> s \<noteq> x @ pat @ y"
proof (induction s arbitrary: x)
  case Nil
  then show ?case by (simp split: if_splits)
next
  case (Cons c s)
  then have np: "\<not> prefix pat (c # s)" and n: "find_sub pat s = None"
    by (auto split: if_splits option.splits)
  show ?case
  proof
    assume e: "c # s = x @ pat @ y"
    show False
    proof (cases x)
      case Nil
      then show ?thesis using e np by (auto simp: prefix_def)
    next
      case (Cons d x')
      then have "s = x' @ pat @ y" using e by simp
      then show ?thesis using Cons.IH[OF n, of x'] by simp
    qed
  qed
qed

lemma find_sub_complete: "s = x @ pat @ y \<Longrightarrow> \<exists>b a. find_sub pat s = Some (b, a)"
  using find_sub_None[of pat s x y] by (cases "find_sub pat s") auto

lemma find_sub_unique:
  assumes "s = b @ pat @ a" and "\<forall>x y. s = x @ pat @ y \<longrightarrow> length b \<le> length x"
  shows "find_sub pat s = Some (b, a)"
proof -
  obtain b' a' where f: "find_sub pat s = Some (b', a')"
    using find_sub_complete[OF assms(1)] by auto
  have d: "s = b' @ pat @ a'" using f by (rule find_sub_decomp)
  have "length b' \<le> length b" using find_sub_first[OF f assms(1)] .
  moreover have "length b \<le> length b'" using assms(2) d by blast
  ultimately have "length b = length b'" by simp
  then have "b = b' \<and> a = a'" using assms(1) d by auto
  then show ?thesis using f by simp
qed

lemma trim_Nil_iff: "trim s = [] \<longleftrightarrow> (\<forall>c \<in> set s. isWhiteSpace c)"
proof -
  have "trim s = [] \<longleftrightarrow> (\<forall>c \<in> set (dropWhile isWhiteSpace s). isWhiteSpace c)"
    by (simp add: trim_def dropWhile_eq_Nil_conv)
  also have "\<dots> \<longleftrightarrow> dropWhile isWhiteSpace s = []"
  proof (cases "dropWhile isWhiteSpace s = []")
    case True
    then show ?thesis by (auto dest: set_dropWhileD)
  next
    case False
    then have "\<not> isWhiteSpace (hd (dropWhile isWhiteSpace s))" by (rule hd_dropWhile)
    moreover have "hd (dropWhile isWhiteSpace s) \<in> set (dropWhile isWhiteSpace s)"
      using False by (rule hd_in_set)
    ultimately show ?thesis using False by blast
  qed
  also have "\<dots> \<longleftrightarrow> (\<forall>c \<in> set s. isWhiteSpace c)"
    by (simp add: dropWhile_eq_Nil_conv)
  finally show ?thesis .
qed

lemma instructionMatch_Some:
  assumes "t = pre @ utf16 ''<instruction>'' @ body @ utf16 ''</instruction>'' @ post"
    and "\<forall>x y. t = x @ utf16 ''<instruction>'' @ y \<longrightarrow> length pre \<le> length x"
    and "\<forall>x y. body @ utf16 ''</instruction>'' @ post = x @ utf16 ''</instruction>'' @ y
           \<longrightarrow> length body \<le> length x"
  shows "instructionMatch t = Some body"
proof -
  have "find_sub (utf16 ''<instruction>'') t
      = Some (pre, body @ utf16 ''</instruction>'' @ post)"
    using assms(1,2) by (intro find_sub_unique) auto
  moreover have "find_sub (utf16 ''</instruction>'') (body @ utf16 ''</instruction>'' @ post)
      = Some (body, post)"
    using assms(3) by (intro find_sub_unique) auto
  ultimately show ?thesis by (simp add: instructionMatch_def)
qed

lemma instructionMatch_Some_shape:
  assumes "instructionMatch t = Some body"
  shows "\<exists>pre post. t = pre @ utf16 ''<instruction>'' @ body @ utf16 ''</instruction>'' @ post
     \<and> (\<forall>x y. t = x @ utf16 ''<instruction>'' @ y \<longrightarrow> length pre \<le> length x)
     \<and> (\<forall>x y. body @ utf16 ''</instruction>'' @ post = x @ utf16 ''</instruction>'' @ y
           \<longrightarrow> length body \<le> length x)"
proof -
  obtain pre a where f1: "find_sub (utf16 ''<instruction>'') t = Some (pre, a)"
    using assms by (auto simp: instructionMatch_def split: option.splits)
  then obtain post where f2: "find_sub (utf16 ''</instruction>'') a = Some (body, post)"
    using assms by (auto simp: instructionMatch_def split: option.splits)
  have a: "a = body @ utf16 ''</instruction>'' @ post" using f2 by (rule find_sub_decomp)
  have t: "t = pre @ utf16 ''<instruction>'' @ a" using f1 by (rule find_sub_decomp)
  show ?thesis
    using a t find_sub_first[OF f1] find_sub_first[OF f2] by (intro exI[of _ pre] exI[of _ post]) auto
qed

lemma find_sub_rest:
  assumes "find_sub p t = Some (b, a)" and "t = pre @ p @ rest"
  shows "\<exists>w. a = w @ rest"
proof -
  have t: "t = b @ p @ a" using assms(1) by (rule find_sub_decomp)
  have l: "length b \<le> length pre" using find_sub_first[OF assms] .
  have "b @ (p @ a) = pre @ (p @ rest)" using t assms(2) by simp
  then obtain us where "b = pre @ us \<and> us @ (p @ a) = p @ rest
      \<or> b @ us = pre \<and> p @ a = us @ (p @ rest)"
    unfolding append_eq_append_conv2 by blast
  then show ?thesis
  proof
    assume "b = pre @ us \<and> us @ (p @ a) = p @ rest"
    then have "us = []" "us @ (p @ a) = p @ rest" using l by auto
    then have "a = [] @ rest" by simp
    then show ?thesis by blast
  next
    assume "b @ us = pre \<and> p @ a = us @ (p @ rest)"
    then have "p @ a = (us @ p) @ rest" by simp
    then have "drop (length p) (p @ a) = drop (length p) ((us @ p) @ rest)" by simp
    then have "a = drop (length p) (us @ p) @ rest"
      by (simp del: append_assoc)
    then show ?thesis by blast
  qed
qed

lemma instructionMatch_complete:
  assumes "t = pre @ utf16 ''<instruction>'' @ body @ utf16 ''</instruction>'' @ post"
  shows "\<exists>captured. instructionMatch t = Some captured"
proof -
  obtain b a where f1: "find_sub (utf16 ''<instruction>'') t = Some (b, a)"
    using find_sub_complete[OF assms] by auto
  obtain w where "a = w @ body @ utf16 ''</instruction>'' @ post"
    using find_sub_rest[OF f1 assms] by auto
  then have "a = (w @ body) @ utf16 ''</instruction>'' @ post" by simp
  then obtain c r where "find_sub (utf16 ''</instruction>'') a = Some (c, r)"
    using find_sub_complete[of a "w @ body" "utf16 ''</instruction>''" post] by auto
  then show ?thesis using f1 by (simp add: instructionMatch_def)
qed

subsection \<open>The three outcomes\<close>

lemma whitespace_no_tag:
  assumes "\<forall>c \<in> set t. isWhiteSpace c"
  shows "instructionMatch t = None"
proof (cases "find_sub (utf16 ''<instruction>'') t")
  case None
  then show ?thesis by (simp add: instructionMatch_def)
next
  case (Some r)
  obtain b a where "r = (b, a)" by (cases r)
  then have "t = b @ utf16 ''<instruction>'' @ a" using Some find_sub_decomp by blast
  then have "60 \<in> set t" by (simp add: utf16_def)
  then have "isWhiteSpace 60" using assms by blast
  then show ?thesis by (simp add: isWhiteSpace_def)
qed

text \<open>
  C6. \<open>parseResponse\<close> has three outcomes, and exactly one applies to each text. If the
  text holds a tagged block, an opening \<open><instruction>\<close> with a closing
  \<open></instruction>\<close> after it, the result is a success whose payload is the trimmed
  contents of the block: those between the first opening tag and the first closing tag
  after it. If it holds no tagged block and is not white space only, the result is a
  success whose clarification is the trimmed text. If it is empty or white space only,
  the result is the failure \<open>Empty response\<close>.
\<close>

theorem parseResponse_three_way:
  "((\<exists>pre body post.
        t = pre @ utf16 ''<instruction>'' @ body @ utf16 ''</instruction>'' @ post) \<longrightarrow>
      (\<exists>pre body post.
          t = pre @ utf16 ''<instruction>'' @ body @ utf16 ''</instruction>'' @ post
          \<and> (\<forall>x y. t = x @ utf16 ''<instruction>'' @ y \<longrightarrow> length pre \<le> length x)
          \<and> (\<forall>x y. body @ utf16 ''</instruction>'' @ post = x @ utf16 ''</instruction>'' @ y
                 \<longrightarrow> length body \<le> length x)
          \<and> parseResponse t =
              \<lparr>success = True, refinedInstruction = Some (trim body), clarification = None,
               error = None\<rparr>))
   \<and> (t = pre @ utf16 ''<instruction>'' @ body @ utf16 ''</instruction>'' @ post
        \<and> (\<forall>x y. t = x @ utf16 ''<instruction>'' @ y \<longrightarrow> length pre \<le> length x)
        \<and> (\<forall>x y. body @ utf16 ''</instruction>'' @ post = x @ utf16 ''</instruction>'' @ y
               \<longrightarrow> length body \<le> length x)
      \<longrightarrow> parseResponse t =
            \<lparr>success = True, refinedInstruction = Some (trim body), clarification = None,
             error = None\<rparr>)
   \<and> (\<not> (\<exists>pre body post.
            t = pre @ utf16 ''<instruction>'' @ body @ utf16 ''</instruction>'' @ post)
        \<and> \<not> (\<forall>c \<in> set t. isWhiteSpace c)
      \<longrightarrow> trim t \<noteq> []
          \<and> parseResponse t =
              \<lparr>success = True, refinedInstruction = None, clarification = Some (trim t),
               error = None\<rparr>)
   \<and> ((\<forall>c \<in> set t. isWhiteSpace c)
      \<longrightarrow> parseResponse t =
            \<lparr>success = False, refinedInstruction = None, clarification = None,
             error = Some ''Empty response''\<rparr>)"
proof (intro conjI impI)
  assume "\<exists>pre body post.
        t = pre @ utf16 ''<instruction>'' @ body @ utf16 ''</instruction>'' @ post"
  then obtain captured where m: "instructionMatch t = Some captured"
    using instructionMatch_complete by blast
  then have "parseResponse t =
      \<lparr>success = True, refinedInstruction = Some (trim captured), clarification = None,
       error = None\<rparr>"
    by (simp add: parseResponse_def)
  then show "\<exists>pre body post.
          t = pre @ utf16 ''<instruction>'' @ body @ utf16 ''</instruction>'' @ post
          \<and> (\<forall>x y. t = x @ utf16 ''<instruction>'' @ y \<longrightarrow> length pre \<le> length x)
          \<and> (\<forall>x y. body @ utf16 ''</instruction>'' @ post = x @ utf16 ''</instruction>'' @ y
                 \<longrightarrow> length body \<le> length x)
          \<and> parseResponse t =
              \<lparr>success = True, refinedInstruction = Some (trim body), clarification = None,
               error = None\<rparr>"
    using instructionMatch_Some_shape[OF m] by blast
next
  assume "t = pre @ utf16 ''<instruction>'' @ body @ utf16 ''</instruction>'' @ post
        \<and> (\<forall>x y. t = x @ utf16 ''<instruction>'' @ y \<longrightarrow> length pre \<le> length x)
        \<and> (\<forall>x y. body @ utf16 ''</instruction>'' @ post = x @ utf16 ''</instruction>'' @ y
               \<longrightarrow> length body \<le> length x)"
  then have "instructionMatch t = Some body"
    using instructionMatch_Some[of t pre body post] by blast
  then show "parseResponse t =
      \<lparr>success = True, refinedInstruction = Some (trim body), clarification = None,
       error = None\<rparr>"
    by (simp add: parseResponse_def)
next
  assume a: "\<not> (\<exists>pre body post.
            t = pre @ utf16 ''<instruction>'' @ body @ utf16 ''</instruction>'' @ post)
        \<and> \<not> (\<forall>c \<in> set t. isWhiteSpace c)"
  have n: "instructionMatch t = None"
  proof (cases "instructionMatch t")
    case None
    then show ?thesis .
  next
    case (Some captured)
    then show ?thesis using instructionMatch_Some_shape[OF Some] a by blast
  qed
  have w: "trim t \<noteq> []" using a trim_Nil_iff[of t] by blast
  then show "trim t \<noteq> []" .
  show "parseResponse t =
      \<lparr>success = True, refinedInstruction = None, clarification = Some (trim t),
       error = None\<rparr>"
    using n w by (simp add: parseResponse_def Let_def)
next
  assume a: "\<forall>c \<in> set t. isWhiteSpace c"
  then have "instructionMatch t = None" "trim t = []"
    using whitespace_no_tag[of t] trim_Nil_iff[of t] by blast+
  then show "parseResponse t =
      \<lparr>success = False, refinedInstruction = None, clarification = None,
       error = Some ''Empty response''\<rparr>"
    by (simp add: parseResponse_def failure_def)
qed

text \<open>The theorem at a response with a tagged block, at a question, and at a
  response of spaces, a line feed and an em space.\<close>

theorem parseResponse_three_way_witness:
  "parseResponse (utf16 ''Sure. <instruction> - Be brief. </instruction> Done.'')
     = \<lparr>success = True, refinedInstruction = Some (utf16 ''- Be brief.''), clarification = None,
         error = None\<rparr>
   \<and> parseResponse (utf16 ''  Which style do you mean? '')
     = \<lparr>success = True, refinedInstruction = None,
         clarification = Some (utf16 ''Which style do you mean?''), error = None\<rparr>
   \<and> parseResponse (utf16 ''  '' @ [0x0A, 0x2003])
     = \<lparr>success = False, refinedInstruction = None, clarification = None,
         error = Some ''Empty response''\<rparr>"
proof -
  let ?t1 = "utf16 ''Sure. <instruction> - Be brief. </instruction> Done.''"
  let ?t2 = "utf16 ''  Which style do you mean? ''"
  let ?t3 = "utf16 ''  '' @ [0x0A, 0x2003]"
  have d: "?t1 = utf16 ''Sure. '' @ utf16 ''<instruction>'' @ utf16 '' - Be brief. ''
             @ utf16 ''</instruction>'' @ utf16 '' Done.''"
    by (simp add: utf16_def)
  have f1: "find_sub (utf16 ''<instruction>'') ?t1
      = Some (utf16 ''Sure. '', utf16 '' - Be brief. '' @ utf16 ''</instruction>'' @ utf16 '' Done.'')"
    by (simp add: utf16_def)
  have f2: "find_sub (utf16 ''</instruction>'')
        (utf16 '' - Be brief. '' @ utf16 ''</instruction>'' @ utf16 '' Done.'')
      = Some (utf16 '' - Be brief. '', utf16 '' Done.'')"
    by (simp add: utf16_def)
  have o: "\<forall>x y. ?t1 = x @ utf16 ''<instruction>'' @ y \<longrightarrow> length (utf16 ''Sure. '') \<le> length x"
    using find_sub_first[OF f1] by blast
  have c: "\<forall>x y. utf16 '' - Be brief. '' @ utf16 ''</instruction>'' @ utf16 '' Done.''
               = x @ utf16 ''</instruction>'' @ y
             \<longrightarrow> length (utf16 '' - Be brief. '') \<le> length x"
    using find_sub_first[OF f2] by blast
  have r1: "parseResponse ?t1 =
      \<lparr>success = True, refinedInstruction = Some (trim (utf16 '' - Be brief. '')),
       clarification = None, error = None\<rparr>"
    using parseResponse_three_way
      [where t = ?t1 and pre = "utf16 ''Sure. ''" and body = "utf16 '' - Be brief. ''"
         and post = "utf16 '' Done.''", THEN conjunct2, THEN conjunct1] d o c
    by blast
  have t1: "trim (utf16 '' - Be brief. '') = utf16 ''- Be brief.''"
    by (simp add: utf16_def trim_def isWhiteSpace_def)
  have n: "find_sub (utf16 ''<instruction>'') ?t2 = None"
    by (simp add: utf16_def)
  have nd: "\<not> (\<exists>pre body post.
      ?t2 = pre @ utf16 ''<instruction>'' @ body @ utf16 ''</instruction>'' @ post)"
    using find_sub_None[OF n] by blast
  have nw: "\<not> (\<forall>c \<in> set ?t2. isWhiteSpace c)"
    by (simp add: utf16_def isWhiteSpace_def)
  have r2: "parseResponse ?t2 =
      \<lparr>success = True, refinedInstruction = None, clarification = Some (trim ?t2),
       error = None\<rparr>"
    using parseResponse_three_way
      [where t = ?t2, THEN conjunct2, THEN conjunct2, THEN conjunct1] nd nw
    by blast
  have t2: "trim ?t2 = utf16 ''Which style do you mean?''"
    by (simp add: utf16_def trim_def isWhiteSpace_def)
  have w: "\<forall>c \<in> set ?t3. isWhiteSpace c"
    by (simp add: utf16_def isWhiteSpace_def)
  have r3: "parseResponse ?t3 =
      \<lparr>success = False, refinedInstruction = None, clarification = None,
       error = Some ''Empty response''\<rparr>"
    using parseResponse_three_way
      [where t = ?t3, THEN conjunct2, THEN conjunct2, THEN conjunct2] w
    by blast
  show ?thesis using r1 r2 r3 by (simp only: t1 t2 simp_thms)
qed

section \<open>Properties of the service\<close>

text \<open>
  C8. \<open>cancel\<close> is idempotent and safe without a turn in flight: a second call
  changes nothing, and a call when the abort controller is \<open>null\<close> changes nothing.
  The model of \<open>cancel\<close> has no failing branch, as the source has none: it is a total
  function of the service. After it the service holds no controller, the loop's
  cancellation test is false, and the session id is the one before. Every turn that
  reached the runtime leaves the service without a controller, so a call after it is
  without effect; and two calls arriving in a row while a stream is consumed are as
  one.
\<close>

theorem cancel_idempotent:
  "cancel (cancel s) = cancel s
   \<and> cancel (s\<lparr>abortController := None\<rparr>) = s\<lparr>abortController := None\<rparr>
   \<and> abortController (cancel s) = None
   \<and> sessionId (cancel s) = sessionId s
   \<and> \<not> signal_aborted (cancel s)
   \<and> cancel (turn_service (tryQuery q prompt options onProgress s))
       = turn_service (tryQuery q prompt options onProgress s)
   \<and> forAwait onProgress (CancelCalled # CancelCalled # rest) s responseText progress
       = forAwait onProgress (CancelCalled # rest) s responseText progress"
proof -
  have i: "cancel (cancel s) = cancel s"
    by (simp add: cancel_def split: option.splits)
  have t: "abortController (turn_service (tryQuery q prompt options onProgress s)) = None"
    by (simp add: tryQuery_def split: sum.splits prod.splits)
  have n: "abortController x = None \<Longrightarrow> cancel x = x" for x
    by (simp add: cancel_def)
  show ?thesis
    using i n[OF t]
    by (simp add: cancel_def signal_aborted_def split: option.splits)
qed

lemma tryQuery_queries: "turn_queries (tryQuery q prompt opts op s) = [(prompt, opts)]"
  by (simp add: tryQuery_def split: sum.splits prod.splits)

lemma turnOptions_resume:
  "opt_resume (turnOptions pl vp cp c s) = (if falsy (sessionId s) then None else sessionId s)"
  by (simp add: turnOptions_def)

lemma sendMessage_queries:
  "turn_queries (sendMessage h pl q prompt op s) = []
   \<or> (\<exists>opts. turn_queries (sendMessage h pl q prompt op s) = [(prompt, opts)]
         \<and> opt_resume opts = (if falsy (sessionId s) then None else sessionId s))"
  by (simp add: sendMessage_def Let_def noTurn_def tryQuery_queries turnOptions_resume
      split: option.splits)

lemma sendMessage_opens_query:
  assumes "\<not> falsy (getVaultPath pl)"
    and "\<not> falsy (if falsy (resolvedClaudePath s) then findClaudeCLIPath h else resolvedClaudePath s)"
  shows "turn_queries (sendMessage h pl q prompt op s) \<noteq> []"
  using assms
  by (auto simp add: sendMessage_def Let_def falsy_def tryQuery_queries split: option.splits)

text \<open>
  C7. \<open>continueConversation\<close> without a session id (\<open>null\<close>, or the empty string)
  returns the failure \<open>No active conversation to continue\<close>, opens no query on the
  runtime and leaves the service as it was. With a session id, every query the call
  opens carries the message and \<open>resume\<close> equal to that id; and it opens exactly one
  when the vault path and the Claude executable are found.
\<close>

theorem continueConversation_session:
  "(falsy (sessionId s) \<longrightarrow>
      continueConversation h pl q message op s =
        \<lparr>turn_result =
           \<lparr>success = False, refinedInstruction = None, clarification = None,
            error = Some ''No active conversation to continue''\<rparr>,
         turn_service = s, turn_queries = [], turn_interrupts = 0, turn_progress = []\<rparr>)
   \<and> (sessionId s = Some sid \<and> sid \<noteq> [] \<longrightarrow>
        (\<forall>query \<in> set (turn_queries (continueConversation h pl q message op s)).
           fst query = message \<and> opt_resume (snd query) = Some sid))
   \<and> (sessionId s = Some sid \<and> sid \<noteq> [] \<and> \<not> falsy (getVaultPath pl)
        \<and> \<not> falsy (if falsy (resolvedClaudePath s) then findClaudeCLIPath h
                     else resolvedClaudePath s) \<longrightarrow>
        (\<exists>opts. turn_queries (continueConversation h pl q message op s) = [(message, opts)]
           \<and> opt_resume opts = Some sid))"
proof (intro conjI impI)
  assume "falsy (sessionId s)"
  then show "continueConversation h pl q message op s =
        \<lparr>turn_result =
           \<lparr>success = False, refinedInstruction = None, clarification = None,
            error = Some ''No active conversation to continue''\<rparr>,
         turn_service = s, turn_queries = [], turn_interrupts = 0, turn_progress = []\<rparr>"
    by (simp add: continueConversation_def noTurn_def failure_def)
next
  assume a: "sessionId s = Some sid \<and> sid \<noteq> []"
  then have c: "continueConversation h pl q message op s = sendMessage h pl q message op s"
    by (simp add: continueConversation_def falsy_def)
  show "\<forall>query \<in> set (turn_queries (continueConversation h pl q message op s)).
           fst query = message \<and> opt_resume (snd query) = Some sid"
    using sendMessage_queries[of h pl q message op s] a unfolding c
    by (auto simp add: falsy_def)
next
  assume a: "sessionId s = Some sid \<and> sid \<noteq> [] \<and> \<not> falsy (getVaultPath pl)
        \<and> \<not> falsy (if falsy (resolvedClaudePath s) then findClaudeCLIPath h
                     else resolvedClaudePath s)"
  then have c: "continueConversation h pl q message op s = sendMessage h pl q message op s"
    by (simp add: continueConversation_def falsy_def)
  have "turn_queries (sendMessage h pl q message op s) \<noteq> []"
    using a sendMessage_opens_query[of pl s h q message op] by blast
  then show "\<exists>opts. turn_queries (continueConversation h pl q message op s) = [(message, opts)]
           \<and> opt_resume opts = Some sid"
    using sendMessage_queries[of h pl q message op s] a unfolding c
    by (auto simp add: falsy_def)
qed

text \<open>The theorem on two turns: a service without a session refuses to continue;
  a first turn whose stream starts with the system-init message of session \<open>s1\<close>
  leaves that id in the service; the turn continued from there resumes \<open>s1\<close>.\<close>

theorem continueConversation_session_witness:
  "turn_queries
       (continueConversation installed_host example_plugin example_runtime ''the first'' False
          fresh_service) = []
   \<and> error (turn_result
       (continueConversation installed_host example_plugin example_runtime ''the first'' False
          fresh_service)) = Some ''No active conversation to continue''
   \<and> turn_service
       (refineInstruction installed_host example_plugin example_runtime ''be brief'' [] False
          fresh_service)
     = \<lparr>abortController = None, resolvedClaudePath = Some ''/usr/local/bin/claude'',
        sessionId = Some ''s1'', existingInstructions = [], controllers = [False]\<rparr>
   \<and> map (\<lambda>query. (fst query, opt_resume (snd query)))
       (turn_queries
          (continueConversation installed_host example_plugin example_runtime ''the first'' False
             (turn_service
                (refineInstruction installed_host example_plugin example_runtime ''be brief'' []
                   False fresh_service))))
     = [(''the first'', Some ''s1'')]"
proof -
  let ?s1 = "\<lparr>abortController = None, resolvedClaudePath = Some ''/usr/local/bin/claude'',
        sessionId = Some ''s1'', existingInstructions = [], controllers = [False]\<rparr>"
  have f: "findClaudeCLIPath installed_host = Some ''/usr/local/bin/claude''"
    by (simp add: installed_host_def findClaudeCLIPath_def path_join_def path_normalize_def
        isAbsolute_def normalizeString_def normalize_segments_def normalize_step_def)
  have e: "extractTextFromMessage \<lparr>msg_type = ''assistant'', msg_subtype = None,
                            msg_session_id = None,
                            msg_content = Some [\<lparr>block_type = ''text'',
                                                 block_text = Some (utf16 ''Which one?'')\<rparr>]\<rparr>
      = utf16 ''Which one?''"
    by (simp add: extractTextFromMessage_def utf16_def)
  have t1: "turn_service
       (refineInstruction installed_host example_plugin example_runtime ''be brief'' [] False
          fresh_service) = ?s1"
    by (simp add: refineInstruction_def sendMessage_def getVaultPath_def falsy_def f tryQuery_def
        signal_aborted_def e extractTextFromMessage_def utf16_def example_plugin_def
        example_runtime_def fresh_service_def)
  have n: "continueConversation installed_host example_plugin example_runtime ''the first'' False
        fresh_service =
        \<lparr>turn_result =
           \<lparr>success = False, refinedInstruction = None, clarification = None,
            error = Some ''No active conversation to continue''\<rparr>,
         turn_service = fresh_service, turn_queries = [], turn_interrupts = 0,
         turn_progress = []\<rparr>"
    using continueConversation_session
      [where s = fresh_service and h = installed_host and pl = example_plugin
         and q = example_runtime and message = "''the first''" and op = False,
       THEN conjunct1]
    by (simp add: falsy_def fresh_service_def)
  have "\<exists>opts. turn_queries
          (continueConversation installed_host example_plugin example_runtime ''the first''
             False ?s1)
            = [(''the first'', opts)] \<and> opt_resume opts = Some ''s1''"
    using continueConversation_session
      [where s = ?s1 and sid = "''s1''" and h = installed_host and pl = example_plugin
         and q = example_runtime and message = "''the first''" and op = False,
       THEN conjunct2, THEN conjunct2]
    by (simp add: falsy_def getVaultPath_def example_plugin_def)
  then have c: "map (\<lambda>query. (fst query, opt_resume (snd query)))
       (turn_queries
          (continueConversation installed_host example_plugin example_runtime ''the first''
             False ?s1))
     = [(''the first'', Some ''s1'')]"
    by auto
  show ?thesis unfolding t1 using c by (simp add: n)
qed

section \<open>Properties of the hooks\<close>

lemma scanCandidates_all_pass:
  "\<forall>c \<in> set cands. checkCandidate ctx c = None \<Longrightarrow> scanCandidates ctx cands = None"
  by (induction cands) simp_all

lemma scanCandidates_first:
  "\<forall>c \<in> set pre. checkCandidate ctx c = None \<Longrightarrow> checkCandidate ctx c' = Some v \<Longrightarrow>
   scanCandidates ctx (pre @ c' # post) = Some v"
  by (induction pre) simp_all

lemma scanCandidates_None_iff:
  "scanCandidates ctx cands = None \<longleftrightarrow> (\<forall>c \<in> set cands. checkCandidate ctx c = None)"
  by (induction cands) (simp_all split: option.splits)

lemma checkCandidate_cases:
  "checkCandidate ctx (p, intent) =
     (if ctx_isAllowedExportPath ctx p then
        (if intent = WriteAccess then None
         else Some \<lparr>violation_type = ExportPathReadAttempt, violation_path = p\<rparr>)
      else if ctx_isPathWithinVault ctx p then None
      else Some \<lparr>violation_type = OutsideRoot, violation_path = p\<rparr>)"
  by (cases intent) (simp_all add: checkCandidate_def)

lemma checkCandidate_None_iff:
  "checkCandidate ctx c = None \<longleftrightarrow>
     (if ctx_isAllowedExportPath ctx (fst c) then snd c = WriteAccess
      else ctx_isPathWithinVault ctx (fst c))"
  using checkCandidate_cases[of ctx "fst c" "snd c"] by simp

lemma scan_export_read:
  assumes "tokenize command = pre @ (p, ReadAccess) # post"
    and "\<forall>c \<in> set pre. checkCandidate ctx c = None"
    and "ctx_isAllowedExportPath ctx p"
  shows "CommandPathScanner_scan tokenize command ctx
            = Some \<lparr>violation_type = ExportPathReadAttempt, violation_path = p\<rparr>"
proof -
  have "checkCandidate ctx (p, ReadAccess)
      = Some \<lparr>violation_type = ExportPathReadAttempt, violation_path = p\<rparr>"
    using assms(3) by (simp add: checkCandidate_def)
  then show ?thesis
    using assms(1,2) scanCandidates_first[of pre ctx "(p, ReadAccess)" _ post]
    by (simp add: CommandPathScanner_scan_def)
qed

lemma hook_bash_continue:
  "continue (fst (createVaultRestrictionHook T ctx (TOOL_BASH T) tool_input)) \<longleftrightarrow>
     findBashCommandPathViolation T (js_or (get tool_input ''command'') (JStr [])) ctx = None"
  by (simp add: createVaultRestrictionHook_def allow_def deny_def Let_def split: option.splits)

lemma hook_bash_allow_iff:
  "createVaultRestrictionHook T ctx (TOOL_BASH T) tool_input
       = (\<lparr>continue = True, hookSpecificOutput = None\<rparr>, []) \<longleftrightarrow>
     findBashCommandPathViolation T (js_or (get tool_input ''command'') (JStr [])) ctx = None"
  by (simp add: createVaultRestrictionHook_def allow_def deny_def Let_def split: option.splits)

text \<open>
  C2. For a file tool with a path outside the root the hook has one way through: the
  tool is an edit tool and the path satisfies the export-path predicate; then
  \<open>continue\<close> is true and \<open>onEditBlocked\<close> is not called. Every other path
  outside the root is denied, with the reason that it is outside the vault, and an edit
  tool so denied is reported to \<open>onEditBlocked\<close>. For the shell tool the hook turns
  the scanner's answer into its own: an \<open>ExportPathReadAttempt\<close> violation is denied
  with the reason that export paths are write-only, an \<open>OutsideRoot\<close> violation with
  the reason that the path is outside the vault, and the command passes exactly when
  the scanner finds no violation. With the scanner of the spec, a candidate under an
  export path passes when its intent is write and is an \<open>ExportPathReadAttempt\<close>
  when its intent is read; any other candidate passes when it is within the root and is
  \<open>OutsideRoot\<close> otherwise; the first candidate that does not pass decides; and the
  command passes exactly when every candidate does.
\<close>

theorem createVaultRestrictionHook_export_paths:
  "(toolName \<noteq> TOOL_BASH T \<and> isEditTool T toolName
      \<and> getPathFromToolInput T toolName tool_input = Some p
      \<and> \<not> ctx_isPathWithinVault ctx p \<and> ctx_isAllowedExportPath ctx p
      \<longrightarrow> createVaultRestrictionHook T ctx toolName tool_input
            = (\<lparr>continue = True, hookSpecificOutput = None\<rparr>, []))
   \<and> (toolName \<noteq> TOOL_BASH T \<and> isFileTool T toolName
        \<and> getPathFromToolInput T toolName tool_input = Some p \<and> p \<noteq> []
        \<and> \<not> ctx_isPathWithinVault ctx p
        \<and> \<not> (isEditTool T toolName \<and> ctx_isAllowedExportPath ctx p)
      \<longrightarrow> createVaultRestrictionHook T ctx toolName tool_input
            = (\<lparr>continue = False,
                hookSpecificOutput =
                  Some \<lparr>hookEventName = ''PreToolUse'', permissionDecision = ''deny'',
                        permissionDecisionReason =
                          ''Access denied: Path '' @ [CHR 0x22] @ p @ [CHR 0x22]
                            @ '' is outside the vault. Agent is restricted to vault directory only.''\<rparr>\<rparr>,
               if isEditTool T toolName \<and> ctx_onEditBlocked ctx
               then [(toolName, tool_input)] else []))
   \<and> (toolName \<noteq> TOOL_BASH T \<and> isFileTool T toolName
        \<and> getPathFromToolInput T toolName tool_input = Some p \<and> p \<noteq> []
        \<and> \<not> ctx_isPathWithinVault ctx p
      \<longrightarrow> (continue (fst (createVaultRestrictionHook T ctx toolName tool_input))
            \<longleftrightarrow> isEditTool T toolName \<and> ctx_isAllowedExportPath ctx p))
   \<and> (findBashCommandPathViolation T (js_or (get tool_input ''command'') (JStr [])) ctx
          = Some \<lparr>violation_type = ExportPathReadAttempt, violation_path = p\<rparr>
      \<longrightarrow> createVaultRestrictionHook T ctx (TOOL_BASH T) tool_input
            = (\<lparr>continue = False,
                hookSpecificOutput =
                  Some \<lparr>hookEventName = ''PreToolUse'', permissionDecision = ''deny'',
                        permissionDecisionReason =
                          ''Access denied: Command path '' @ [CHR 0x22] @ p @ [CHR 0x22]
                            @ '' is in an allowed export directory, but export paths are write-only.''\<rparr>\<rparr>,
               []))
   \<and> (findBashCommandPathViolation T (js_or (get tool_input ''command'') (JStr [])) ctx
          = Some \<lparr>violation_type = OutsideRoot, violation_path = p\<rparr>
      \<longrightarrow> createVaultRestrictionHook T ctx (TOOL_BASH T) tool_input
            = (\<lparr>continue = False,
                hookSpecificOutput =
                  Some \<lparr>hookEventName = ''PreToolUse'', permissionDecision = ''deny'',
                        permissionDecisionReason =
                          ''Access denied: Command path '' @ [CHR 0x22] @ p @ [CHR 0x22]
                            @ '' is outside the vault. Agent is restricted to vault directory only.''\<rparr>\<rparr>,
               []))
   \<and> (findBashCommandPathViolation T (js_or (get tool_input ''command'') (JStr [])) ctx = None
      \<longrightarrow> createVaultRestrictionHook T ctx (TOOL_BASH T) tool_input
            = (\<lparr>continue = True, hookSpecificOutput = None\<rparr>, []))
   \<and> (continue (fst (createVaultRestrictionHook T ctx (TOOL_BASH T) tool_input))
        \<longleftrightarrow> findBashCommandPathViolation T (js_or (get tool_input ''command'') (JStr [])) ctx
              = None)
   \<and> checkCandidate ctx (p, intent) =
       (if ctx_isAllowedExportPath ctx p then
          (if intent = WriteAccess then None
           else Some \<lparr>violation_type = ExportPathReadAttempt, violation_path = p\<rparr>)
        else if ctx_isPathWithinVault ctx p then None
        else Some \<lparr>violation_type = OutsideRoot, violation_path = p\<rparr>)
   \<and> (tokenize (js_or (get tool_input ''command'') (JStr [])) = pre @ (p, ReadAccess) # post
        \<and> (\<forall>c \<in> set pre. checkCandidate ctx c = None)
        \<and> \<not> ctx_isPathWithinVault ctx p \<and> ctx_isAllowedExportPath ctx p
      \<longrightarrow> CommandPathScanner_scan tokenize (js_or (get tool_input ''command'') (JStr [])) ctx
            = Some \<lparr>violation_type = ExportPathReadAttempt, violation_path = p\<rparr>
          \<and> createVaultRestrictionHook
              (T\<lparr>findBashCommandPathViolation := CommandPathScanner_scan tokenize\<rparr>)
              ctx (TOOL_BASH T) tool_input
            = (\<lparr>continue = False,
                hookSpecificOutput =
                  Some \<lparr>hookEventName = ''PreToolUse'', permissionDecision = ''deny'',
                        permissionDecisionReason =
                          ''Access denied: Command path '' @ [CHR 0x22] @ p @ [CHR 0x22]
                            @ '' is in an allowed export directory, but export paths are write-only.''\<rparr>\<rparr>,
               []))
   \<and> (tokenize (js_or (get tool_input ''command'') (JStr [])) = pre @ candidate # post
        \<and> (\<forall>c \<in> set pre. checkCandidate ctx c = None)
        \<and> checkCandidate ctx candidate = Some violation
      \<longrightarrow> CommandPathScanner_scan tokenize (js_or (get tool_input ''command'') (JStr [])) ctx
            = Some violation
          \<and> \<not> continue (fst (createVaultRestrictionHook
                (T\<lparr>findBashCommandPathViolation := CommandPathScanner_scan tokenize\<rparr>)
                ctx (TOOL_BASH T) tool_input)))
   \<and> (createVaultRestrictionHook
          (T\<lparr>findBashCommandPathViolation := CommandPathScanner_scan tokenize\<rparr>)
          ctx (TOOL_BASH T) tool_input
        = (\<lparr>continue = True, hookSpecificOutput = None\<rparr>, [])
      \<longleftrightarrow> (\<forall>c \<in> set (tokenize (js_or (get tool_input ''command'') (JStr []))).
             if ctx_isAllowedExportPath ctx (fst c) then snd c = WriteAccess
             else ctx_isPathWithinVault ctx (fst c)))"
proof -
  have edit_export: "(toolName \<noteq> TOOL_BASH T \<and> isEditTool T toolName
        \<and> getPathFromToolInput T toolName tool_input = Some p
        \<and> \<not> ctx_isPathWithinVault ctx p \<and> ctx_isAllowedExportPath ctx p
        \<longrightarrow> createVaultRestrictionHook T ctx toolName tool_input
              = (\<lparr>continue = True, hookSpecificOutput = None\<rparr>, []))"
    by (simp add: createVaultRestrictionHook_def allow_def)
  have file_deny: "(toolName \<noteq> TOOL_BASH T \<and> isFileTool T toolName
          \<and> getPathFromToolInput T toolName tool_input = Some p \<and> p \<noteq> []
          \<and> \<not> ctx_isPathWithinVault ctx p
          \<and> \<not> (isEditTool T toolName \<and> ctx_isAllowedExportPath ctx p)
        \<longrightarrow> createVaultRestrictionHook T ctx toolName tool_input
              = (\<lparr>continue = False,
                  hookSpecificOutput =
                    Some \<lparr>hookEventName = ''PreToolUse'', permissionDecision = ''deny'',
                          permissionDecisionReason =
                            ''Access denied: Path '' @ [CHR 0x22] @ p @ [CHR 0x22]
                              @ '' is outside the vault. Agent is restricted to vault directory only.''\<rparr>\<rparr>,
                 if isEditTool T toolName \<and> ctx_onEditBlocked ctx
                 then [(toolName, tool_input)] else []))"
    by (simp add: createVaultRestrictionHook_def deny_def)
  have file_iff: "(toolName \<noteq> TOOL_BASH T \<and> isFileTool T toolName
          \<and> getPathFromToolInput T toolName tool_input = Some p \<and> p \<noteq> []
          \<and> \<not> ctx_isPathWithinVault ctx p
        \<longrightarrow> (continue (fst (createVaultRestrictionHook T ctx toolName tool_input))
              \<longleftrightarrow> isEditTool T toolName \<and> ctx_isAllowedExportPath ctx p))"
    by (simp add: createVaultRestrictionHook_def allow_def deny_def)
  have bash_export_read: "(findBashCommandPathViolation T (js_or (get tool_input ''command'') (JStr [])) ctx
            = Some \<lparr>violation_type = ExportPathReadAttempt, violation_path = p\<rparr>
        \<longrightarrow> createVaultRestrictionHook T ctx (TOOL_BASH T) tool_input
              = (\<lparr>continue = False,
                  hookSpecificOutput =
                    Some \<lparr>hookEventName = ''PreToolUse'', permissionDecision = ''deny'',
                          permissionDecisionReason =
                            ''Access denied: Command path '' @ [CHR 0x22] @ p @ [CHR 0x22]
                              @ '' is in an allowed export directory, but export paths are write-only.''\<rparr>\<rparr>,
                 []))"
    by (simp add: createVaultRestrictionHook_def deny_def)
  have bash_outside: "(findBashCommandPathViolation T (js_or (get tool_input ''command'') (JStr [])) ctx
            = Some \<lparr>violation_type = OutsideRoot, violation_path = p\<rparr>
        \<longrightarrow> createVaultRestrictionHook T ctx (TOOL_BASH T) tool_input
              = (\<lparr>continue = False,
                  hookSpecificOutput =
                    Some \<lparr>hookEventName = ''PreToolUse'', permissionDecision = ''deny'',
                          permissionDecisionReason =
                            ''Access denied: Command path '' @ [CHR 0x22] @ p @ [CHR 0x22]
                              @ '' is outside the vault. Agent is restricted to vault directory only.''\<rparr>\<rparr>,
                 []))"
    by (simp add: createVaultRestrictionHook_def deny_def)
  have bash_none: "(findBashCommandPathViolation T (js_or (get tool_input ''command'') (JStr [])) ctx = None
        \<longrightarrow> createVaultRestrictionHook T ctx (TOOL_BASH T) tool_input
              = (\<lparr>continue = True, hookSpecificOutput = None\<rparr>, []))"
    by (simp add: createVaultRestrictionHook_def allow_def)
  have bash_iff: "(continue (fst (createVaultRestrictionHook T ctx (TOOL_BASH T) tool_input))
          \<longleftrightarrow> findBashCommandPathViolation T (js_or (get tool_input ''command'') (JStr [])) ctx
                = None)"
    by (rule hook_bash_continue)
  have candidate: "checkCandidate ctx (p, intent) =
         (if ctx_isAllowedExportPath ctx p then
            (if intent = WriteAccess then None
             else Some \<lparr>violation_type = ExportPathReadAttempt, violation_path = p\<rparr>)
          else if ctx_isPathWithinVault ctx p then None
          else Some \<lparr>violation_type = OutsideRoot, violation_path = p\<rparr>)"
    by (rule checkCandidate_cases)
  have scan_read: "(tokenize (js_or (get tool_input ''command'') (JStr [])) = pre @ (p, ReadAccess) # post
          \<and> (\<forall>c \<in> set pre. checkCandidate ctx c = None)
          \<and> \<not> ctx_isPathWithinVault ctx p \<and> ctx_isAllowedExportPath ctx p
        \<longrightarrow> CommandPathScanner_scan tokenize (js_or (get tool_input ''command'') (JStr [])) ctx
              = Some \<lparr>violation_type = ExportPathReadAttempt, violation_path = p\<rparr>
            \<and> createVaultRestrictionHook
                (T\<lparr>findBashCommandPathViolation := CommandPathScanner_scan tokenize\<rparr>)
                ctx (TOOL_BASH T) tool_input
              = (\<lparr>continue = False,
                  hookSpecificOutput =
                    Some \<lparr>hookEventName = ''PreToolUse'', permissionDecision = ''deny'',
                          permissionDecisionReason =
                            ''Access denied: Command path '' @ [CHR 0x22] @ p @ [CHR 0x22]
                              @ '' is in an allowed export directory, but export paths are write-only.''\<rparr>\<rparr>,
                 []))"
    using scan_export_read[of tokenize "js_or (get tool_input ''command'') (JStr [])" pre p post ctx]
    by (simp add: createVaultRestrictionHook_def deny_def)
  have scan_first: "(tokenize (js_or (get tool_input ''command'') (JStr [])) = pre @ candidate # post
          \<and> (\<forall>c \<in> set pre. checkCandidate ctx c = None)
          \<and> checkCandidate ctx candidate = Some violation
        \<longrightarrow> CommandPathScanner_scan tokenize (js_or (get tool_input ''command'') (JStr [])) ctx
              = Some violation
            \<and> \<not> continue (fst (createVaultRestrictionHook
                  (T\<lparr>findBashCommandPathViolation := CommandPathScanner_scan tokenize\<rparr>)
                  ctx (TOOL_BASH T) tool_input)))"
    using scanCandidates_first[of pre ctx candidate violation post]
      hook_bash_continue[of "T\<lparr>findBashCommandPathViolation := CommandPathScanner_scan tokenize\<rparr>"
        ctx tool_input]
    by (simp add: CommandPathScanner_scan_def)
  have scan_iff: "(createVaultRestrictionHook
            (T\<lparr>findBashCommandPathViolation := CommandPathScanner_scan tokenize\<rparr>)
            ctx (TOOL_BASH T) tool_input
          = (\<lparr>continue = True, hookSpecificOutput = None\<rparr>, [])
        \<longleftrightarrow> (\<forall>c \<in> set (tokenize (js_or (get tool_input ''command'') (JStr []))).
               if ctx_isAllowedExportPath ctx (fst c) then snd c = WriteAccess
               else ctx_isPathWithinVault ctx (fst c)))"
    using hook_bash_allow_iff[of "T\<lparr>findBashCommandPathViolation := CommandPathScanner_scan tokenize\<rparr>"
        ctx tool_input]
    by (simp add: CommandPathScanner_scan_def scanCandidates_None_iff checkCandidate_None_iff)
  show ?thesis
    by (rule conjI[OF edit_export conjI[OF file_deny conjI[OF file_iff conjI[OF
         bash_export_read conjI[OF bash_outside conjI[OF bash_none conjI[OF bash_iff conjI[OF
         candidate conjI[OF scan_read conjI[OF scan_first scan_iff]]]]]]]]]])
qed

text \<open>The theorem with a vault \<open>/vault/\<close> and an export directory \<open>/export/\<close>: a
  \<open>Write\<close> into the export directory, a \<open>Read\<close> and a \<open>Write\<close> of a file outside
  both, a command that reads from the export directory, a command that reads a file
  outside both after one of the vault, and a command that redirects into the export
  directory.\<close>

theorem createVaultRestrictionHook_export_paths_witness:
  "createVaultRestrictionHook example_tools example_context ''Write''
       (JObj [(''file_path'', JStr ''/export/a.txt''), (''content'', JStr ''x'')])
     = (\<lparr>continue = True, hookSpecificOutput = None\<rparr>, [])
   \<and> createVaultRestrictionHook example_tools example_context ''Read''
       (JObj [(''file_path'', JStr ''/etc/passwd'')])
     = (\<lparr>continue = False,
         hookSpecificOutput =
           Some \<lparr>hookEventName = ''PreToolUse'', permissionDecision = ''deny'',
                 permissionDecisionReason =
                   ''Access denied: Path '' @ [CHR 0x22] @ ''/etc/passwd'' @ [CHR 0x22]
                     @ '' is outside the vault. Agent is restricted to vault directory only.''\<rparr>\<rparr>,
        [])
   \<and> createVaultRestrictionHook example_tools example_context ''Write''
       (JObj [(''file_path'', JStr ''/etc/passwd''), (''content'', JStr ''x'')])
     = (\<lparr>continue = False,
         hookSpecificOutput =
           Some \<lparr>hookEventName = ''PreToolUse'', permissionDecision = ''deny'',
                 permissionDecisionReason =
                   ''Access denied: Path '' @ [CHR 0x22] @ ''/etc/passwd'' @ [CHR 0x22]
                     @ '' is outside the vault. Agent is restricted to vault directory only.''\<rparr>\<rparr>,
        [(''Write'', JObj [(''file_path'', JStr ''/etc/passwd''), (''content'', JStr ''x'')])])
   \<and> createVaultRestrictionHook example_tools example_context ''Bash''
       (JObj [(''command'', JStr ''cat /export/a.txt'')])
     = (\<lparr>continue = False,
         hookSpecificOutput =
           Some \<lparr>hookEventName = ''PreToolUse'', permissionDecision = ''deny'',
                 permissionDecisionReason =
                   ''Access denied: Command path '' @ [CHR 0x22] @ ''/export/a.txt'' @ [CHR 0x22]
                     @ '' is in an allowed export directory, but export paths are write-only.''\<rparr>\<rparr>,
        [])
   \<and> createVaultRestrictionHook example_tools example_context ''Bash''
       (JObj [(''command'', JStr ''cat /vault/a.md /etc/passwd'')])
     = (\<lparr>continue = False,
         hookSpecificOutput =
           Some \<lparr>hookEventName = ''PreToolUse'', permissionDecision = ''deny'',
                 permissionDecisionReason =
                   ''Access denied: Command path '' @ [CHR 0x22] @ ''/etc/passwd'' @ [CHR 0x22]
                     @ '' is outside the vault. Agent is restricted to vault directory only.''\<rparr>\<rparr>,
        [])
   \<and> createVaultRestrictionHook example_tools example_context ''Bash''
       (JObj [(''command'', JStr ''echo hi > /export/a.txt'')])
     = (\<lparr>continue = True, hookSpecificOutput = None\<rparr>, [])"
proof -
  have u: "example_tools\<lparr>findBashCommandPathViolation := CommandPathScanner_scan example_tokenize\<rparr>
      = example_tools"
    by (simp add: example_tools_def)
  have w: "createVaultRestrictionHook example_tools example_context ''Write''
         (JObj [(''file_path'', JStr ''/export/a.txt''), (''content'', JStr ''x'')])
       = (\<lparr>continue = True, hookSpecificOutput = None\<rparr>, [])"
    using createVaultRestrictionHook_export_paths
      [where T = example_tools and ctx = example_context and toolName = "''Write''"
         and p = "''/export/a.txt''"
         and tool_input = "JObj [(''file_path'', JStr ''/export/a.txt''), (''content'', JStr ''x'')]",
       THEN conjunct1]
    by (simp add: example_tools_def example_context_def)
  have d: "createVaultRestrictionHook example_tools example_context ''Read''
         (JObj [(''file_path'', JStr ''/etc/passwd'')])
       = (\<lparr>continue = False,
           hookSpecificOutput =
             Some \<lparr>hookEventName = ''PreToolUse'', permissionDecision = ''deny'',
                   permissionDecisionReason =
                     ''Access denied: Path '' @ [CHR 0x22] @ ''/etc/passwd'' @ [CHR 0x22]
                       @ '' is outside the vault. Agent is restricted to vault directory only.''\<rparr>\<rparr>,
          [])"
    using createVaultRestrictionHook_export_paths
      [where T = example_tools and ctx = example_context and toolName = "''Read''"
         and p = "''/etc/passwd''"
         and tool_input = "JObj [(''file_path'', JStr ''/etc/passwd'')]",
       THEN conjunct2, THEN conjunct1]
    by (simp add: example_tools_def example_context_def)
  have b: "createVaultRestrictionHook example_tools example_context ''Write''
         (JObj [(''file_path'', JStr ''/etc/passwd''), (''content'', JStr ''x'')])
       = (\<lparr>continue = False,
           hookSpecificOutput =
             Some \<lparr>hookEventName = ''PreToolUse'', permissionDecision = ''deny'',
                   permissionDecisionReason =
                     ''Access denied: Path '' @ [CHR 0x22] @ ''/etc/passwd'' @ [CHR 0x22]
                       @ '' is outside the vault. Agent is restricted to vault directory only.''\<rparr>\<rparr>,
          [(''Write'', JObj [(''file_path'', JStr ''/etc/passwd''), (''content'', JStr ''x'')])])"
    using createVaultRestrictionHook_export_paths
      [where T = example_tools and ctx = example_context and toolName = "''Write''"
         and p = "''/etc/passwd''"
         and tool_input = "JObj [(''file_path'', JStr ''/etc/passwd''), (''content'', JStr ''x'')]",
       THEN conjunct2, THEN conjunct1]
    by (simp add: example_tools_def example_context_def)
  have r: "createVaultRestrictionHook example_tools example_context ''Bash''
         (JObj [(''command'', JStr ''cat /export/a.txt'')])
       = (\<lparr>continue = False,
           hookSpecificOutput =
             Some \<lparr>hookEventName = ''PreToolUse'', permissionDecision = ''deny'',
                   permissionDecisionReason =
                     ''Access denied: Command path '' @ [CHR 0x22] @ ''/export/a.txt'' @ [CHR 0x22]
                       @ '' is in an allowed export directory, but export paths are write-only.''\<rparr>\<rparr>,
          [])"
    using createVaultRestrictionHook_export_paths
      [where T = example_tools and ctx = example_context and p = "''/export/a.txt''"
         and tokenize = example_tokenize and pre = "[]" and post = "[]"
         and tool_input = "JObj [(''command'', JStr ''cat /export/a.txt'')]",
       THEN conjunct2, THEN conjunct2, THEN conjunct2, THEN conjunct2, THEN conjunct2, THEN conjunct2, THEN conjunct2, THEN conjunct2, THEN conjunct1]
    unfolding u
    by (simp add: js_or_def example_tokenize_def example_context_def)
       (simp add: example_tools_def)
  have o: "createVaultRestrictionHook example_tools example_context ''Bash''
         (JObj [(''command'', JStr ''cat /vault/a.md /etc/passwd'')])
       = (\<lparr>continue = False,
           hookSpecificOutput =
             Some \<lparr>hookEventName = ''PreToolUse'', permissionDecision = ''deny'',
                   permissionDecisionReason =
                     ''Access denied: Command path '' @ [CHR 0x22] @ ''/etc/passwd'' @ [CHR 0x22]
                       @ '' is outside the vault. Agent is restricted to vault directory only.''\<rparr>\<rparr>,
          [])"
    using createVaultRestrictionHook_export_paths
      [where T = example_tools and ctx = example_context and p = "''/etc/passwd''"
         and tool_input = "JObj [(''command'', JStr ''cat /vault/a.md /etc/passwd'')]",
       THEN conjunct2, THEN conjunct2, THEN conjunct2, THEN conjunct2, THEN conjunct1]
    by (simp add: js_or_def example_tools_def example_tokenize_def example_context_def
          CommandPathScanner_scan_def checkCandidate_def)
  have e: "createVaultRestrictionHook example_tools example_context ''Bash''
         (JObj [(''command'', JStr ''echo hi > /export/a.txt'')])
       = (\<lparr>continue = True, hookSpecificOutput = None\<rparr>, [])"
    using createVaultRestrictionHook_export_paths
      [where T = example_tools and ctx = example_context and tokenize = example_tokenize
         and tool_input = "JObj [(''command'', JStr ''echo hi > /export/a.txt'')]",
       THEN conjunct2, THEN conjunct2, THEN conjunct2, THEN conjunct2, THEN conjunct2, THEN conjunct2, THEN conjunct2, THEN conjunct2, THEN conjunct2, THEN conjunct2]
    unfolding u
    by (simp add: js_or_def example_tokenize_def example_context_def)
       (simp add: example_tools_def)
  show ?thesis using w d b r o e by (intro conjI)
qed

text \<open>
  C10 (as amended). A tool call with no extractable path is never denied by
  containment. In the hook of SecurityHooks, a tool other than the shell tool for which
  \<open>getPathFromToolInput\<close> returns \<open>null\<close> or the empty string passes, and
  \<open>onEditBlocked\<close> is not called; such a tool is denied exactly when it is a file
  tool whose extracted path is not empty, is outside the vault and is not an export
  path written by an edit tool. In the hook of the refine service, whose tool input is
  an object, a call whose path expression evaluates to the empty string passes; that is
  the case when the path arguments are missing or falsy. A path argument that is truthy
  is the path expression as it stands: where it is a string the call passes or is
  denied by containment, and where it is not a string the hook throws a TypeError, as
  it does on a tool input that is \<open>null\<close> or \<open>undefined\<close>. A tool that is none of
  \<open>Read\<close>, \<open>Glob\<close> and \<open>Grep\<close> passes.
\<close>

theorem hooks_allow_without_path:
  "(toolName \<noteq> TOOL_BASH T
      \<and> (getPathFromToolInput T toolName tool_input = None
          \<or> getPathFromToolInput T toolName tool_input = Some [])
      \<longrightarrow> createVaultRestrictionHook T ctx toolName tool_input
            = (\<lparr>continue = True, hookSpecificOutput = None\<rparr>, []))
   \<and> (\<not> nullish tool_input \<and> refine_filePath toolName tool_input = JStr []
      \<longrightarrow> refine_createVaultRestrictionHook h vaultPath toolName tool_input
            = Inr \<lparr>continue = True, hookSpecificOutput = None\<rparr>)
   \<and> (\<not> truthy (get tool_input ''file_path'')
      \<longrightarrow> refine_filePath ''Read'' tool_input = JStr [])
   \<and> (toolName \<noteq> ''Read'' \<and> \<not> truthy (get tool_input ''path'')
        \<and> \<not> truthy (get tool_input ''pattern'')
      \<longrightarrow> refine_filePath toolName tool_input = JStr [])
   \<and> (toolName \<noteq> TOOL_BASH T
      \<longrightarrow> (\<not> continue (fst (createVaultRestrictionHook T ctx toolName tool_input))
            \<longleftrightarrow> isFileTool T toolName
                \<and> (case getPathFromToolInput T toolName tool_input of
                      None \<Rightarrow> False
                    | Some p \<Rightarrow> p \<noteq> [] \<and> \<not> ctx_isPathWithinVault ctx p
                        \<and> \<not> (isEditTool T toolName \<and> ctx_isAllowedExportPath ctx p))))
   \<and> (toolName \<notin> {''Read'', ''Glob'', ''Grep''}
      \<longrightarrow> refine_createVaultRestrictionHook h vaultPath toolName tool_input
            = Inr \<lparr>continue = True, hookSpecificOutput = None\<rparr>)
   \<and> (toolName \<in> {''Read'', ''Glob'', ''Grep''} \<and> nullish tool_input
      \<longrightarrow> refine_createVaultRestrictionHook h vaultPath toolName tool_input = Inl TypeError)
   \<and> (toolName \<in> {''Read'', ''Glob'', ''Grep''} \<and> \<not> nullish tool_input
        \<and> refine_filePath toolName tool_input = JStr p \<and> p \<noteq> []
      \<longrightarrow> refine_createVaultRestrictionHook h vaultPath toolName tool_input
            = Inr (if isPathWithinVault h p vaultPath
                   then \<lparr>continue = True, hookSpecificOutput = None\<rparr>
                   else \<lparr>continue = False,
                         hookSpecificOutput =
                           Some \<lparr>hookEventName = ''PreToolUse'', permissionDecision = ''deny'',
                                 permissionDecisionReason =
                                   ''Access denied: '' @ [CHR 0x22] @ p @ [CHR 0x22]
                                     @ '' is outside the vault''\<rparr>\<rparr>))
   \<and> (toolName \<in> {''Read'', ''Glob'', ''Grep''} \<and> \<not> nullish tool_input
        \<and> truthy (refine_filePath toolName tool_input)
        \<and> \<not> isString (refine_filePath toolName tool_input)
      \<longrightarrow> refine_createVaultRestrictionHook h vaultPath toolName tool_input = Inl TypeError)
   \<and> (truthy (get tool_input ''file_path'')
      \<longrightarrow> refine_filePath ''Read'' tool_input = get tool_input ''file_path'')
   \<and> (toolName \<noteq> ''Read'' \<and> truthy (get tool_input ''path'')
      \<longrightarrow> refine_filePath toolName tool_input = get tool_input ''path'')
   \<and> (toolName \<noteq> ''Read'' \<and> \<not> truthy (get tool_input ''path'')
        \<and> truthy (get tool_input ''pattern'')
      \<longrightarrow> refine_filePath toolName tool_input = get tool_input ''pattern'')"
proof -
  have no_path: "(toolName \<noteq> TOOL_BASH T
        \<and> (getPathFromToolInput T toolName tool_input = None
            \<or> getPathFromToolInput T toolName tool_input = Some [])
        \<longrightarrow> createVaultRestrictionHook T ctx toolName tool_input
              = (\<lparr>continue = True, hookSpecificOutput = None\<rparr>, []))"
    by (auto simp add: createVaultRestrictionHook_def allow_def)
  have refine_empty: "(\<not> nullish tool_input \<and> refine_filePath toolName tool_input = JStr []
        \<longrightarrow> refine_createVaultRestrictionHook h vaultPath toolName tool_input
              = Inr \<lparr>continue = True, hookSpecificOutput = None\<rparr>)"
    by (simp add: refine_createVaultRestrictionHook_def allow_def)
  have read_falsy: "(\<not> truthy (get tool_input ''file_path'')
        \<longrightarrow> refine_filePath ''Read'' tool_input = JStr [])"
    by (simp add: refine_filePath_def js_or_def)
  have glob_falsy: "(toolName \<noteq> ''Read'' \<and> \<not> truthy (get tool_input ''path'')
          \<and> \<not> truthy (get tool_input ''pattern'')
        \<longrightarrow> refine_filePath toolName tool_input = JStr [])"
    by (simp add: refine_filePath_def js_or_def)
  have deny_iff: "(toolName \<noteq> TOOL_BASH T
        \<longrightarrow> (\<not> continue (fst (createVaultRestrictionHook T ctx toolName tool_input))
              \<longleftrightarrow> isFileTool T toolName
                  \<and> (case getPathFromToolInput T toolName tool_input of
                        None \<Rightarrow> False
                      | Some p \<Rightarrow> p \<noteq> [] \<and> \<not> ctx_isPathWithinVault ctx p
                          \<and> \<not> (isEditTool T toolName \<and> ctx_isAllowedExportPath ctx p))))"
    by (simp add: createVaultRestrictionHook_def allow_def deny_def split: option.splits)
  have other_tool: "(toolName \<notin> {''Read'', ''Glob'', ''Grep''}
        \<longrightarrow> refine_createVaultRestrictionHook h vaultPath toolName tool_input
              = Inr \<lparr>continue = True, hookSpecificOutput = None\<rparr>)"
    by (simp add: refine_createVaultRestrictionHook_def allow_def)
  have null_input: "(toolName \<in> {''Read'', ''Glob'', ''Grep''} \<and> nullish tool_input
        \<longrightarrow> refine_createVaultRestrictionHook h vaultPath toolName tool_input = Inl TypeError)"
    by (auto simp add: refine_createVaultRestrictionHook_def)
  have string_path: "(toolName \<in> {''Read'', ''Glob'', ''Grep''} \<and> \<not> nullish tool_input
          \<and> refine_filePath toolName tool_input = JStr p \<and> p \<noteq> []
        \<longrightarrow> refine_createVaultRestrictionHook h vaultPath toolName tool_input
              = Inr (if isPathWithinVault h p vaultPath
                     then \<lparr>continue = True, hookSpecificOutput = None\<rparr>
                     else \<lparr>continue = False,
                           hookSpecificOutput =
                             Some \<lparr>hookEventName = ''PreToolUse'', permissionDecision = ''deny'',
                                   permissionDecisionReason =
                                     ''Access denied: '' @ [CHR 0x22] @ p @ [CHR 0x22]
                                       @ '' is outside the vault''\<rparr>\<rparr>))"
    by (auto simp add: refine_createVaultRestrictionHook_def allow_def deny_def Let_def)
  have wrong_type: "(toolName \<in> {''Read'', ''Glob'', ''Grep''} \<and> \<not> nullish tool_input
          \<and> truthy (refine_filePath toolName tool_input)
          \<and> \<not> isString (refine_filePath toolName tool_input)
        \<longrightarrow> refine_createVaultRestrictionHook h vaultPath toolName tool_input = Inl TypeError)"
    by (cases "refine_filePath toolName tool_input")
       (auto simp add: refine_createVaultRestrictionHook_def Let_def)
  have read_truthy: "(truthy (get tool_input ''file_path'')
        \<longrightarrow> refine_filePath ''Read'' tool_input = get tool_input ''file_path'')"
    by (simp add: refine_filePath_def js_or_def)
  have path_truthy: "(toolName \<noteq> ''Read'' \<and> truthy (get tool_input ''path'')
        \<longrightarrow> refine_filePath toolName tool_input = get tool_input ''path'')"
    by (simp add: refine_filePath_def js_or_def)
  have pattern_truthy: "(toolName \<noteq> ''Read'' \<and> \<not> truthy (get tool_input ''path'')
          \<and> truthy (get tool_input ''pattern'')
        \<longrightarrow> refine_filePath toolName tool_input = get tool_input ''pattern'')"
    by (simp add: refine_filePath_def js_or_def)
  show ?thesis
    by (rule conjI[OF no_path conjI[OF refine_empty conjI[OF read_falsy conjI[OF glob_falsy
         conjI[OF deny_iff conjI[OF other_tool conjI[OF null_input conjI[OF string_path
         conjI[OF wrong_type conjI[OF read_truthy conjI[OF path_truthy
         pattern_truthy]]]]]]]]]]])
qed

text \<open>The theorem at a \<open>Read\<close> whose \<open>file_path\<close> is a number (the extractor
  of this instance returns \<open>null\<close> for it), at a \<open>Read\<close> whose \<open>file_path\<close> is
  \<open>0\<close>, at a \<open>Glob\<close> without arguments, at a \<open>Read\<close> of a file outside the
  vault, at a \<open>Grep\<close> whose \<open>path\<close> is an array, and at a \<open>Read\<close> without
  tool input.\<close>

theorem hooks_allow_without_path_witness:
  "createVaultRestrictionHook example_tools example_context ''Read''
       (JObj [(''file_path'', JNum 7)])
     = (\<lparr>continue = True, hookSpecificOutput = None\<rparr>, [])
   \<and> refine_createVaultRestrictionHook lexical_host ''/vault'' ''Read''
       (JObj [(''file_path'', JNum 0)])
     = Inr \<lparr>continue = True, hookSpecificOutput = None\<rparr>
   \<and> refine_createVaultRestrictionHook lexical_host ''/vault'' ''Glob'' (JObj [])
     = Inr \<lparr>continue = True, hookSpecificOutput = None\<rparr>
   \<and> refine_createVaultRestrictionHook lexical_host ''/vault'' ''Read''
       (JObj [(''file_path'', JStr ''/etc/passwd'')])
     = Inr \<lparr>continue = False,
            hookSpecificOutput =
              Some \<lparr>hookEventName = ''PreToolUse'', permissionDecision = ''deny'',
                    permissionDecisionReason =
                      ''Access denied: '' @ [CHR 0x22] @ ''/etc/passwd'' @ [CHR 0x22]
                        @ '' is outside the vault''\<rparr>\<rparr>
   \<and> refine_createVaultRestrictionHook lexical_host ''/vault'' ''Grep''
       (JObj [(''path'', JArr [])]) = Inl TypeError
   \<and> refine_createVaultRestrictionHook lexical_host ''/vault'' ''Read'' JUndefined
     = Inl TypeError"
proof -
  have w: "\<not> isPathWithinVault lexical_host ''/etc/passwd'' ''/vault''"
    by (simp add: isPathWithinVault_def resolveRealPath_def lexical_host_def path_resolve_def
          isAbsolute_def normalizeString_def normalize_segments_def normalize_step_def Let_def)
  show ?thesis
    using hooks_allow_without_path
        [where T = example_tools and ctx = example_context
           and toolName = "''Read''" and tool_input = "JObj [(''file_path'', JNum 7)]",
         THEN conjunct1]
      hooks_allow_without_path
        [where h = lexical_host and vaultPath = "''/vault''"
           and toolName = "''Read''" and tool_input = "JObj [(''file_path'', JNum 0)]",
         THEN conjunct2, THEN conjunct1]
      hooks_allow_without_path
        [where h = lexical_host and vaultPath = "''/vault''"
           and toolName = "''Glob''" and tool_input = "JObj []",
         THEN conjunct2, THEN conjunct1]
      hooks_allow_without_path
        [where h = lexical_host and vaultPath = "''/vault''" and p = "''/etc/passwd''"
           and toolName = "''Read''" and tool_input = "JObj [(''file_path'', JStr ''/etc/passwd'')]",
         THEN conjunct2, THEN conjunct2, THEN conjunct2, THEN conjunct2, THEN conjunct2, THEN conjunct2, THEN conjunct2, THEN conjunct1]
      hooks_allow_without_path
        [where h = lexical_host and vaultPath = "''/vault''"
           and toolName = "''Grep''" and tool_input = "JObj [(''path'', JArr [])]",
         THEN conjunct2, THEN conjunct2, THEN conjunct2, THEN conjunct2, THEN conjunct2, THEN conjunct2, THEN conjunct2, THEN conjunct2, THEN conjunct1]
      hooks_allow_without_path
        [where h = lexical_host and vaultPath = "''/vault''"
           and toolName = "''Read''" and tool_input = JUndefined,
         THEN conjunct2, THEN conjunct2, THEN conjunct2, THEN conjunct2, THEN conjunct2, THEN conjunct2, THEN conjunct1]
    by (simp add: example_tools_def refine_filePath_def js_or_def w)
qed

text \<open>The claim as stated, with a wrongly-typed path argument among those that pass,
  fails in the hook of the refine service at a \<open>Read\<close> whose \<open>file_path\<close> is the
  number 7: the path expression is that number, and the hook throws.\<close>

theorem refine_hook_wrongly_typed_counterexample:
  "refine_filePath ''Read'' (JObj [(''file_path'', JNum 7)]) = JNum 7
   \<and> refine_createVaultRestrictionHook lexical_host ''/vault'' ''Read''
       (JObj [(''file_path'', JNum 7)]) = Inl TypeError"
  by (simp add: refine_createVaultRestrictionHook_def refine_filePath_def js_or_def)

end
